theory Spec2Isabelle
  imports Complex_Main
begin

section \<open>Python values\<close>

text \<open>
  The handlers of the repository are Python functions over parsed JSON. A JSON value is
  modelled as the Python object \<open>json.loads\<close> produces: \<open>None\<close>, \<open>bool\<close>, \<open>int\<close>
  (unbounded), \<open>float\<close>, \<open>str\<close>, \<open>list\<close> and \<open>dict\<close> (an association list in insertion
  order; a lookup takes the first binding of a key).

  A float is either not-a-number, an infinity, or a finite value. The finite doubles are
  a subset of the rationals and the handlers only compare floats with constants, so a
  finite float is modelled by its exact rational value.
\<close>

datatype pyfloat = Finite rat | PosInf | NegInf | NaN

datatype json =
    JNull
  | JBool bool
  | JInt int
  | JFloat pyfloat
  | JStr string
  | JList "json list"
  | JObj "(string \<times> json) list"

text \<open>The exceptions that the modelled code can raise or receive from a client library.
  The client exceptions carry the text that \<open>str(e)\<close> returns.\<close>

datatype pyexc =
    TypeError
  | ValueError
  | KeyError
  | IndexError
  | AttributeError
  | OverflowError
  | NotFound string
  | GoogleAPIError string
  | RequestException string
  | OtherException string

text \<open>
  Functions of the Python standard library whose results depend on parsing or printing
  text are parameters of the model: the theorems hold for every choice of them.
  \<^item> \<open>int_of_str s\<close>: \<open>int(s)\<close> for a string, \<open>None\<close> for \<open>ValueError\<close>;
  \<^item> \<open>float_of_str s\<close>: \<open>float(s)\<close> for a string, \<open>None\<close> for \<open>ValueError\<close>;
  \<^item> \<open>float_of_int i\<close>: \<open>float(i)\<close> for an int, \<open>None\<close> for \<open>OverflowError\<close>;
  \<^item> \<open>strptime_ymd s\<close>: \<open>datetime.strptime(s, '%Y-%m-%d').date()\<close> as the day number
    \<open>date.toordinal()\<close>, \<open>None\<close> for \<open>ValueError\<close>;
  \<^item> \<open>date_isoformat d\<close>: \<open>date.isoformat()\<close> of the day with ordinal \<open>d\<close>;
  \<^item> \<open>datetime_isoformat t\<close>: \<open>datetime.isoformat()\<close> of the naive datetime that lies
    \<open>t\<close> microseconds after the midnight that begins day 0;
  \<^item> \<open>fromisoformat_iso s\<close>: \<open>datetime.fromisoformat(s).isoformat()\<close>, \<open>None\<close> for
    \<open>ValueError\<close>;
  \<^item> \<open>py_str v\<close>: \<open>str(v)\<close>, as an f-string prints a value;
  \<^item> \<open>exc_str e\<close>: \<open>str(e)\<close> of an exception raised by the interpreter itself;
  \<^item> \<open>float_mul_int i x\<close>: \<open>i * x\<close> for an int and a float, \<open>None\<close> for \<open>OverflowError\<close>;
  \<^item> \<open>float_add x y\<close>: \<open>x + y\<close> on floats;
  \<^item> \<open>round2 x\<close>: \<open>round(x, 2)\<close>.
\<close>

record pylib =
  int_of_str :: "string \<Rightarrow> int option"
  float_of_str :: "string \<Rightarrow> pyfloat option"
  float_of_int :: "int \<Rightarrow> pyfloat option"
  strptime_ymd :: "string \<Rightarrow> int option"
  date_isoformat :: "int \<Rightarrow> string"
  datetime_isoformat :: "int \<Rightarrow> string"
  fromisoformat_iso :: "string \<Rightarrow> string option"
  py_str :: "json \<Rightarrow> string"
  exc_str :: "pyexc \<Rightarrow> string"
  float_mul_int :: "int \<Rightarrow> pyfloat \<Rightarrow> pyfloat option"
  float_add :: "pyfloat \<Rightarrow> pyfloat \<Rightarrow> pyfloat"
  round2 :: "pyfloat \<Rightarrow> pyfloat"

subsection \<open>Operators of the language\<close>

text \<open>\<open>bool(v)\<close>, the test behind \<open>not data\<close> and \<open>if farm_id:\<close>.\<close>

fun truthy :: "json \<Rightarrow> bool" where
  "truthy JNull = False"
| "truthy (JBool b) = b"
| "truthy (JInt i) = (i \<noteq> 0)"
| "truthy (JFloat x) = (x \<noteq> Finite 0)"
| "truthy (JStr s) = (s \<noteq> [])"
| "truthy (JList xs) = (xs \<noteq> [])"
| "truthy (JObj kvs) = (kvs \<noteq> [])"

text \<open>\<open>x > c\<close> for a float \<open>x\<close> and a finite constant \<open>c\<close>.\<close>

fun float_gt :: "pyfloat \<Rightarrow> rat \<Rightarrow> bool" where
  "float_gt (Finite r) c = (c < r)"
| "float_gt PosInf c = True"
| "float_gt NegInf c = False"
| "float_gt NaN c = False"

fun starts_with :: "string \<Rightarrow> string \<Rightarrow> bool" where
  "starts_with [] s = True"
| "starts_with (p # ps) [] = False"
| "starts_with (p # ps) (c # cs) = (p = c \<and> starts_with ps cs)"

text \<open>\<open>sub in s\<close> for two strings.\<close>

fun contains :: "string \<Rightarrow> string \<Rightarrow> bool" where
  "contains sub [] = (sub = [])"
| "contains sub (c # cs) = (starts_with sub (c # cs) \<or> contains sub cs)"

text \<open>\<open>sep.join(xs)\<close>.\<close>

fun join :: "string \<Rightarrow> string list \<Rightarrow> string" where
  "join sep [] = []"
| "join sep [x] = x"
| "join sep (x # y # ys) = x @ sep @ join sep (y # ys)"

text \<open>\<open>field in data\<close> for a string \<open>field\<close>: key membership in a dict, element
  membership in a list, substring test in a string, \<open>TypeError\<close> for every other value.\<close>

fun py_in :: "string \<Rightarrow> json \<Rightarrow> pyexc + bool" where
  "py_in k (JObj kvs) = Inr (k \<in> set (map fst kvs))"
| "py_in k (JList xs) = Inr (JStr k \<in> set xs)"
| "py_in k (JStr s) = Inr (contains k s)"
| "py_in k JNull = Inl TypeError"
| "py_in k (JBool b) = Inl TypeError"
| "py_in k (JInt i) = Inl TypeError"
| "py_in k (JFloat x) = Inl TypeError"

text \<open>\<open>data[k]\<close> for a string \<open>k\<close>: only a dict can be indexed by a string.\<close>

fun subscript :: "json \<Rightarrow> string \<Rightarrow> pyexc + json" where
  "subscript (JObj kvs) k = (case map_of kvs k of None \<Rightarrow> Inl KeyError | Some v \<Rightarrow> Inr v)"
| "subscript JNull k = Inl TypeError"
| "subscript (JBool b) k = Inl TypeError"
| "subscript (JInt i) k = Inl TypeError"
| "subscript (JFloat x) k = Inl TypeError"
| "subscript (JStr s) k = Inl TypeError"
| "subscript (JList xs) k = Inl TypeError"

text \<open>\<open>data.get(k, default)\<close>; \<open>data.get(k)\<close> is \<open>get_default data k JNull\<close>. Only a dict
  has the method.\<close>

fun get_default :: "json \<Rightarrow> string \<Rightarrow> json \<Rightarrow> pyexc + json" where
  "get_default (JObj kvs) k d = (case map_of kvs k of None \<Rightarrow> Inr d | Some v \<Rightarrow> Inr v)"
| "get_default JNull k d = Inl AttributeError"
| "get_default (JBool b) k d = Inl AttributeError"
| "get_default (JInt i) k d = Inl AttributeError"
| "get_default (JFloat x) k d = Inl AttributeError"
| "get_default (JStr s) k d = Inl AttributeError"
| "get_default (JList xs) k d = Inl AttributeError"

text \<open>\<open>xs[0]\<close> for a list.\<close>

fun first_item :: "json \<Rightarrow> pyexc + json" where
  "first_item (JList []) = Inl IndexError"
| "first_item (JList (x # xs)) = Inr x"
| "first_item (JObj kvs) = Inl KeyError"
| "first_item (JStr s) = (case s of [] \<Rightarrow> Inl IndexError | c # cs \<Rightarrow> Inr (JStr [c]))"
| "first_item JNull = Inl TypeError"
| "first_item (JBool b) = Inl TypeError"
| "first_item (JInt i) = Inl TypeError"
| "first_item (JFloat x) = Inl TypeError"

text \<open>\<open>int(v)\<close>: truncation toward zero for a float.\<close>

fun py_int :: "pylib \<Rightarrow> json \<Rightarrow> pyexc + int" where
  "py_int L (JInt i) = Inr i"
| "py_int L (JBool b) = Inr (if b then 1 else 0)"
| "py_int L (JFloat (Finite r)) = Inr (if 0 \<le> r then \<lfloor>r\<rfloor> else \<lceil>r\<rceil>)"
| "py_int L (JFloat PosInf) = Inl OverflowError"
| "py_int L (JFloat NegInf) = Inl OverflowError"
| "py_int L (JFloat NaN) = Inl ValueError"
| "py_int L (JStr s) = (case int_of_str L s of None \<Rightarrow> Inl ValueError | Some i \<Rightarrow> Inr i)"
| "py_int L JNull = Inl TypeError"
| "py_int L (JList xs) = Inl TypeError"
| "py_int L (JObj kvs) = Inl TypeError"

text \<open>\<open>float(v)\<close>.\<close>

fun py_float :: "pylib \<Rightarrow> json \<Rightarrow> pyexc + pyfloat" where
  "py_float L (JFloat x) = Inr x"
| "py_float L (JInt i) = (case float_of_int L i of None \<Rightarrow> Inl OverflowError | Some x \<Rightarrow> Inr x)"
| "py_float L (JBool b) = Inr (Finite (if b then 1 else 0))"
| "py_float L (JStr s) = (case float_of_str L s of None \<Rightarrow> Inl ValueError | Some x \<Rightarrow> Inr x)"
| "py_float L JNull = Inl TypeError"
| "py_float L (JList xs) = Inl TypeError"
| "py_float L (JObj kvs) = Inl TypeError"

text \<open>\<open>datetime.strptime(v, '%Y-%m-%d').date()\<close>: \<open>TypeError\<close> unless \<open>v\<close> is a string.\<close>

fun py_strptime :: "pylib \<Rightarrow> json \<Rightarrow> pyexc + int" where
  "py_strptime L (JStr s) = (case strptime_ymd L s of None \<Rightarrow> Inl ValueError | Some d \<Rightarrow> Inr d)"
| "py_strptime L JNull = Inl TypeError"
| "py_strptime L (JBool b) = Inl TypeError"
| "py_strptime L (JInt i) = Inl TypeError"
| "py_strptime L (JFloat x) = Inl TypeError"
| "py_strptime L (JList xs) = Inl TypeError"
| "py_strptime L (JObj kvs) = Inl TypeError"

text \<open>\<open>s.replace(old, new)\<close> for a non-empty \<open>old\<close>: occurrences are replaced from the
  left and do not overlap.\<close>

function py_replace :: "string \<Rightarrow> string \<Rightarrow> string \<Rightarrow> string" where
  "py_replace old new [] = []"
| "py_replace old new (c # cs) =
     (if old \<noteq> [] \<and> starts_with old (c # cs)
      then new @ py_replace old new (drop (length old) (c # cs))
      else c # py_replace old new cs)"
  by pat_completeness auto
termination
  by (relation "measure (\<lambda>(old, new, s). length s)") (auto simp: neq_Nil_conv)

text \<open>\<open>str(e)\<close> of a caught exception.\<close>

fun str_exc :: "pylib \<Rightarrow> pyexc \<Rightarrow> string" where
  "str_exc L (NotFound m) = m"
| "str_exc L (GoogleAPIError m) = m"
| "str_exc L (RequestException m) = m"
| "str_exc L (OtherException m) = m"
| "str_exc L e = exc_str L e"

section \<open>The outside world\<close>

text \<open>
  A handler talks to the warehouse client, to web APIs, to the clock and to the random
  number generator. Each such call is recorded in a trace, and its result is read from an
  oracle at the position of the call in the trace. The theorems quantify over the oracle,
  so they cover every behaviour of the outside world.
\<close>

datatype qparam =
    ScalarQueryParameter string string json
  | ArrayQueryParameter string string json

datatype call =
    Query string "qparam list"
  | InsertRowsJson string "json list"
  | Uuid4
  | RandInt int int
  | RandomRandom
  | RandomUniform
  | RandomShuffle
  | DateToday
  | DatetimeNow
  | HttpGet string json
  | HttpPost string json json

text \<open>
  \<^item> \<open>w_query n\<close>: \<open>client.query(...).result()\<close> raises or yields rows;
  \<^item> \<open>w_insert n\<close>: \<open>client.insert_rows_json(...)\<close> raises or returns its list of errors;
  \<^item> \<open>w_uuid n\<close>: \<open>str(uuid.uuid4())\<close>;
  \<^item> \<open>w_nat n\<close>: the random source behind \<open>random.randint\<close>;
  \<^item> \<open>w_float n\<close>: the random source behind \<open>random.random\<close> and \<open>random.uniform\<close>;
  \<^item> \<open>w_today n\<close>: \<open>date.today()\<close> as a day ordinal;
  \<^item> \<open>w_now n\<close>: \<open>datetime.now()\<close> in microseconds;
  \<^item> \<open>w_http n\<close>: an HTTP request followed by \<open>raise_for_status()\<close> and \<open>json()\<close>
    raises or yields the decoded body.
\<close>

record world =
  w_query :: "nat \<Rightarrow> pyexc + json list"
  w_insert :: "nat \<Rightarrow> pyexc + json list"
  w_uuid :: "nat \<Rightarrow> string"
  w_nat :: "nat \<Rightarrow> nat"
  w_float :: "nat \<Rightarrow> pyfloat"
  w_today :: "nat \<Rightarrow> int"
  w_now :: "nat \<Rightarrow> int"
  w_http :: "nat \<Rightarrow> pyexc + json"

text \<open>\<open>random.randint(a, b)\<close> for \<open>a \<le> b\<close>: every value of the range is the image of
  some draw.\<close>

definition randint :: "world \<Rightarrow> call list \<Rightarrow> int \<Rightarrow> int \<Rightarrow> int \<times> call list" where
  "randint W tr a b = (a + int (w_nat W (length tr)) mod (b - a + 1), tr @ [RandInt a b])"

definition uuid4 :: "world \<Rightarrow> call list \<Rightarrow> string \<times> call list" where
  "uuid4 W tr = (w_uuid W (length tr), tr @ [Uuid4])"

section \<open>Warehouse helpers\<close>

text \<open>
  \<open>fetch_rows\<close> and \<open>insert_rows\<close> are the same in the three backends. Both return a
  pair \<open>(success, value)\<close>; on failure the value is the error text. The SQL text of a
  query is kept with its whitespace collapsed and with the table identifiers written as
  the placeholders of the f-string.
\<close>

text \<open>What \<open>fetch_rows\<close> returns for the query that is call \<open>n\<close> of the run: the
  three \<open>except\<close> clauses of the helper.\<close>

definition fetch_outcome :: "pylib \<Rightarrow> world \<Rightarrow> nat \<Rightarrow> bool \<times> json" where
  "fetch_outcome L W n =
     (case w_query W n of
        Inr results \<Rightarrow> (True, JList results)
      | Inl (NotFound m) \<Rightarrow> (False, JStr ''BigQuery table not found needed for query.'')
      | Inl e \<Rightarrow> (False, JStr (str_exc L e)))"

definition fetch_rows :: "pylib \<Rightarrow> world \<Rightarrow> call list \<Rightarrow> string \<Rightarrow> qparam list \<Rightarrow> (bool \<times> json) \<times> call list" where
  "fetch_rows L W tr query query_params =
     (fetch_outcome L W (length tr), tr @ [Query query query_params])"

text \<open>The expression
  \<open>errors[0].get('errors', [{'message': 'Unknown insert error'}])[0].get('message', 'Unknown error details')\<close>;
  an exception in it is caught by the last handler of \<open>insert_rows\<close>.\<close>

definition first_insert_error :: "json list \<Rightarrow> pyexc + json" where
  "first_insert_error errors =
     (case first_item (JList errors) of Inl e \<Rightarrow> Inl e | Inr e0 \<Rightarrow>
     (case get_default e0 ''errors'' (JList [JObj [(''message'', JStr ''Unknown insert error'')]]) of
        Inl e \<Rightarrow> Inl e | Inr es \<Rightarrow>
     (case first_item es of Inl e \<Rightarrow> Inl e | Inr e1 \<Rightarrow>
      get_default e1 ''message'' (JStr ''Unknown error details''))))"

text \<open>What \<open>insert_rows\<close> returns for the insert that is call \<open>n\<close> of the run.\<close>

definition insert_outcome :: "pylib \<Rightarrow> world \<Rightarrow> nat \<Rightarrow> string \<Rightarrow> bool \<times> json" where
  "insert_outcome L W n table_id =
     (case w_insert W n of
        Inr errors \<Rightarrow>
          (if errors \<noteq> []
           then (case first_insert_error errors of
                   Inr m \<Rightarrow> (False, m)
                 | Inl e \<Rightarrow> (False, JStr (str_exc L e)))
           else (True, JNull))
      | Inl (NotFound m) \<Rightarrow> (False, JStr (''BigQuery table not found: '' @ table_id))
      | Inl e \<Rightarrow> (False, JStr (str_exc L e)))"

definition insert_rows :: "pylib \<Rightarrow> world \<Rightarrow> call list \<Rightarrow> string \<Rightarrow> json list \<Rightarrow> (bool \<times> json) \<times> call list" where
  "insert_rows L W tr table_id rows_json =
     (insert_outcome L W (length tr) table_id, tr @ [InsertRowsJson table_id rows_json])"

section \<open>Request validation\<close>

text \<open>
  Every handler of the backends starts with the same two lines:
  \<^verbatim>\<open>if not data or not all(field in data for field in required_fields):\<close>
  \<^verbatim>\<open>    missing = [field for field in required_fields if not data or field not in data]\<close>
  \<open>all\<close> stops at the first field that is absent and raises where \<open>in\<close> raises.
  \<open>missing_fields\<close> is \<open>None\<close> when the condition is false and the list \<open>missing\<close>
  otherwise.
\<close>

fun all_in :: "string list \<Rightarrow> json \<Rightarrow> pyexc + bool" where
  "all_in [] data = Inr True"
| "all_in (f # fs) data =
     (case py_in f data of
        Inl e \<Rightarrow> Inl e
      | Inr present \<Rightarrow> if present then all_in fs data else Inr False)"

definition missing_fields :: "string list \<Rightarrow> json \<Rightarrow> pyexc + string list option" where
  "missing_fields required_fields data =
     (if \<not> truthy data then Inr (Some required_fields)
      else case all_in required_fields data of
             Inl e \<Rightarrow> Inl e
           | Inr ok \<Rightarrow>
               (if ok then Inr None
                else Inr (Some (filter (\<lambda>field. py_in field data \<noteq> Inr True) required_fields))))"

definition error_message :: "string \<Rightarrow> json" where
  "error_message m = JObj [(''status'', JStr ''error''), (''message'', JStr m)]"

definition missing_body :: "string list \<Rightarrow> json" where
  "missing_body missing = error_message (''Missing required fields in body: '' @ join '', '' missing)"

text \<open>The clause \<open>except (ValueError, TypeError)\<close>.\<close>

definition value_or_type_error :: "pyexc \<Rightarrow> bool" where
  "value_or_type_error e = (e = ValueError \<or> e = TypeError)"

text \<open>The clause \<open>except Exception as e: return 500, {...}\<close> that closes the \<open>try\<close>
  block of a handler: an exception raised inside the block becomes the given response;
  the calls made before it stay in the trace.\<close>

definition except_exception ::
  "(pyexc \<Rightarrow> int \<times> json) \<Rightarrow> (pyexc + int \<times> json) \<times> call list \<Rightarrow> (pyexc + int \<times> json) \<times> call list" where
  "except_exception h r = (case fst r of Inl e \<Rightarrow> (Inr (h e), snd r) | Inr x \<Rightarrow> r)"

text \<open>
  A naive \<open>datetime\<close> is its number of microseconds since the midnight that begins day 0
  of the proleptic calendar, so that the date with ordinal \<open>d\<close> starts at
  \<open>d * 86400000000\<close>. The type holds the years 1 to 9999 (ordinals 1 to 3652059), a
  \<open>timedelta\<close> holds at most 999999999 days either way; arithmetic outside raises
  \<open>OverflowError\<close>.
\<close>

definition us_per_day :: int where
  "us_per_day = 86400000000"

definition MAXORDINAL :: int where
  "MAXORDINAL = 3652059"

definition timedelta :: "int \<Rightarrow> int \<Rightarrow> int \<Rightarrow> pyexc + int" where
  "timedelta days hours minutes =
     (let us = days * us_per_day + hours * 3600000000 + minutes * 60000000
      in if - 999999999 \<le> us div us_per_day \<and> us div us_per_day \<le> 999999999
         then Inr us else Inl OverflowError)"

definition datetime_plus :: "int \<Rightarrow> int \<Rightarrow> pyexc + int" where
  "datetime_plus t delta =
     (if us_per_day \<le> t + delta \<and> t + delta < (MAXORDINAL + 1) * us_per_day
      then Inr (t + delta) else Inl OverflowError)"

text \<open>\<open>random.shuffle(xs)\<close>: the permutation is chosen by one draw of the oracle, read
  in the factorial number system.\<close>

function shuffle_with :: "nat \<Rightarrow> 'a list \<Rightarrow> 'a list" where
  "shuffle_with seed [] = []"
| "shuffle_with seed (x # xs) =
     (let n = length (x # xs); k = seed mod n
      in ((x # xs) ! k) # shuffle_with (seed div n) (take k (x # xs) @ drop (Suc k) (x # xs)))"
  by pat_completeness auto
termination
  by (relation "measure (\<lambda>(seed, xs). length xs)") auto

definition shuffle :: "world \<Rightarrow> call list \<Rightarrow> 'a list \<Rightarrow> 'a list \<times> call list" where
  "shuffle W tr xs = (shuffle_with (w_nat W (length tr)) xs, tr @ [RandomShuffle])"

definition datetime_now :: "world \<Rightarrow> call list \<Rightarrow> int \<times> call list" where
  "datetime_now W tr = (w_now W (length tr), tr @ [DatetimeNow])"

definition date_today :: "world \<Rightarrow> call list \<Rightarrow> int \<times> call list" where
  "date_today W tr = (w_today W (length tr), tr @ [DateToday])"

section \<open>LogiFresh backend (\<open>logifresh/main.py\<close>)\<close>

definition SHIPMENTS_TABLE :: string where
  "SHIPMENTS_TABLE = ''{PROJECT_ID}.{DATASET_ID}.shipments''"

definition VEHICLES_TABLE :: string where
  "VEHICLES_TABLE = ''{PROJECT_ID}.{DATASET_ID}.vehicles''"

definition INVENTORY_STOCK_TABLE :: string where
  "INVENTORY_STOCK_TABLE = ''{PROJECT_ID}.{DATASET_ID}.inventory_stock''"

definition CUSTOMERS_TABLE :: string where
  "CUSTOMERS_TABLE = ''{PROJECT_ID}.{DATASET_ID}.customers''"

definition COLD_CHAIN_READINGS_TABLE :: string where
  "COLD_CHAIN_READINGS_TABLE = ''{PROJECT_ID}.{DATASET_ID}.cold_chain_readings''"

subsection \<open>\<open>handle_track_shipment_location\<close>\<close>

definition shipment_query :: string where
  "shipment_query =
     ''SELECT shipment_id, order_id, origin_location_id, destination_location_id, '' @
     ''departure_timestamp, arrival_timestamp_estimate, arrival_timestamp_actual, '' @
     ''carrier_name, vehicle_id, status, total_quantity_kg, requires_cold_chain '' @
     ''FROM `'' @ SHIPMENTS_TABLE @ ''` WHERE shipment_id = @shipment_id LIMIT 1''"

definition cold_chain_query :: string where
  "cold_chain_query =
     ''SELECT timestamp, temperature_celsius, location, sensor_id '' @
     ''FROM `'' @ COLD_CHAIN_READINGS_TABLE @ ''` WHERE shipment_id = @shipment_id_cc '' @
     ''ORDER BY timestamp DESC LIMIT 10 -- Get recent readings''"

definition track_shipment_location_try ::
  "pylib \<Rightarrow> world \<Rightarrow> call list \<Rightarrow> json \<Rightarrow> (pyexc + int \<times> json) \<times> call list" where
  "track_shipment_location_try L W tr data =
     (case subscript data ''shipment_id'' of Inl e \<Rightarrow> (Inl e, tr) | Inr shipment_id \<Rightarrow>
     (case fetch_rows L W tr shipment_query [ScalarQueryParameter ''shipment_id'' ''STRING'' shipment_id] of
        ((success_s, shipment_details), tr1) \<Rightarrow>
     if \<not> success_s
     then (Inr (500, JObj [(''status'', JStr ''error''),
                           (''message'', JStr ''Failed to retrieve shipment details.''),
                           (''details'', shipment_details)]), tr1)
     else if \<not> truthy shipment_details
     then (Inr (200, JObj [(''status'', JStr ''not_found''),
                           (''message'', JStr (''Shipment ID '' @ py_str L shipment_id @ '' not found.''))]), tr1)
     else
     (case first_item shipment_details of Inl e \<Rightarrow> (Inl e, tr1) | Inr shipment_info \<Rightarrow>
     (case get_default shipment_info ''requires_cold_chain'' (JBool False) of
        Inl e \<Rightarrow> (Inl e, tr1) | Inr requires_cold_chain \<Rightarrow>
     (case (if truthy requires_cold_chain
            then (case fetch_rows L W tr1 cold_chain_query
                         [ScalarQueryParameter ''shipment_id_cc'' ''STRING'' shipment_id] of
                    ((success_cc, cold_chain_readings), tr2) \<Rightarrow>
                      ((success_cc, if \<not> success_cc then JList [] else cold_chain_readings), tr2))
            else ((True, JList []), tr1)) of
        ((success_cc, cold_chain_readings), tr2) \<Rightarrow>
     (let overall_success = (success_s \<and> success_cc) in
      if overall_success
      then (Inr (200, JObj [(''status'', JStr ''success''),
                            (''shipment_details'', shipment_info),
                            (''recent_cold_chain_readings'', cold_chain_readings)]), tr2)
      else
        (let error_messages =
               (if \<not> success_s then [''Shipment query failed: '' @ py_str L shipment_details] else []) @
               (if \<not> success_cc then [''Cold chain query failed: '' @ py_str L cold_chain_readings] else []);
             status_code = (if \<not> success_s then 500 else 200)
         in (Inr (status_code,
                  JObj [(''status'', JStr (if status_code = 200 then ''warning'' else ''error'')),
                        (''message'', JStr (if status_code = 200 then ''Data retrieval issues encountered.''
                                            else ''Failed to retrieve shipment data.'')),
                        (''details'', JStr (join '' | '' error_messages)),
                        (''shipment_details'', shipment_info),
                        (''recent_cold_chain_readings'', cold_chain_readings)]), tr2))))))))"

definition handle_track_shipment_location ::
  "pylib \<Rightarrow> world \<Rightarrow> call list \<Rightarrow> json \<Rightarrow> (pyexc + int \<times> json) \<times> call list" where
  "handle_track_shipment_location L W tr data =
     (case missing_fields [''shipment_id''] data of
        Inl e \<Rightarrow> (Inl e, tr)
      | Inr (Some missing) \<Rightarrow> (Inr (400, missing_body missing), tr)
      | Inr None \<Rightarrow>
          except_exception (\<lambda>e. (500, error_message ''An internal error occurred.''))
            (track_shipment_location_try L W tr data))"

subsection \<open>\<open>handle_report_cold_chain_issue\<close>\<close>

text \<open>\<open>datetime.fromisoformat(timestamp_str.replace('Z', '+00:00')).isoformat()\<close>: only a
  string has \<open>replace\<close>.\<close>

fun timestamp_iso_of :: "pylib \<Rightarrow> json \<Rightarrow> pyexc + string" where
  "timestamp_iso_of L (JStr s) =
     (case fromisoformat_iso L (py_replace ''Z'' ''+00:00'' s) of
        None \<Rightarrow> Inl ValueError
      | Some t \<Rightarrow> Inr t)"
| "timestamp_iso_of L JNull = Inl AttributeError"
| "timestamp_iso_of L (JBool b) = Inl AttributeError"
| "timestamp_iso_of L (JInt i) = Inl AttributeError"
| "timestamp_iso_of L (JFloat x) = Inl AttributeError"
| "timestamp_iso_of L (JList xs) = Inl AttributeError"
| "timestamp_iso_of L (JObj kvs) = Inl AttributeError"

text \<open>The message of a stored reading (lines 224 to 228).\<close>

definition cold_chain_message :: "pyfloat \<Rightarrow> string" where
  "cold_chain_message temperature_celsius_float =
     (let message = ''Cold chain reading reported successfully.'';
          message = (if float_gt temperature_celsius_float 8
                     then message @ '' Warning: Temperature is elevated.'' else message);
          message = (if float_gt temperature_celsius_float 15
                     then ''Critical: High temperature excursion reported.'' else message)
      in message)"

definition cold_chain_row :: "string \<Rightarrow> json \<Rightarrow> json \<Rightarrow> string \<Rightarrow> pyfloat \<Rightarrow> json \<Rightarrow> json \<Rightarrow> json" where
  "cold_chain_row reading_id shipment_id vehicle_id timestamp_iso temperature_celsius_float location sensor_id =
     JObj [(''reading_id'', JStr reading_id),
           (''shipment_id'', shipment_id),
           (''vehicle_id'', vehicle_id),
           (''timestamp'', JStr timestamp_iso),
           (''temperature_celsius'', JFloat temperature_celsius_float),
           (''location'', location),
           (''sensor_id'', sensor_id)]"

definition report_cold_chain_issue_try ::
  "pylib \<Rightarrow> world \<Rightarrow> call list \<Rightarrow> json \<Rightarrow> (pyexc + int \<times> json) \<times> call list" where
  "report_cold_chain_issue_try L W tr data =
     (case subscript data ''shipment_id'' of Inl e \<Rightarrow> (Inl e, tr) | Inr shipment_id \<Rightarrow>
     (case subscript data ''temperature_celsius'' of Inl e \<Rightarrow> (Inl e, tr) | Inr temperature_celsius \<Rightarrow>
     (case subscript data ''timestamp'' of Inl e \<Rightarrow> (Inl e, tr) | Inr timestamp_str \<Rightarrow>
     (case py_float L temperature_celsius of
        Inl e \<Rightarrow>
          (if value_or_type_error e
           then (Inr (400, error_message ''Invalid format for temperature_celsius. Expected number.''), tr)
           else (Inl e, tr))
      | Inr temperature_celsius_float \<Rightarrow>
     (case timestamp_iso_of L timestamp_str of
        Inl e \<Rightarrow>
          (if value_or_type_error e
           then (Inr (400, error_message ''Invalid timestamp format. Expected ISO 8601 format.''), tr)
           else (Inl e, tr))
      | Inr timestamp_iso \<Rightarrow>
     (case uuid4 W tr of (reading_id, tr1) \<Rightarrow>
     (case get_default data ''vehicle_id'' JNull of Inl e \<Rightarrow> (Inl e, tr1) | Inr vehicle_id \<Rightarrow>
     (case get_default data ''location'' JNull of Inl e \<Rightarrow> (Inl e, tr1) | Inr location \<Rightarrow>
     (case get_default data ''sensor_id'' (JStr ''Unknown'') of Inl e \<Rightarrow> (Inl e, tr1) | Inr sensor_id \<Rightarrow>
     (let row_to_insert = cold_chain_row reading_id shipment_id vehicle_id timestamp_iso
                            temperature_celsius_float location sensor_id
      in case insert_rows L W tr1 COLD_CHAIN_READINGS_TABLE [row_to_insert] of
           ((success, errors), tr2) \<Rightarrow>
             (if success
              then (Inr (200, JObj [(''status'', JStr ''success''),
                                    (''reading_id'', JStr reading_id),
                                    (''message'', JStr (cold_chain_message temperature_celsius_float))]), tr2)
              else (Inr (500, JObj [(''status'', JStr ''error''),
                                    (''message'', JStr ''Failed to report cold chain reading.''),
                                    (''details'', errors)]), tr2))))))))))))"

definition handle_report_cold_chain_issue ::
  "pylib \<Rightarrow> world \<Rightarrow> call list \<Rightarrow> json \<Rightarrow> (pyexc + int \<times> json) \<times> call list" where
  "handle_report_cold_chain_issue L W tr data =
     (case missing_fields [''shipment_id'', ''temperature_celsius'', ''timestamp''] data of
        Inl e \<Rightarrow> (Inl e, tr)
      | Inr (Some missing) \<Rightarrow> (Inr (400, missing_body missing), tr)
      | Inr None \<Rightarrow>
          except_exception (\<lambda>e. (500, error_message ''An internal error occurred.''))
            (report_cold_chain_issue_try L W tr data))"

subsection \<open>\<open>handle_check_warehouse_stock\<close>\<close>

definition stock_query :: "string list \<Rightarrow> string" where
  "stock_query where_clauses =
     ''SELECT stock_id, product_id, current_quantity_kg, entry_date, best_before_date, expiry_date, '' @
     ''storage_conditions, status FROM `'' @ INVENTORY_STOCK_TABLE @ ''` WHERE '' @
     join '' AND '' where_clauses @
     '' ORDER BY expiry_date ASC, best_before_date ASC -- Order by freshness LIMIT 20 -- Limit results''"

definition stock_query_params :: "json \<Rightarrow> json \<Rightarrow> json \<Rightarrow> qparam list" where
  "stock_query_params location_id status_filter product_id =
     [ScalarQueryParameter ''location_id'' ''STRING'' location_id,
      ScalarQueryParameter ''status_filter'' ''STRING'' status_filter] @
     (if truthy product_id then [ScalarQueryParameter ''product_id'' ''STRING'' product_id] else [])"

definition stock_where_clauses :: "json \<Rightarrow> json \<Rightarrow> string list" where
  "stock_where_clauses product_id nearing_expiry =
     [''location_id = @location_id'', ''status = @status_filter''] @
     (if truthy product_id then [''product_id = @product_id''] else []) @
     (if truthy nearing_expiry
      then [''expiry_date BETWEEN CURRENT_DATE() AND DATE_ADD(CURRENT_DATE(), INTERVAL 7 DAY)'']
      else [])"

definition check_warehouse_stock_try ::
  "pylib \<Rightarrow> world \<Rightarrow> call list \<Rightarrow> json \<Rightarrow> (pyexc + int \<times> json) \<times> call list" where
  "check_warehouse_stock_try L W tr data =
     (case subscript data ''location_id'' of Inl e \<Rightarrow> (Inl e, tr) | Inr location_id \<Rightarrow>
     (case get_default data ''product_id'' JNull of Inl e \<Rightarrow> (Inl e, tr) | Inr product_id \<Rightarrow>
     (case get_default data ''status'' (JStr ''Available'') of Inl e \<Rightarrow> (Inl e, tr) | Inr status_filter \<Rightarrow>
     (case get_default data ''nearing_expiry'' JNull of Inl e \<Rightarrow> (Inl e, tr) | Inr nearing_expiry \<Rightarrow>
     (case fetch_rows L W tr (stock_query (stock_where_clauses product_id nearing_expiry))
             (stock_query_params location_id status_filter product_id) of
        ((success, stock_items), tr1) \<Rightarrow>
          if success
          then (Inr (200, JObj [(''status'', JStr ''success''),
                                (''location_id'', location_id),
                                (''stock_items'', stock_items)]), tr1)
          else (Inr (500, JObj [(''status'', JStr ''error''),
                                (''message'', JStr ''Failed to retrieve warehouse stock.''),
                                (''details'', stock_items)]), tr1))))))"

definition handle_check_warehouse_stock ::
  "pylib \<Rightarrow> world \<Rightarrow> call list \<Rightarrow> json \<Rightarrow> (pyexc + int \<times> json) \<times> call list" where
  "handle_check_warehouse_stock L W tr data =
     (case missing_fields [''location_id''] data of
        Inl e \<Rightarrow> (Inl e, tr)
      | Inr (Some missing) \<Rightarrow> (Inr (400, missing_body missing), tr)
      | Inr None \<Rightarrow>
          except_exception (\<lambda>e. (500, error_message ''An internal error occurred.''))
            (check_warehouse_stock_try L W tr data))"

subsection \<open>\<open>handle_optimize_delivery_route\<close> of the backend\<close>

definition vehicle_query :: string where
  "vehicle_query =
     ''SELECT vehicle_id, vehicle_type, capacity_kg, has_temperature_monitoring, carrier_name '' @
     ''FROM `'' @ VEHICLES_TABLE @ ''` WHERE vehicle_id = @vehicle_id LIMIT 1''"

definition customer_query :: string where
  "customer_query =
     ''SELECT customer_id, shipping_address FROM `'' @ CUSTOMERS_TABLE @
     ''` WHERE customer_id IN UNNEST(@customer_ids)''"

text \<open>The loop over the shuffled customers (lines 361 to 370): stop \<open>i + 1\<close> is reached
  \<open>(i + 1) * estimated_duration_per_stop_minutes\<close> after the stop before it.\<close>

fun simulated_route ::
  "pylib \<Rightarrow> world \<Rightarrow> call list \<Rightarrow> int \<Rightarrow> nat \<Rightarrow> int \<Rightarrow> json list \<Rightarrow> (pyexc + json list) \<times> call list" where
  "simulated_route L W tr per_stop i current_time [] = (Inr [], tr)"
| "simulated_route L W tr per_stop i current_time (customer # rest) =
     (case timedelta 0 0 ((int i + 1) * per_stop) of Inl e \<Rightarrow> (Inl e, tr) | Inr delta \<Rightarrow>
     (case datetime_plus current_time delta of Inl e \<Rightarrow> (Inl e, tr) | Inr estimated_arrival \<Rightarrow>
     (case subscript customer ''customer_id'' of Inl e \<Rightarrow> (Inl e, tr) | Inr customer_id \<Rightarrow>
     (case subscript customer ''shipping_address'' of Inl e \<Rightarrow> (Inl e, tr) | Inr shipping_address \<Rightarrow>
     (case randint W tr 15 45 of (service, tr1) \<Rightarrow>
     (case simulated_route L W tr1 per_stop (Suc i) estimated_arrival rest of
        (Inl e, tr2) \<Rightarrow> (Inl e, tr2)
      | (Inr stops, tr2) \<Rightarrow>
          (Inr (JObj [(''stop_number'', JInt (int i + 1)),
                      (''destination_id'', customer_id),
                      (''destination_address'', shipping_address),
                      (''estimated_arrival_time'', JStr (datetime_isoformat L estimated_arrival)),
                      (''estimated_service_duration_minutes'', JInt service)] # stops), tr2)))))))"

definition optimize_delivery_route_try ::
  "pylib \<Rightarrow> world \<Rightarrow> call list \<Rightarrow> json \<Rightarrow> (pyexc + int \<times> json) \<times> call list" where
  "optimize_delivery_route_try L W tr data =
     (case subscript data ''vehicle_id'' of Inl e \<Rightarrow> (Inl e, tr) | Inr vehicle_id \<Rightarrow>
     (case subscript data ''destination_locations'' of Inl e \<Rightarrow> (Inl e, tr) | Inr destinations \<Rightarrow>
     (case fetch_rows L W tr vehicle_query [ScalarQueryParameter ''vehicle_id'' ''STRING'' vehicle_id] of
        ((success_v, vehicle_details), tr1) \<Rightarrow>
     if \<not> success_v
     then (Inr (500, JObj [(''status'', JStr ''error''),
                           (''message'', JStr ''Failed to retrieve vehicle details.''),
                           (''details'', vehicle_details)]), tr1)
     else if \<not> truthy vehicle_details
     then (Inr (200, JObj [(''status'', JStr ''not_found''),
                           (''message'', JStr (''Vehicle ID '' @ py_str L vehicle_id @ '' not found.''))]), tr1)
     else
     (case first_item vehicle_details of Inl e \<Rightarrow> (Inl e, tr1) | Inr vehicle_info \<Rightarrow>
     (case fetch_rows L W tr1 customer_query [ArrayQueryParameter ''customer_ids'' ''STRING'' destinations] of
        ((success_c, fetched), tr2) \<Rightarrow>
     (let customer_locations = (if \<not> success_c then JList [] else fetched) in
      if \<not> truthy customer_locations
      then (Inr (200, JObj [(''status'', JStr ''unavailable''),
                            (''message'', JStr ''Could not find valid destinations based on provided IDs.'')]), tr2)
      else
      (case customer_locations of
         JList rows \<Rightarrow>
           (case datetime_now W tr2 of (current_time, tr3) \<Rightarrow>
           (case randint W tr3 30 90 of (estimated_duration_per_stop_minutes, tr4) \<Rightarrow>
           (case shuffle W tr4 rows of (shuffled, tr5) \<Rightarrow>
           (case simulated_route L W tr5 estimated_duration_per_stop_minutes 0 current_time shuffled of
              (Inl e, tr6) \<Rightarrow> (Inl e, tr6)
            | (Inr route, tr6) \<Rightarrow>
                (Inr (200, JObj [(''status'', JStr ''success''),
                                 (''vehicle_id'', vehicle_id),
                                 (''num_stops'', JInt (int (length route))),
                                 (''estimated_total_duration_minutes'',
                                    JInt (int (length shuffled) * estimated_duration_per_stop_minutes)),
                                 (''route_stops'', JList route),
                                 (''message'', JStr ''Simulated route generated.'')]), tr6)))))
       | _ \<Rightarrow> (Inl TypeError, tr2))))))))"

text \<open>\<open>isinstance(v, list)\<close>.\<close>

fun is_list :: "json \<Rightarrow> bool" where
  "is_list (JList xs) = True"
| "is_list v = False"

definition handle_optimize_delivery_route ::
  "pylib \<Rightarrow> world \<Rightarrow> call list \<Rightarrow> json \<Rightarrow> (pyexc + int \<times> json) \<times> call list" where
  "handle_optimize_delivery_route L W tr data =
     (case missing_fields [''destination_locations'', ''vehicle_id''] data of
        Inl e \<Rightarrow> (Inl e, tr)
      | Inr (Some missing) \<Rightarrow> (Inr (400, missing_body missing), tr)
      | Inr None \<Rightarrow>
          (case subscript data ''destination_locations'' of
             Inl e \<Rightarrow> (Inl e, tr)
           | Inr destination_locations \<Rightarrow>
               if \<not> is_list destination_locations \<or> \<not> truthy destination_locations
               then (Inr (400, error_message ''Field 'destination_locations' must be a non-empty list.''), tr)
               else except_exception
                      (\<lambda>e. (500, error_message ''An internal error occurred during route optimization.''))
                      (optimize_delivery_route_try L W tr data)))"

subsection \<open>\<open>handle_schedule_farm_pickup_logistics\<close>\<close>

definition schedule_farm_pickup_logistics_try ::
  "pylib \<Rightarrow> world \<Rightarrow> call list \<Rightarrow> json \<Rightarrow> (pyexc + int \<times> json) \<times> call list" where
  "schedule_farm_pickup_logistics_try L W tr data =
     (case get_default data ''farm_id'' JNull of Inl e \<Rightarrow> (Inl e, tr) | Inr farm_id \<Rightarrow>
     (case get_default data ''product_id'' JNull of Inl e \<Rightarrow> (Inl e, tr) | Inr product_id \<Rightarrow>
     (case get_default data ''quantity_kg'' JNull of Inl e \<Rightarrow> (Inl e, tr) | Inr quantity_kg \<Rightarrow>
     (case get_default data ''requested_date'' JNull of Inl e \<Rightarrow> (Inl e, tr) | Inr requested_date \<Rightarrow>
        (Inr (200, JObj [(''status'', JStr ''acknowledged''),
                         (''message'', JStr ''Pickup request received by Logistics.'')]), tr)))))"

definition handle_schedule_farm_pickup_logistics ::
  "pylib \<Rightarrow> world \<Rightarrow> call list \<Rightarrow> json \<Rightarrow> (pyexc + int \<times> json) \<times> call list" where
  "handle_schedule_farm_pickup_logistics L W tr data =
     (case missing_fields [''farm_id'', ''product_id'', ''quantity_kg'', ''requested_date''] data of
        Inl e \<Rightarrow> (Inl e, tr)
      | Inr (Some missing) \<Rightarrow>
          (Inr (200, error_message
                  (''Logistics Pickup Request Error: Missing required fields: '' @ join '', '' missing)), tr)
      | Inr None \<Rightarrow>
          except_exception
            (\<lambda>e. (200, error_message (''Error processing logistics pickup request: '' @ str_exc L e)))
            (schedule_farm_pickup_logistics_try L W tr data))"

section \<open>HTTP requests and the entry points\<close>

text \<open>
  What a handler reads of a request: the method, the path, the \<open>Content-Type\<close> header
  (\<open>None\<close> when it is absent) and the result of \<open>request.get_json(silent=True)\<close>, which
  is \<open>None\<close> (here \<open>JNull\<close>) when the body is not JSON.
\<close>

record request =
  req_method :: string
  req_path :: string
  req_content_type :: "string option"
  req_json :: json

text \<open>\<open>s.lower()\<close> on the ASCII letters; no other character becomes a character of
  \<open>'application/json'\<close>.\<close>

definition py_lower :: "string \<Rightarrow> string" where
  "py_lower s =
     map (\<lambda>c. case map_of (zip ''ABCDEFGHIJKLMNOPQRSTUVWXYZ'' ''abcdefghijklmnopqrstuvwxyz'') c of
                 None \<Rightarrow> c
               | Some l \<Rightarrow> l) s"

text \<open>The branch \<open>if request_data is None\<close> of the three entry points.\<close>

definition no_json_response :: "request \<Rightarrow> json \<times> int" where
  "no_json_response req =
     (if py_lower (case req_content_type req of None \<Rightarrow> [] | Some v \<Rightarrow> v) \<noteq> ''application/json''
      then (error_message ''Unsupported Media Type. Expected 'application/json'.'', 415)
      else (error_message ''Invalid JSON body received.'', 400))"

definition not_found_response :: "request \<Rightarrow> json \<times> int" where
  "not_found_response req = (error_message (''Endpoint '' @ req_path req @ '' not found.''), 404)"

definition method_not_allowed_response :: "request \<Rightarrow> json \<times> int" where
  "method_not_allowed_response req =
     (error_message (''Method '' @ req_method req @ '' not allowed for path '' @ req_path req @ ''.''), 405)"

text \<open>The health check of an entry point: \<open>bigquery_client.query("SELECT 1").result(timeout=5)\<close>.\<close>

definition health_check :: "pylib \<Rightarrow> world \<Rightarrow> call list \<Rightarrow> string \<Rightarrow> (json \<times> int) \<times> call list" where
  "health_check L W tr name =
     (case w_query W (length tr) of
        Inr rows \<Rightarrow> (JStr (name @ '' AI Backend is running and connected to BigQuery!''), 200)
      | Inl e \<Rightarrow> (JStr (name @ '' AI Backend health check failed: '' @ str_exc L e), 500),
      tr @ [Query ''SELECT 1'' []])"

text \<open>A handler returns \<open>(status_code, response_body)\<close>, an entry point returns
  \<open>(response_body, status_code)\<close>.\<close>

definition respond :: "(pyexc + int \<times> json) \<times> call list \<Rightarrow> (pyexc + json \<times> int) \<times> call list" where
  "respond r = (case fst r of Inl e \<Rightarrow> (Inl e, snd r)
                | Inr (status_code, response_body) \<Rightarrow> (Inr (response_body, status_code), snd r))"

definition logifresh_backend_function ::
  "pylib \<Rightarrow> world \<Rightarrow> request \<Rightarrow> (pyexc + json \<times> int) \<times> call list" where
  "logifresh_backend_function L W req =
     (if req_method req = ''GET'' \<and> req_path req = ''/''
      then (case health_check L W [] ''LogiFresh'' of (r, tr) \<Rightarrow> (Inr r, tr))
      else if req_method req = ''POST''
      then (let request_data = req_json req in
            if request_data = JNull then (Inr (no_json_response req), [])
            else if req_path req = ''/shipment/status''
            then respond (handle_track_shipment_location L W [] request_data)
            else if req_path req = ''/issue/coldchain''
            then respond (handle_report_cold_chain_issue L W [] request_data)
            else if req_path req = ''/inventory/stock''
            then respond (handle_check_warehouse_stock L W [] request_data)
            else if req_path req = ''/route/optimize''
            then respond (handle_optimize_delivery_route L W [] request_data)
            else if req_path req = ''/logistics/schedule-pickup-request''
            then respond (handle_schedule_farm_pickup_logistics L W [] request_data)
            else (Inr (not_found_response req), []))
      else (Inr (method_not_allowed_response req), []))"

section \<open>AgriOptimize backend (\<open>agrioptimize/main.py\<close>)\<close>

definition FARM_PROFILES_TABLE :: string where
  "FARM_PROFILES_TABLE = ''{PROJECT_ID}.{DATASET_ID}.farm_profiles''"

definition HARVEST_RECORDS_TABLE :: string where
  "HARVEST_RECORDS_TABLE = ''{PROJECT_ID}.{DATASET_ID}.harvest_records''"

definition FARM_QC_ISSUES_TABLE :: string where
  "FARM_QC_ISSUES_TABLE = ''{PROJECT_ID}.{DATASET_ID}.farm_qc_issues''"

definition PLANTING_SCHEDULES_TABLE :: string where
  "PLANTING_SCHEDULES_TABLE = ''{PROJECT_ID}.{DATASET_ID}.planting_schedules''"

text \<open>A conversion inside \<open>try: ... except (ValueError, TypeError): return 400, ...\<close>: the
  two exceptions become the response, any other exception goes on to the enclosing
  handler.\<close>

definition or_400 :: "string \<Rightarrow> call list \<Rightarrow> pyexc \<Rightarrow> (pyexc + int \<times> json) \<times> call list" where
  "or_400 message tr e =
     (if value_or_type_error e then (Inr (400, error_message message), tr) else (Inl e, tr))"

subsection \<open>\<open>handle_log_harvest\<close>\<close>

text \<open>The optional numeric fields of the row (lines 131 to 139): a value that is not
  \<open>None\<close> is converted; \<open>planting_date\<close> is only validated.\<close>

definition log_harvest_try ::
  "pylib \<Rightarrow> world \<Rightarrow> call list \<Rightarrow> json \<Rightarrow> (pyexc + int \<times> json) \<times> call list" where
  "log_harvest_try L W tr data =
     (case subscript data ''harvest_date'' of
        Inl e \<Rightarrow> or_400 ''Invalid harvest_date format. Expected YYYY-MM-DD.'' tr e
      | Inr harvest_date_str \<Rightarrow>
     (case py_strptime L harvest_date_str of
        Inl e \<Rightarrow> or_400 ''Invalid harvest_date format. Expected YYYY-MM-DD.'' tr e
      | Inr harvest_date_obj \<Rightarrow>
     (let harvest_date_iso = date_isoformat L harvest_date_obj in
     (case uuid4 W tr of (harvest_id, tr1) \<Rightarrow>
     (case subscript data ''farm_id'' of Inl e \<Rightarrow> (Inl e, tr1) | Inr farm_id \<Rightarrow>
     (case subscript data ''product_id'' of Inl e \<Rightarrow> (Inl e, tr1) | Inr product_id \<Rightarrow>
     (case get_default data ''product_name'' JNull of Inl e \<Rightarrow> (Inl e, tr1) | Inr product_name \<Rightarrow>
     (case get_default data ''category'' JNull of Inl e \<Rightarrow> (Inl e, tr1) | Inr category \<Rightarrow>
     (case get_default data ''harvested_quantity_kg'' JNull of Inl e \<Rightarrow> (Inl e, tr1) | Inr harvested_quantity_kg \<Rightarrow>
     (case get_default data ''estimated_yield_kg'' JNull of Inl e \<Rightarrow> (Inl e, tr1) | Inr estimated_yield_kg \<Rightarrow>
     (case get_default data ''quality_score'' JNull of Inl e \<Rightarrow> (Inl e, tr1) | Inr quality_score \<Rightarrow>
     (case get_default data ''quality_notes'' (JStr []) of Inl e \<Rightarrow> (Inl e, tr1) | Inr quality_notes \<Rightarrow>
     (case get_default data ''photos_gcs_path'' JNull of Inl e \<Rightarrow> (Inl e, tr1) | Inr photos_gcs_path \<Rightarrow>
     (case get_default data ''planting_date'' JNull of Inl e \<Rightarrow> (Inl e, tr1) | Inr planting_date \<Rightarrow>
     (case get_default data ''field_id'' JNull of Inl e \<Rightarrow> (Inl e, tr1) | Inr field_id \<Rightarrow>
     (case py_int L harvested_quantity_kg of
        Inl e \<Rightarrow> or_400 ''Invalid format for harvested_quantity_kg. Expected integer.'' tr1 e
      | Inr harvested_quantity_kg_int \<Rightarrow>
     (case (if estimated_yield_kg \<noteq> JNull
            then (case py_int L estimated_yield_kg of Inl e \<Rightarrow> Inl e | Inr i \<Rightarrow> Inr (JInt i))
            else Inr estimated_yield_kg) of
        Inl e \<Rightarrow> or_400 ''Invalid format for estimated_yield_kg. Expected integer.'' tr1 e
      | Inr estimated_yield_kg_int \<Rightarrow>
     (case (if quality_score \<noteq> JNull
            then (case py_float L quality_score of Inl e \<Rightarrow> Inl e | Inr x \<Rightarrow> Inr (JFloat x))
            else Inr quality_score) of
        Inl e \<Rightarrow> or_400 ''Invalid format for quality_score. Expected number.'' tr1 e
      | Inr quality_score_float \<Rightarrow>
     (case (if planting_date \<noteq> JNull
            then (case py_strptime L planting_date of Inl e \<Rightarrow> Inl e | Inr d \<Rightarrow> Inr ())
            else Inr ()) of
        Inl e \<Rightarrow> or_400 ''Invalid planting_date format. Expected YYYY-MM-DD.'' tr1 e
      | Inr u \<Rightarrow>
     (let row_to_insert =
            JObj [(''harvest_id'', JStr harvest_id),
                  (''farm_id'', farm_id),
                  (''product_id'', product_id),
                  (''product_name'', product_name),
                  (''category'', category),
                  (''harvest_date'', JStr harvest_date_iso),
                  (''harvested_quantity_kg'', JInt harvested_quantity_kg_int),
                  (''estimated_yield_kg'', estimated_yield_kg_int),
                  (''quality_score'', quality_score_float),
                  (''quality_notes'', quality_notes),
                  (''photos_gcs_path'', photos_gcs_path),
                  (''planting_date'', planting_date),
                  (''field_id'', field_id)]
      in case insert_rows L W tr1 HARVEST_RECORDS_TABLE [row_to_insert] of
           ((success, errors), tr2) \<Rightarrow>
             if success
             then (Inr (200, JObj [(''status'', JStr ''success''),
                                   (''harvest_id'', JStr harvest_id),
                                   (''message'', JStr ''Harvest record logged successfully.'')]), tr2)
             else (Inr (500, JObj [(''status'', JStr ''error''),
                                   (''message'', JStr ''Failed to log harvest record.''),
                                   (''details'', errors)]), tr2)))))))))))))))))))))"

definition handle_log_harvest ::
  "pylib \<Rightarrow> world \<Rightarrow> call list \<Rightarrow> json \<Rightarrow> (pyexc + int \<times> json) \<times> call list" where
  "handle_log_harvest L W tr data =
     (case missing_fields [''farm_id'', ''product_id'', ''harvested_quantity_kg'', ''harvest_date''] data of
        Inl e \<Rightarrow> (Inl e, tr)
      | Inr (Some missing) \<Rightarrow> (Inr (400, missing_body missing), tr)
      | Inr None \<Rightarrow>
          except_exception (\<lambda>e. (500, error_message ''An internal error occurred.''))
            (log_harvest_try L W tr data))"

subsection \<open>\<open>handle_report_farm_qc_issue\<close>\<close>

text \<open>\<open>data.get('issue_date', date.today().isoformat())\<close>: the method is looked up before
  its arguments are evaluated, so the clock is read only when \<open>data\<close> is a dict.\<close>

definition get_or_today ::
  "pylib \<Rightarrow> world \<Rightarrow> call list \<Rightarrow> json \<Rightarrow> string \<Rightarrow> (pyexc + json) \<times> call list" where
  "get_or_today L W tr data k =
     (case data of
        JObj kvs \<Rightarrow>
          (case date_today W tr of (today, tr1) \<Rightarrow>
             (get_default data k (JStr (date_isoformat L today)), tr1))
      | _ \<Rightarrow> (Inl AttributeError, tr))"

definition report_farm_qc_issue_try ::
  "pylib \<Rightarrow> world \<Rightarrow> call list \<Rightarrow> json \<Rightarrow> (pyexc + int \<times> json) \<times> call list" where
  "report_farm_qc_issue_try L W tr data =
     (case get_or_today L W tr data ''issue_date'' of
        (Inl e, tr0) \<Rightarrow> (Inl e, tr0)
      | (Inr issue_date_str, tr0) \<Rightarrow>
     (case py_strptime L issue_date_str of
        Inl e \<Rightarrow> or_400 ''Invalid issue_date format. Expected YYYY-MM-DD.'' tr0 e
      | Inr issue_date_obj \<Rightarrow>
     (let issue_date_iso = date_isoformat L issue_date_obj in
     (case uuid4 W tr0 of (issue_id, tr1) \<Rightarrow>
     (case subscript data ''farm_id'' of Inl e \<Rightarrow> (Inl e, tr1) | Inr farm_id \<Rightarrow>
     (case get_default data ''product_id'' JNull of Inl e \<Rightarrow> (Inl e, tr1) | Inr product_id \<Rightarrow>
     (case subscript data ''issue_type'' of Inl e \<Rightarrow> (Inl e, tr1) | Inr issue_type \<Rightarrow>
     (case get_default data ''affected_quantity_kg'' JNull of Inl e \<Rightarrow> (Inl e, tr1) | Inr affected_quantity_kg \<Rightarrow>
     (case get_default data ''severity'' (JStr ''Medium'') of Inl e \<Rightarrow> (Inl e, tr1) | Inr severity \<Rightarrow>
     (case get_default data ''reported_by'' (JStr ''AI Agent'') of Inl e \<Rightarrow> (Inl e, tr1) | Inr reported_by \<Rightarrow>
     (case get_default data ''notes'' (JStr []) of Inl e \<Rightarrow> (Inl e, tr1) | Inr notes \<Rightarrow>
     (case get_default data ''photos_gcs_path'' JNull of Inl e \<Rightarrow> (Inl e, tr1) | Inr photos_gcs_path \<Rightarrow>
     (case (if affected_quantity_kg \<noteq> JNull
            then (case py_int L affected_quantity_kg of Inl e \<Rightarrow> Inl e | Inr i \<Rightarrow> Inr (JInt i))
            else Inr affected_quantity_kg) of
        Inl e \<Rightarrow> or_400 ''Invalid format for affected_quantity_kg. Expected integer.'' tr1 e
      | Inr affected_quantity_kg_int \<Rightarrow>
     (let row_to_insert =
            JObj [(''issue_id'', JStr issue_id),
                  (''farm_id'', farm_id),
                  (''product_id'', product_id),
                  (''issue_date'', JStr issue_date_iso),
                  (''issue_type'', issue_type),
                  (''affected_quantity_kg'', affected_quantity_kg_int),
                  (''severity'', severity),
                  (''reported_by'', reported_by),
                  (''notes'', notes),
                  (''photos_gcs_path'', photos_gcs_path)]
      in case insert_rows L W tr1 FARM_QC_ISSUES_TABLE [row_to_insert] of
           ((success, errors), tr2) \<Rightarrow>
             if success
             then (Inr (200, JObj [(''status'', JStr ''success''),
                                   (''issue_id'', JStr issue_id),
                                   (''message'', JStr ''Farm quality issue reported successfully.'')]), tr2)
             else (Inr (500, JObj [(''status'', JStr ''error''),
                                   (''message'', JStr ''Failed to report quality issue.''),
                                   (''details'', errors)]), tr2)))))))))))))))"

definition handle_report_farm_qc_issue ::
  "pylib \<Rightarrow> world \<Rightarrow> call list \<Rightarrow> json \<Rightarrow> (pyexc + int \<times> json) \<times> call list" where
  "handle_report_farm_qc_issue L W tr data =
     (case missing_fields [''farm_id'', ''issue_type''] data of
        Inl e \<Rightarrow> (Inl e, tr)
      | Inr (Some missing) \<Rightarrow> (Inr (400, missing_body missing), tr)
      | Inr None \<Rightarrow>
          except_exception (\<lambda>e. (500, error_message ''An internal error occurred.''))
            (report_farm_qc_issue_try L W tr data))"

subsection \<open>\<open>handle_get_harvest_advice\<close>\<close>

definition harvest_query :: "string \<Rightarrow> string" where
  "harvest_query harvest_where_sql =
     ''SELECT harvest_date, harvested_quantity_kg, quality_score, quality_notes FROM `'' @
     HARVEST_RECORDS_TABLE @ ''` '' @ harvest_where_sql @ '' ORDER BY harvest_date DESC LIMIT 5''"

definition qc_query :: "string \<Rightarrow> string" where
  "qc_query qc_where_sql =
     ''SELECT issue_date, issue_type, severity, notes FROM `'' @
     FARM_QC_ISSUES_TABLE @ ''` '' @ qc_where_sql @ '' ORDER BY issue_date DESC LIMIT 5''"

definition schedule_query :: "string \<Rightarrow> string" where
  "schedule_query schedule_where_sql =
     ''SELECT planned_planting_date, planned_harvest_date_estimate, expected_yield_estimate_kg, status FROM `'' @
     PLANTING_SCHEDULES_TABLE @ ''` '' @ schedule_where_sql @ '' ORDER BY planned_planting_date ASC LIMIT 5''"

definition farm_query :: string where
  "farm_query =
     ''SELECT farm_name, farm_location, primary_crops_grown FROM `'' @
     FARM_PROFILES_TABLE @ ''` WHERE farm_id = @farm_id_f LIMIT 1''"

text \<open>\<open>"WHERE " + " AND ".join(clauses) if clauses else ""\<close>.\<close>

definition where_sql :: "string list \<Rightarrow> string" where
  "where_sql clauses = (if clauses \<noteq> [] then ''WHERE '' @ join '' AND '' clauses else [])"

text \<open>The parameters and clauses of the three queries (lines 164 to 207).\<close>

definition date_params :: "json \<Rightarrow> json \<Rightarrow> qparam list" where
  "date_params start_date_str end_date_str =
     (if truthy start_date_str \<and> truthy end_date_str
      then [ScalarQueryParameter ''start_date'' ''DATE'' start_date_str,
            ScalarQueryParameter ''end_date'' ''DATE'' end_date_str]
      else if truthy start_date_str
      then [ScalarQueryParameter ''start_date'' ''DATE'' start_date_str]
      else if truthy end_date_str
      then [ScalarQueryParameter ''end_date'' ''DATE'' end_date_str]
      else [])"

definition harvest_params :: "json \<Rightarrow> json \<Rightarrow> json \<Rightarrow> json \<Rightarrow> qparam list" where
  "harvest_params farm_id product_id start_date_str end_date_str =
     (if truthy farm_id then [ScalarQueryParameter ''farm_id_h'' ''STRING'' farm_id] else []) @
     (if truthy product_id then [ScalarQueryParameter ''product_id_h'' ''STRING'' product_id] else []) @
     date_params start_date_str end_date_str"

definition qc_params :: "json \<Rightarrow> json \<Rightarrow> json \<Rightarrow> json \<Rightarrow> qparam list" where
  "qc_params farm_id product_id start_date_str end_date_str =
     (if truthy farm_id then [ScalarQueryParameter ''farm_id_qc'' ''STRING'' farm_id] else []) @
     (if truthy product_id then [ScalarQueryParameter ''product_id_qc'' ''STRING'' product_id] else []) @
     date_params start_date_str end_date_str"

definition schedule_params :: "json \<Rightarrow> json \<Rightarrow> qparam list" where
  "schedule_params farm_id product_id =
     (if truthy farm_id then [ScalarQueryParameter ''farm_id_sched'' ''STRING'' farm_id] else []) @
     (if truthy product_id then [ScalarQueryParameter ''product_id_sched'' ''STRING'' product_id] else [])"

definition harvest_where_clauses :: "json \<Rightarrow> json \<Rightarrow> json \<Rightarrow> json \<Rightarrow> string list" where
  "harvest_where_clauses farm_id product_id start_date_str end_date_str =
     (if truthy farm_id then [''farm_id = @farm_id_h''] else []) @
     (if truthy product_id then [''product_id = @product_id_h''] else []) @
     (if truthy start_date_str \<and> truthy end_date_str
      then [''harvest_date BETWEEN @start_date AND @end_date'']
      else if truthy start_date_str then [''harvest_date >= @start_date'']
      else if truthy end_date_str then [''harvest_date <= @end_date'']
      else [''harvest_date >= DATE_SUB(CURRENT_DATE(), INTERVAL 90 DAY)''])"

definition qc_where_clauses :: "json \<Rightarrow> json \<Rightarrow> json \<Rightarrow> json \<Rightarrow> string list" where
  "qc_where_clauses farm_id product_id start_date_str end_date_str =
     (if truthy farm_id then [''farm_id = @farm_id_qc''] else []) @
     (if truthy product_id then [''(product_id IS NULL OR product_id = @product_id_qc)''] else []) @
     (if truthy start_date_str \<and> truthy end_date_str
      then [''issue_date BETWEEN @start_date AND @end_date'']
      else if truthy start_date_str then [''issue_date >= @start_date'']
      else if truthy end_date_str then [''issue_date <= @end_date'']
      else [''issue_date >= DATE_SUB(CURRENT_DATE(), INTERVAL 90 DAY)''])"

definition schedule_where_clauses :: "json \<Rightarrow> json \<Rightarrow> string list" where
  "schedule_where_clauses farm_id product_id =
     [''planned_harvest_date_estimate >= CURRENT_DATE()''] @
     (if truthy farm_id then [''farm_id = @farm_id_sched''] else []) @
     (if truthy product_id then [''product_id = @product_id_sched''] else [])"

definition get_harvest_advice_try ::
  "pylib \<Rightarrow> world \<Rightarrow> call list \<Rightarrow> json \<Rightarrow> json \<Rightarrow> json \<Rightarrow> json \<Rightarrow> (pyexc + int \<times> json) \<times> call list" where
  "get_harvest_advice_try L W tr farm_id product_id start_date_str end_date_str =
     (case fetch_rows L W tr
             (harvest_query (where_sql (harvest_where_clauses farm_id product_id start_date_str end_date_str)))
             (harvest_params farm_id product_id start_date_str end_date_str) of
        ((success_h, harvests), tr1) \<Rightarrow>
     (case fetch_rows L W tr1
             (qc_query (where_sql (qc_where_clauses farm_id product_id start_date_str end_date_str)))
             (qc_params farm_id product_id start_date_str end_date_str) of
        ((success_q, qc_issues), tr2) \<Rightarrow>
     (case fetch_rows L W tr2
             (schedule_query (''WHERE '' @ join '' AND '' (schedule_where_clauses farm_id product_id)))
             (schedule_params farm_id product_id) of
        ((success_s, schedules), tr3) \<Rightarrow>
     (case (if truthy farm_id
            then (case fetch_rows L W tr3 farm_query [ScalarQueryParameter ''farm_id_f'' ''STRING'' farm_id] of
                    ((success_f, farm_info), tr4) \<Rightarrow>
                      (if success_f \<and> truthy farm_info
                       then (case first_item farm_info of
                               Inl e \<Rightarrow> Inl e
                             | Inr row \<Rightarrow> Inr (success_f, farm_info, row))
                       else Inr (success_f, farm_info, JObj []), tr4))
            else (Inr (True, JNull, JObj []), tr3)) of
        (Inl e, tr4) \<Rightarrow> (Inl e, tr4)
      | (Inr (success_f, farm_info, farm_details), tr4) \<Rightarrow>
     (let overall_success = (success_h \<and> success_q \<and> success_s \<and> success_f) in
      if overall_success
      then (Inr (200, JObj [(''status'', JStr ''success''),
                            (''farm_details'', farm_details),
                            (''recent_harvests'', harvests),
                            (''recent_qc_issues'', qc_issues),
                            (''upcoming_schedules'', schedules)]), tr4)
      else
        (let error_messages =
               (if \<not> success_h then [''Harvest query failed: '' @ py_str L harvests] else []) @
               (if \<not> success_q then [''QC query failed: '' @ py_str L qc_issues] else []) @
               (if \<not> success_s then [''Schedule query failed: '' @ py_str L schedules] else []) @
               (if \<not> success_f \<and> truthy farm_id then [''Farm query failed: '' @ py_str L farm_info] else []);
             status_code =
               (if truthy harvests \<or> truthy qc_issues \<or> truthy schedules \<or> truthy farm_details
                then 200 else 500)
         in (Inr (status_code,
                  JObj [(''status'', JStr (if status_code = 200 then ''warning'' else ''error'')),
                        (''message'', JStr (if status_code = 200 then ''Data retrieval issues encountered.''
                                            else ''Failed to retrieve data for advice.'')),
                        (''details'', JStr (join '' | '' error_messages)),
                        (''farm_details'', farm_details),
                        (''recent_harvests'', harvests),
                        (''recent_qc_issues'', qc_issues),
                        (''upcoming_schedules'', schedules)]), tr4)))))))"

text \<open>The four \<open>data.get\<close> calls stand before the \<open>try\<close>: their exception leaves the
  handler.\<close>

definition handle_get_harvest_advice ::
  "pylib \<Rightarrow> world \<Rightarrow> call list \<Rightarrow> json \<Rightarrow> (pyexc + int \<times> json) \<times> call list" where
  "handle_get_harvest_advice L W tr data =
     (case get_default data ''farm_id'' JNull of Inl e \<Rightarrow> (Inl e, tr) | Inr farm_id \<Rightarrow>
     (case get_default data ''product_id'' JNull of Inl e \<Rightarrow> (Inl e, tr) | Inr product_id \<Rightarrow>
     (case get_default data ''start_date'' JNull of Inl e \<Rightarrow> (Inl e, tr) | Inr start_date_str \<Rightarrow>
     (case get_default data ''end_date'' JNull of Inl e \<Rightarrow> (Inl e, tr) | Inr end_date_str \<Rightarrow>
        except_exception (\<lambda>e. (500, error_message ''An internal error occurred while getting advice.''))
          (get_harvest_advice_try L W tr farm_id product_id start_date_str end_date_str)))))"

subsection \<open>\<open>handle_schedule_farm_pickup\<close>\<close>

definition availability_query :: string where
  "availability_query =
     ''SELECT SUM(harvested_quantity_kg) as total_harvested FROM `'' @ HARVEST_RECORDS_TABLE @
     ''` WHERE farm_id = @farm_id AND product_id = @product_id '' @
     ''AND harvest_date >= DATE_SUB(@requested_date, INTERVAL 7 DAY)''"

text \<open>\<open>v >= q\<close> for a value of a row and an int; numbers compare exactly, any other
  value raises \<open>TypeError\<close>.\<close>

fun py_ge_int :: "json \<Rightarrow> int \<Rightarrow> pyexc + bool" where
  "py_ge_int (JInt a) q = Inr (q \<le> a)"
| "py_ge_int (JBool b) q = Inr (q \<le> (if b then 1 else 0))"
| "py_ge_int (JFloat (Finite r)) q = Inr (of_int q \<le> r)"
| "py_ge_int (JFloat PosInf) q = Inr True"
| "py_ge_int (JFloat NegInf) q = Inr False"
| "py_ge_int (JFloat NaN) q = Inr False"
| "py_ge_int JNull q = Inl TypeError"
| "py_ge_int (JStr s) q = Inl TypeError"
| "py_ge_int (JList xs) q = Inl TypeError"
| "py_ge_int (JObj kvs) q = Inl TypeError"

text \<open>\<open>x < c\<close> for a float \<open>x\<close> and a finite constant \<open>c\<close>.\<close>

fun float_lt :: "pyfloat \<Rightarrow> rat \<Rightarrow> bool" where
  "float_lt (Finite r) c = (r < c)"
| "float_lt PosInf c = False"
| "float_lt NegInf c = True"
| "float_lt NaN c = False"

text \<open>\<open>rows[0][column] if success and rows and rows[0][column] is not None else 0\<close>.\<close>

definition first_value_or_0 :: "bool \<Rightarrow> json \<Rightarrow> string \<Rightarrow> pyexc + json" where
  "first_value_or_0 success rows column =
     (if success \<and> truthy rows
      then (case first_item rows of Inl e \<Rightarrow> Inl e | Inr row \<Rightarrow>
           (case subscript row column of Inl e \<Rightarrow> Inl e | Inr v \<Rightarrow>
              Inr (if v \<noteq> JNull then v else JInt 0)))
      else Inr (JInt 0))"

definition schedule_farm_pickup_try ::
  "pylib \<Rightarrow> world \<Rightarrow> call list \<Rightarrow> json \<Rightarrow> (pyexc + int \<times> json) \<times> call list" where
  "schedule_farm_pickup_try L W tr data =
     (case subscript data ''requested_date'' of Inl e \<Rightarrow> (Inl e, tr) | Inr requested_date_str \<Rightarrow>
     (case py_strptime L requested_date_str of
        Inl e \<Rightarrow> or_400 ''Invalid requested_date format. Expected YYYY-MM-DD.'' tr e
      | Inr requested_date_obj \<Rightarrow>
     (let requested_date_iso = date_isoformat L requested_date_obj in
     (case subscript data ''quantity_kg'' of Inl e \<Rightarrow> (Inl e, tr) | Inr quantity_kg \<Rightarrow>
     (case py_int L quantity_kg of
        Inl e \<Rightarrow> or_400 ''Invalid format for quantity_kg. Expected integer.'' tr e
      | Inr quantity_kg_int \<Rightarrow>
     (case subscript data ''farm_id'' of Inl e \<Rightarrow> (Inl e, tr) | Inr farm_id \<Rightarrow>
     (case subscript data ''product_id'' of Inl e \<Rightarrow> (Inl e, tr) | Inr product_id \<Rightarrow>
     (case fetch_rows L W tr availability_query
             [ScalarQueryParameter ''farm_id'' ''STRING'' farm_id,
              ScalarQueryParameter ''product_id'' ''STRING'' product_id,
              ScalarQueryParameter ''requested_date'' ''DATE'' (JStr requested_date_iso)] of
        ((success_avail, availability_result), tr1) \<Rightarrow>
     (case first_value_or_0 success_avail availability_result ''total_harvested'' of
        Inl e \<Rightarrow> (Inl e, tr1) | Inr available_kg \<Rightarrow>
     if \<not> success_avail
     then (Inr (500, JObj [(''status'', JStr ''error''),
                           (''message'', JStr ''Failed to check farm availability.''),
                           (''details'', availability_result)]), tr1)
     else
     (case py_ge_int available_kg quantity_kg_int of
        Inl e \<Rightarrow> (Inl e, tr1) | Inr is_available_for_pickup \<Rightarrow>
     if is_available_for_pickup
     then
       (case randint W tr1 0 2 of (days, tr2) \<Rightarrow>
       (case randint W tr2 8 16 of (hours, tr3) \<Rightarrow>
       (case randint W tr3 0 59 of (minutes, tr4) \<Rightarrow>
       (case timedelta days hours minutes of Inl e \<Rightarrow> (Inl e, tr4) | Inr delta \<Rightarrow>
       (case datetime_plus (requested_date_obj * us_per_day) delta of
          Inl e \<Rightarrow> (Inl e, tr4) | Inr estimated_pickup_datetime \<Rightarrow>
       (let pickup_confirmation =
              JObj [(''request_status'', JStr ''Acknowledged''),
                    (''estimated_pickup_datetime'', JStr (datetime_isoformat L estimated_pickup_datetime)),
                    (''confirmed_quantity_kg'', JInt quantity_kg_int),
                    (''message'', JStr (''Pickup request received and appears feasible. '' @
                                        ''Logistics is being notified and will confirm exact details.'')),
                    (''requires_cold_chain'', JBool (float_lt (w_float W (length tr4)) (9 / 10)))]
        in (Inr (200, JObj [(''status'', JStr ''success''), (''details'', pickup_confirmation)]),
            tr4 @ [RandomRandom])))))))
     else
       (Inr (200, JObj [(''status'', JStr ''unavailable''),
                        (''message'', JStr (''Unable to schedule pickup for '' @ py_str L (JInt quantity_kg_int) @
                           '' kg. Only found approximately '' @ py_str L available_kg @
                           '' kg recently harvested or on hand for this product at this farm. '' @
                           ''Please adjust quantity or date.''))]), tr1)))))))))))"

definition handle_schedule_farm_pickup ::
  "pylib \<Rightarrow> world \<Rightarrow> call list \<Rightarrow> json \<Rightarrow> (pyexc + int \<times> json) \<times> call list" where
  "handle_schedule_farm_pickup L W tr data =
     (case missing_fields [''farm_id'', ''product_id'', ''quantity_kg'', ''requested_date''] data of
        Inl e \<Rightarrow> (Inl e, tr)
      | Inr (Some missing) \<Rightarrow> (Inr (400, missing_body missing), tr)
      | Inr None \<Rightarrow>
          except_exception
            (\<lambda>e. (500, error_message ''An internal error occurred while processing pickup request.''))
            (schedule_farm_pickup_try L W tr data))"

subsection \<open>\<open>agrioptimize_backend_function\<close>\<close>

text \<open>The module leaves the process when the client cannot be created, so a request is
  only ever served with \<open>bigquery_client\<close> set; the branch of the health check for an
  unset client is not reachable and not modelled.\<close>

definition agrioptimize_backend_function ::
  "pylib \<Rightarrow> world \<Rightarrow> request \<Rightarrow> (pyexc + json \<times> int) \<times> call list" where
  "agrioptimize_backend_function L W req =
     (if req_method req = ''GET'' \<and> req_path req = ''/''
      then (case health_check L W [] ''AgriOptimize'' of (r, tr) \<Rightarrow> (Inr r, tr))
      else if req_method req = ''POST''
      then (let request_data = req_json req in
            if request_data = JNull then (Inr (no_json_response req), [])
            else if req_path req = ''/harvest''
            then respond (handle_log_harvest L W [] request_data)
            else if req_path req = ''/advice/harvest''
            then respond (handle_get_harvest_advice L W [] request_data)
            else if req_path req = ''/issue/farm''
            then respond (handle_report_farm_qc_issue L W [] request_data)
            else if req_path req = ''/schedule/pickup''
            then respond (handle_schedule_farm_pickup L W [] request_data)
            else (Inr (not_found_response req), []))
      else (Inr (method_not_allowed_response req), []))"

section \<open>MarketFlow backend (\<open>marketflow/main.py\<close>)\<close>

definition ORDERS_TABLE :: string where
  "ORDERS_TABLE = ''{PROJECT_ID}.{DATASET_ID}.orders''"

definition ORDER_ITEMS_TABLE :: string where
  "ORDER_ITEMS_TABLE = ''{PROJECT_ID}.{DATASET_ID}.order_items''"

definition DEMAND_FORECASTS_TABLE :: string where
  "DEMAND_FORECASTS_TABLE = ''{PROJECT_ID}.{DATASET_ID}.demand_forecasts''"

definition MARKET_PRICES_TABLE :: string where
  "MARKET_PRICES_TABLE = ''{PROJECT_ID}.{DATASET_ID}.market_prices''"

subsection \<open>\<open>handle_get_demand_forecast\<close>\<close>

definition forecast_query :: "string list \<Rightarrow> string" where
  "forecast_query where_clauses =
     ''SELECT forecast_id, region, forecast_date, target_date_start, target_date_end, '' @
     ''forecasted_demand_kg, confidence_level FROM `'' @ DEMAND_FORECASTS_TABLE @ ''` WHERE '' @
     join '' AND '' where_clauses @
     '' ORDER BY forecast_date DESC LIMIT 5 -- Get the latest few forecasts for this period/region''"

definition forecast_query_params :: "json \<Rightarrow> json \<Rightarrow> json \<Rightarrow> json \<Rightarrow> qparam list" where
  "forecast_query_params product_id target_date_start_str target_date_end_str region =
     [ScalarQueryParameter ''product_id'' ''STRING'' product_id,
      ScalarQueryParameter ''start_date'' ''DATE'' target_date_start_str,
      ScalarQueryParameter ''end_date'' ''DATE'' target_date_end_str] @
     (if truthy region then [ScalarQueryParameter ''region'' ''STRING'' region] else [])"

definition forecast_where_clauses :: "json \<Rightarrow> string list" where
  "forecast_where_clauses region =
     [''product_id = @product_id'', ''target_date_start = @start_date'', ''target_date_end = @end_date''] @
     (if truthy region then [''region = @region''] else [])"

definition get_demand_forecast_try ::
  "pylib \<Rightarrow> world \<Rightarrow> call list \<Rightarrow> json \<Rightarrow> (pyexc + int \<times> json) \<times> call list" where
  "get_demand_forecast_try L W tr data =
     (case subscript data ''product_id'' of Inl e \<Rightarrow> (Inl e, tr) | Inr product_id \<Rightarrow>
     (case get_default data ''region'' JNull of Inl e \<Rightarrow> (Inl e, tr) | Inr region \<Rightarrow>
     (case subscript data ''target_date_start'' of Inl e \<Rightarrow> (Inl e, tr) | Inr target_date_start_str \<Rightarrow>
     (case subscript data ''target_date_end'' of Inl e \<Rightarrow> (Inl e, tr) | Inr target_date_end_str \<Rightarrow>
     (case fetch_rows L W tr (forecast_query (forecast_where_clauses region))
             (forecast_query_params product_id target_date_start_str target_date_end_str region) of
        ((success, forecasts), tr1) \<Rightarrow>
          if success
          then (Inr (200, JObj [(''status'', JStr ''success''), (''forecasts'', forecasts)]), tr1)
          else (Inr (500, JObj [(''status'', JStr ''error''),
                                (''message'', JStr ''Failed to retrieve demand forecasts.''),
                                (''details'', forecasts)]), tr1))))))"

definition handle_get_demand_forecast ::
  "pylib \<Rightarrow> world \<Rightarrow> call list \<Rightarrow> json \<Rightarrow> (pyexc + int \<times> json) \<times> call list" where
  "handle_get_demand_forecast L W tr data =
     (case missing_fields [''product_id'', ''target_date_start'', ''target_date_end''] data of
        Inl e \<Rightarrow> (Inl e, tr)
      | Inr (Some missing) \<Rightarrow> (Inr (400, missing_body missing), tr)
      | Inr None \<Rightarrow>
          except_exception (\<lambda>e. (500, error_message ''An internal error occurred.''))
            (get_demand_forecast_try L W tr data))"

subsection \<open>\<open>handle_get_market_prices\<close>\<close>

definition prices_query :: "string list \<Rightarrow> string" where
  "prices_query where_clauses =
     ''SELECT price_record_id, region, market_date, average_market_price_per_kg, source FROM `'' @
     MARKET_PRICES_TABLE @ ''` WHERE '' @ join '' AND '' where_clauses @
     '' LIMIT 1 -- Get price for exact date/region''"

definition prices_query_params :: "json \<Rightarrow> json \<Rightarrow> json \<Rightarrow> qparam list" where
  "prices_query_params product_id date_str region =
     [ScalarQueryParameter ''product_id'' ''STRING'' product_id,
      ScalarQueryParameter ''market_date'' ''DATE'' date_str] @
     (if truthy region then [ScalarQueryParameter ''region'' ''STRING'' region] else [])"

definition prices_where_clauses :: "json \<Rightarrow> string list" where
  "prices_where_clauses region =
     [''product_id = @product_id'', ''market_date = @market_date''] @
     (if truthy region then [''region = @region''] else [])"

definition no_price_message :: "pylib \<Rightarrow> json \<Rightarrow> json \<Rightarrow> json \<Rightarrow> string" where
  "no_price_message L product_id date_str region =
     ''No market price found for '' @ py_str L product_id @ '' on '' @ py_str L date_str @
     (if truthy region then '' in '' @ py_str L region else []) @ ''.''"

definition get_market_prices_try ::
  "pylib \<Rightarrow> world \<Rightarrow> call list \<Rightarrow> json \<Rightarrow> (pyexc + int \<times> json) \<times> call list" where
  "get_market_prices_try L W tr data =
     (case subscript data ''product_id'' of Inl e \<Rightarrow> (Inl e, tr) | Inr product_id \<Rightarrow>
     (case get_default data ''region'' JNull of Inl e \<Rightarrow> (Inl e, tr) | Inr region \<Rightarrow>
     (case get_or_today L W tr data ''date'' of
        (Inl e, tr0) \<Rightarrow> (Inl e, tr0)
      | (Inr date_str, tr0) \<Rightarrow>
     (case fetch_rows L W tr0 (prices_query (prices_where_clauses region))
             (prices_query_params product_id date_str region) of
        ((success, prices), tr1) \<Rightarrow>
          if success \<and> truthy prices
          then (Inr (200, JObj [(''status'', JStr ''success''), (''prices'', prices)]), tr1)
          else if success \<and> \<not> truthy prices
          then (Inr (200, JObj [(''status'', JStr ''success''),
                                (''prices'', JList []),
                                (''message'', JStr (no_price_message L product_id date_str region))]), tr1)
          else (Inr (500, JObj [(''status'', JStr ''error''),
                                (''message'', JStr ''Failed to retrieve market prices.''),
                                (''details'', prices)]), tr1)))))"

definition handle_get_market_prices ::
  "pylib \<Rightarrow> world \<Rightarrow> call list \<Rightarrow> json \<Rightarrow> (pyexc + int \<times> json) \<times> call list" where
  "handle_get_market_prices L W tr data =
     (case missing_fields [''product_id''] data of
        Inl e \<Rightarrow> (Inl e, tr)
      | Inr (Some missing) \<Rightarrow> (Inr (400, missing_body missing), tr)
      | Inr None \<Rightarrow>
          except_exception (\<lambda>e. (500, error_message ''An internal error occurred.''))
            (get_market_prices_try L W tr data))"

subsection \<open>\<open>handle_check_product_availability\<close>\<close>

definition stock_sum_query :: "string list \<Rightarrow> string" where
  "stock_sum_query where_clauses =
     ''SELECT SUM(current_quantity_kg) as total_on_hand, COUNT(DISTINCT location_id) as num_locations FROM `'' @
     INVENTORY_STOCK_TABLE @ ''` WHERE '' @ join '' AND '' where_clauses"

definition shipment_sum_query :: string where
  "shipment_sum_query =
     ''SELECT SUM(t2.ordered_quantity_kg) as total_incoming_shipments FROM `'' @ SHIPMENTS_TABLE @
     ''` t1 JOIN `'' @ ORDER_ITEMS_TABLE @ ''` t2 ON t1.order_id = t2.order_id -- Simplified join WHERE '' @
     join '' AND '' [''t2.product_id = @product_id_shipment'', ''t1.status = 'In Transit'' @ [CHR 0x27],
                     ''t1.arrival_timestamp_estimate >= CURRENT_TIMESTAMP()'']"

definition schedule_sum_query :: string where
  "schedule_sum_query =
     ''SELECT SUM(expected_yield_estimate_kg) as total_upcoming_harvest FROM `'' @ PLANTING_SCHEDULES_TABLE @
     ''` WHERE '' @
     join '' AND '' [''product_id = @product_id_sched'', ''planned_harvest_date_estimate >= CURRENT_DATE()'',
                     ''status IN ('Planned', 'Planted', 'Growing', 'Harvesting')'']"

definition stock_sum_query_params :: "json \<Rightarrow> json \<Rightarrow> qparam list" where
  "stock_sum_query_params product_id location_id =
     [ScalarQueryParameter ''product_id'' ''STRING'' product_id] @
     (if truthy location_id then [ScalarQueryParameter ''location_id_stock'' ''STRING'' location_id] else [])"

definition stock_sum_where_clauses :: "json \<Rightarrow> string list" where
  "stock_sum_where_clauses location_id =
     [''product_id = @product_id'', ''status = 'Available'' @ [CHR 0x27]] @
     (if truthy location_id then [''location_id = @location_id_stock''] else [])"

definition check_product_availability_try ::
  "pylib \<Rightarrow> world \<Rightarrow> call list \<Rightarrow> json \<Rightarrow> (pyexc + int \<times> json) \<times> call list" where
  "check_product_availability_try L W tr data =
     (case subscript data ''product_id'' of Inl e \<Rightarrow> (Inl e, tr) | Inr product_id \<Rightarrow>
     (case get_default data ''location_id'' JNull of Inl e \<Rightarrow> (Inl e, tr) | Inr location_id \<Rightarrow>
     (case fetch_rows L W tr (stock_sum_query (stock_sum_where_clauses location_id))
             (stock_sum_query_params product_id location_id) of
        ((success_stock, stock_result), tr1) \<Rightarrow>
     (case first_value_or_0 success_stock stock_result ''total_on_hand'' of
        Inl e \<Rightarrow> (Inl e, tr1) | Inr on_hand_kg \<Rightarrow>
     (case first_value_or_0 success_stock stock_result ''num_locations'' of
        Inl e \<Rightarrow> (Inl e, tr1) | Inr num_stock_locations \<Rightarrow>
     (case fetch_rows L W tr1 shipment_sum_query
             [ScalarQueryParameter ''product_id_shipment'' ''STRING'' product_id] of
        ((success_shipment, shipment_result), tr2) \<Rightarrow>
     (case first_value_or_0 success_shipment shipment_result ''total_incoming_shipments'' of
        Inl e \<Rightarrow> (Inl e, tr2) | Inr incoming_shipments_kg \<Rightarrow>
     (case fetch_rows L W tr2 schedule_sum_query
             [ScalarQueryParameter ''product_id_sched'' ''STRING'' product_id] of
        ((success_schedule, schedule_result), tr3) \<Rightarrow>
     (case first_value_or_0 success_schedule schedule_result ''total_upcoming_harvest'' of
        Inl e \<Rightarrow> (Inl e, tr3) | Inr upcoming_harvest_kg \<Rightarrow>
     (let overall_success = (success_stock \<and> success_shipment \<and> success_schedule) in
      if overall_success
      then (Inr (200, JObj [(''status'', JStr ''success''),
                            (''product_id'', product_id),
                            (''location_id'', location_id),
                            (''total_on_hand_kg'', on_hand_kg),
                            (''num_stock_locations'', num_stock_locations),
                            (''total_incoming_shipments_kg'', incoming_shipments_kg),
                            (''total_upcoming_harvest_kg'', upcoming_harvest_kg)]), tr3)
      else
        (let error_messages =
               (if \<not> success_stock then [''Stock query failed: '' @ py_str L stock_result] else []) @
               (if \<not> success_shipment then [''Shipment query failed: '' @ py_str L shipment_result] else []) @
               (if \<not> success_schedule then [''Schedule query failed: '' @ py_str L schedule_result] else [])
         in (Inr (500, JObj [(''status'', JStr ''error''),
                             (''message'', JStr ''Failed to retrieve availability data.''),
                             (''details'', JStr (join '' | '' error_messages))]), tr3))))))))))))"

definition handle_check_product_availability ::
  "pylib \<Rightarrow> world \<Rightarrow> call list \<Rightarrow> json \<Rightarrow> (pyexc + int \<times> json) \<times> call list" where
  "handle_check_product_availability L W tr data =
     (case missing_fields [''product_id''] data of
        Inl e \<Rightarrow> (Inl e, tr)
      | Inr (Some missing) \<Rightarrow> (Inr (400, missing_body missing), tr)
      | Inr None \<Rightarrow>
          except_exception (\<lambda>e. (500, error_message ''An internal error occurred.''))
            (check_product_availability_try L W tr data))"

subsection \<open>\<open>handle_place_purchase_order\<close>\<close>

definition customer_address_query :: string where
  "customer_address_query =
     ''SELECT shipping_address FROM `'' @ CUSTOMERS_TABLE @ ''` WHERE customer_id = @customer_id LIMIT 1''"

text \<open>
  The loop over \<open>data['items']\<close> (lines 302 to 329). It ends with an exception, with a
  response returned from inside the loop, or with the total and the rows of
  \<open>order_items_to_insert\<close>. \<open>random.uniform(1.0, 5.0)\<close> is read from the oracle.
\<close>

fun order_items_loop ::
  "pylib \<Rightarrow> world \<Rightarrow> call list \<Rightarrow> string \<Rightarrow> json list \<Rightarrow> pyfloat \<Rightarrow> json list \<Rightarrow>
     (pyexc + (int \<times> json) + pyfloat \<times> json list) \<times> call list" where
  "order_items_loop L W tr order_id [] total_amount order_items_to_insert =
     (Inr (Inr (total_amount, order_items_to_insert)), tr)"
| "order_items_loop L W tr order_id (item # items) total_amount order_items_to_insert =
     (case py_in ''product_id'' item of Inl e \<Rightarrow> (Inl e, tr) | Inr has_product_id \<Rightarrow>
     (case (if \<not> has_product_id then Inr True
            else (case py_in ''quantity_kg'' item of Inl e \<Rightarrow> Inl e | Inr b \<Rightarrow> Inr (\<not> b))) of
        Inl e \<Rightarrow> (Inl e, tr)
      | Inr incomplete \<Rightarrow>
     if incomplete
     then (Inr (Inl (400, error_message ''Each item in 'items' must have 'product_id' and 'quantity_kg'.'')), tr)
     else
     (case subscript item ''product_id'' of Inl e \<Rightarrow> (Inl e, tr) | Inr product_id \<Rightarrow>
     (case subscript item ''quantity_kg'' of Inl e \<Rightarrow> (Inl e, tr) | Inr quantity_kg \<Rightarrow>
     (case py_int L quantity_kg of
        Inl e \<Rightarrow>
          (if value_or_type_error e
           then (Inr (Inl (400, error_message (''Invalid quantity_kg format for product '' @
                                  py_str L product_id @ ''. Expected integer.''))), tr)
           else (Inl e, tr))
      | Inr quantity_kg_int \<Rightarrow>
     if quantity_kg_int \<le> 0
     then (Inr (Inl (400, error_message (''Invalid quantity for product '' @ py_str L product_id @
                            ''. Must be positive integer.''))), tr)
     else
     (let simulated_price_per_kg = round2 L (w_float W (length tr));
          tr1 = tr @ [RandomUniform]
      in
     (case float_mul_int L quantity_kg_int simulated_price_per_kg of
        None \<Rightarrow> (Inl OverflowError, tr1)
      | Some product \<Rightarrow>
     (let line_item_total = round2 L product;
          total_amount = float_add L total_amount line_item_total
      in
     (case uuid4 W tr1 of (order_item_id, tr2) \<Rightarrow>
        order_items_loop L W tr2 order_id items total_amount
          (order_items_to_insert @
             [JObj [(''order_item_id'', JStr order_item_id),
                    (''order_id'', JStr order_id),
                    (''product_id'', product_id),
                    (''ordered_quantity_kg'', JInt quantity_kg_int),
                    (''price_per_kg_at_order'', JFloat simulated_price_per_kg),
                    (''line_item_total'', JFloat line_item_total)]]))))))))))"

definition place_purchase_order_try ::
  "pylib \<Rightarrow> world \<Rightarrow> call list \<Rightarrow> json \<Rightarrow> string \<Rightarrow> json \<Rightarrow> string \<Rightarrow> (pyexc + int \<times> json) \<times> call list" where
  "place_purchase_order_try L W tr data order_id customer_id order_date =
     (case subscript data ''items'' of Inl e \<Rightarrow> (Inl e, tr) | Inr items \<Rightarrow>
     (case items of
        JList item_list \<Rightarrow>
     (case order_items_loop L W tr order_id item_list (Finite 0) [] of
        (Inl e, tr1) \<Rightarrow> (Inl e, tr1)
      | (Inr (Inl response), tr1) \<Rightarrow> (Inr response, tr1)
      | (Inr (Inr (total_amount, order_items_to_insert)), tr1) \<Rightarrow>
     (case fetch_rows L W tr1 customer_address_query
             [ScalarQueryParameter ''customer_id'' ''STRING'' customer_id] of
        ((success_cust, customer_info), tr2) \<Rightarrow>
     (case (if success_cust \<and> truthy customer_info
            then (case first_item customer_info of Inl e \<Rightarrow> Inl e | Inr row \<Rightarrow>
                    subscript row ''shipping_address'')
            else Inr (JStr ''Unknown Address'')) of
        Inl e \<Rightarrow> (Inl e, tr2) | Inr delivery_address \<Rightarrow>
     (case get_default data ''delivery_date_requested'' (JStr order_date) of
        Inl e \<Rightarrow> (Inl e, tr2) | Inr delivery_date_requested \<Rightarrow>
     (case get_default data ''delivery_address'' delivery_address of
        Inl e \<Rightarrow> (Inl e, tr2) | Inr delivery_address_used \<Rightarrow>
     (case get_default data ''status'' (JStr ''Pending'') of
        Inl e \<Rightarrow> (Inl e, tr2) | Inr status \<Rightarrow>
     (let order_to_insert =
            JObj [(''order_id'', JStr order_id),
                  (''customer_id'', customer_id),
                  (''order_date'', JStr order_date),
                  (''delivery_date_requested'', delivery_date_requested),
                  (''delivery_address'', delivery_address_used),
                  (''status'', status),
                  (''total_amount'', JFloat (round2 L total_amount))]
      in
     (case insert_rows L W tr2 ORDERS_TABLE [order_to_insert] of
        ((success_order, errors_order), tr3) \<Rightarrow>
     (case insert_rows L W tr3 ORDER_ITEMS_TABLE order_items_to_insert of
        ((success_items, errors_items), tr4) \<Rightarrow>
     if success_order \<and> success_items
     then (Inr (200, JObj [(''status'', JStr ''success''),
                           (''order_id'', JStr order_id),
                           (''message'', JStr ''Purchase order placed successfully.''),
                           (''total_amount'', JFloat total_amount)]), tr4)
     else
       (let error_details =
              (if \<not> success_order then [''Order insert failed: '' @ py_str L errors_order] else []) @
              (if \<not> success_items then [''Order items insert failed: '' @ py_str L errors_items] else [])
        in (Inr (500, JObj [(''status'', JStr ''error''),
                            (''message'', JStr ''Failed to place purchase order.''),
                            (''details'', JStr (join '' | '' error_details))]), tr4)))))))))))
      | _ \<Rightarrow> (Inl TypeError, tr)))"

text \<open>The check of \<open>items\<close>, \<open>uuid.uuid4()\<close>, \<open>data['customer_id']\<close> and \<open>date.today()\<close>
  stand before the \<open>try\<close>.\<close>

definition handle_place_purchase_order ::
  "pylib \<Rightarrow> world \<Rightarrow> call list \<Rightarrow> json \<Rightarrow> (pyexc + int \<times> json) \<times> call list" where
  "handle_place_purchase_order L W tr data =
     (case missing_fields [''customer_id'', ''items''] data of
        Inl e \<Rightarrow> (Inl e, tr)
      | Inr (Some missing) \<Rightarrow> (Inr (400, missing_body missing), tr)
      | Inr None \<Rightarrow>
          (case subscript data ''items'' of
             Inl e \<Rightarrow> (Inl e, tr)
           | Inr items \<Rightarrow>
               if \<not> is_list items \<or> \<not> truthy items
               then (Inr (400, error_message ''Field 'items' must be a non-empty list.''), tr)
               else
               (case uuid4 W tr of (order_id, tr1) \<Rightarrow>
               (case subscript data ''customer_id'' of
                  Inl e \<Rightarrow> (Inl e, tr1)
                | Inr customer_id \<Rightarrow>
               (case date_today W tr1 of (today, tr2) \<Rightarrow>
                  except_exception (\<lambda>e. (500, error_message ''An internal error occurred.''))
                    (place_purchase_order_try L W tr2 data order_id customer_id
                       (date_isoformat L today)))))))"

subsection \<open>\<open>marketflow_backend_function\<close>\<close>

definition marketflow_backend_function ::
  "pylib \<Rightarrow> world \<Rightarrow> request \<Rightarrow> (pyexc + json \<times> int) \<times> call list" where
  "marketflow_backend_function L W req =
     (if req_method req = ''GET'' \<and> req_path req = ''/''
      then (case health_check L W [] ''MarketFlow'' of (r, tr) \<Rightarrow> (Inr r, tr))
      else if req_method req = ''POST''
      then (let request_data = req_json req in
            if request_data = JNull then (Inr (no_json_response req), [])
            else if req_path req = ''/forecast''
            then respond (handle_get_demand_forecast L W [] request_data)
            else if req_path req = ''/prices/current''
            then respond (handle_get_market_prices L W [] request_data)
            else if req_path req = ''/inventory/available''
            then respond (handle_check_product_availability L W [] request_data)
            else if req_path req = ''/order''
            then respond (handle_place_purchase_order L W [] request_data)
            else (Inr (not_found_response req), []))
      else (Inr (method_not_allowed_response req), []))"

section \<open>The lookup functions\<close>

text \<open>
  The four lookup functions are HTTP functions of their own. They return
  \<open>(json.dumps(body), status)\<close>; the model keeps the value \<open>body\<close> that is serialised.
  None of them reads the method or the path of the request.
\<close>

text \<open>\<open>request_json and k in request_json and request_json[k]\<close>, as a truth value; the
  operators raise where the body is not a dict.\<close>

definition has_nonempty :: "json \<Rightarrow> string \<Rightarrow> pyexc + bool" where
  "has_nonempty request_json k =
     (if \<not> truthy request_json then Inr False
      else (case py_in k request_json of Inl e \<Rightarrow> Inl e | Inr present \<Rightarrow>
            if \<not> present then Inr False
            else (case subscript request_json k of Inl e \<Rightarrow> Inl e | Inr v \<Rightarrow> Inr (truthy v))))"

text \<open>The loop \<open>for row in results: matches.append({c: row[c], ...})\<close> over the columns
  \<open>cols\<close>.\<close>

fun pick_columns :: "string list \<Rightarrow> json \<Rightarrow> pyexc + (string \<times> json) list" where
  "pick_columns [] row = Inr []"
| "pick_columns (c # cs) row =
     (case subscript row c of Inl e \<Rightarrow> Inl e | Inr v \<Rightarrow>
     (case pick_columns cs row of Inl e \<Rightarrow> Inl e | Inr kvs \<Rightarrow> Inr ((c, v) # kvs)))"

fun collect_matches :: "string list \<Rightarrow> json list \<Rightarrow> pyexc + json list" where
  "collect_matches cols [] = Inr []"
| "collect_matches cols (row # rows) =
     (case pick_columns cols row of Inl e \<Rightarrow> Inl e | Inr kvs \<Rightarrow>
     (case collect_matches cols rows of Inl e \<Rightarrow> Inl e | Inr ms \<Rightarrow> Inr (JObj kvs # ms)))"

text \<open>The part shared by \<open>lookup_product_by_name\<close>, \<open>lookup_farm_by_name\<close> and
  \<open>lookup_customer_by_name\<close>, which differ in the key read from the body, the two
  queries, the name of the pattern parameter, the columns and the word in the error
  text.\<close>

definition lookup_by_name ::
  "pylib \<Rightarrow> world \<Rightarrow> string \<Rightarrow> string \<Rightarrow> string \<Rightarrow> string \<Rightarrow> string list \<Rightarrow> string \<Rightarrow> request \<Rightarrow>
     (pyexc + json \<times> int) \<times> call list" where
  "lookup_by_name L W key list_query search_query pattern_name cols what req =
     (let request_json = req_json req in
      case has_nonempty request_json key of
        Inl e \<Rightarrow> (Inl e, [])
      | Inr given \<Rightarrow>
     (case (if given then subscript request_json key else Inr JNull) of
        Inl e \<Rightarrow> (Inl e, [])
      | Inr name_input \<Rightarrow>
     (let query = (if \<not> truthy name_input then list_query else search_query);
          query_params =
            (if \<not> truthy name_input then []
             else [ScalarQueryParameter pattern_name ''STRING''
                     (JStr (''%'' @ py_str L name_input @ ''%''))]);
          tr = [Query query query_params]
      in case w_query W 0 of
           Inl e \<Rightarrow>
             (Inr (JObj [(''error'', JStr (''Internal server error during '' @ what @ '' lookup'')),
                         (''details'', JStr (str_exc L e))], 500), tr)
         | Inr results \<Rightarrow>
             (case collect_matches cols results of
                Inl e \<Rightarrow>
                  (Inr (JObj [(''error'', JStr (''Internal server error during '' @ what @ '' lookup'')),
                              (''details'', JStr (str_exc L e))], 500), tr)
              | Inr matches \<Rightarrow> (Inr (JObj [(''matches'', JList matches)], 200), tr)))))"

definition lookup_product_by_name :: "pylib \<Rightarrow> world \<Rightarrow> request \<Rightarrow> (pyexc + json \<times> int) \<times> call list" where
  "lookup_product_by_name L W req =
     lookup_by_name L W ''product_name''
       (''SELECT product_id, product_name, category, storage_requirements '' @
        ''FROM `laeswdm-agbgagenticaihackat.agriculture.product_catalog` '' @
        ''LIMIT 100 -- Limit results when fetching all to avoid large responses'')
       (''SELECT product_id, product_name, category, storage_requirements '' @
        ''FROM `laeswdm-agbgagenticaihackat.agriculture.product_catalog` '' @
        ''WHERE LOWER(product_name) LIKE LOWER(@product_name_pattern)'')
       ''product_name_pattern''
       [''product_id'', ''product_name'', ''category'', ''storage_requirements'']
       ''product'' req"

definition lookup_farm_by_name :: "pylib \<Rightarrow> world \<Rightarrow> request \<Rightarrow> (pyexc + json \<times> int) \<times> call list" where
  "lookup_farm_by_name L W req =
     lookup_by_name L W ''farm_name''
       (''SELECT farm_id, farm_name, farm_location, supplier_name '' @
        ''FROM `laeswdm-agbgagenticaihackat.agriculture.farm_profiles` '' @
        ''LIMIT 100 -- Limit results when fetching all to avoid large responses'')
       (''SELECT farm_id, farm_name, farm_location, supplier_name '' @
        ''FROM `laeswdm-agbgagenticaihackat.agriculture.farm_profiles` '' @
        ''WHERE LOWER(farm_name) LIKE LOWER(@query_pattern) '' @
        ''OR LOWER(farm_location) LIKE LOWER(@query_pattern) LIMIT 100 -- Limit results for search too'')
       ''query_pattern''
       [''farm_id'', ''farm_name'', ''farm_location'', ''supplier_name'']
       ''farm'' req"

definition lookup_customer_by_name :: "pylib \<Rightarrow> world \<Rightarrow> request \<Rightarrow> (pyexc + json \<times> int) \<times> call list" where
  "lookup_customer_by_name L W req =
     lookup_by_name L W ''customer_name_query''
       (''SELECT customer_id, customer_name, customer_type, shipping_address '' @
        ''FROM `laeswdm-agbgagenticaihackat.agriculture.customers` '' @
        ''LIMIT 100 -- Limit results when fetching all to avoid large responses'')
       (''SELECT customer_id, customer_name, customer_type, shipping_address '' @
        ''FROM `laeswdm-agbgagenticaihackat.agriculture.customers` '' @
        ''WHERE LOWER(customer_name) LIKE LOWER(@query_pattern) LIMIT 100 -- Limit results for search too'')
       ''query_pattern''
       [''customer_id'', ''customer_name'', ''customer_type'', ''shipping_address'']
       ''customer'' req"

subsection \<open>\<open>lookup_vehicle_by_license\<close>\<close>

definition vehicle_license_query :: string where
  "vehicle_license_query =
     ''SELECT vehicle_id, carrier_name, vehicle_type, capacity_kg, has_temperature_monitoring, '' @
     ''vehicle_license_no # Include license_no in select '' @
     ''FROM `laeswdm-agbgagenticaihackat.agriculture.vehicles` '' @
     ''WHERE vehicle_license_no = @license_no LIMIT 1''"

definition lookup_vehicle_by_license :: "pylib \<Rightarrow> world \<Rightarrow> request \<Rightarrow> (pyexc + json \<times> int) \<times> call list" where
  "lookup_vehicle_by_license L W req =
     (let request_json = req_json req in
      case has_nonempty request_json ''vehicle_license_no'' of
        Inl e \<Rightarrow> (Inl e, [])
      | Inr given \<Rightarrow>
     if \<not> given
     then (Inr (JObj [(''error'', JStr ''Missing or empty vehicle_license_no in request body'')], 400), [])
     else
     (case subscript request_json ''vehicle_license_no'' of
        Inl e \<Rightarrow> (Inl e, [])
      | Inr vehicle_license_no_input \<Rightarrow>
     (let tr = [Query vehicle_license_query
                  [ScalarQueryParameter ''license_no'' ''STRING'' vehicle_license_no_input]];
          failed = (\<lambda>e. (Inr (JObj [(''error'', JStr ''Internal server error during vehicle lookup''),
                                     (''details'', JStr (str_exc L e))], 500), tr))
      in case w_query W 0 of
           Inl e \<Rightarrow> failed e
         | Inr [] \<Rightarrow>
             (Inr (JObj [(''error'', JStr (''Vehicle with license '' @ [CHR 0x27] @
                                          py_str L vehicle_license_no_input @ [CHR 0x27] @ '' not found'')),
                         (''matches'', JList [])], 404), tr)
         | Inr (row # rows) \<Rightarrow>
             (case pick_columns [''vehicle_id'', ''carrier_name'', ''vehicle_type'', ''capacity_kg'',
                                 ''has_temperature_monitoring'', ''vehicle_license_no''] row of
                Inl e \<Rightarrow> failed e
              | Inr kvs \<Rightarrow> (Inr (JObj [(''matches'', JList [JObj kvs])], 200), tr)))))"

section \<open>The route function (\<open>getoptimizedeliveryroute/main.py\<close>)\<close>

text \<open>
  The file defines an HTTP function that is also called \<open>handle_optimize_delivery_route\<close>;
  the model calls it \<open>handle_optimize_delivery_route_fn\<close> and its \<open>fetch_rows\<close>
  \<open>fetch_rows_fn\<close>. \<open>GOOGLE_MAPS_API_KEY\<close> is read from the environment when the
  module is loaded and is a parameter here: \<open>JNull\<close> when the variable is not set.
\<close>

definition ROUTES_API_URL :: string where
  "ROUTES_API_URL = ''https://routes.googleapis.com/directions/v2:computeRoutes''"

definition GEOCODING_API_URL :: string where
  "GEOCODING_API_URL = ''https://maps.googleapis.com/maps/api/geocode/json''"

definition fetch_outcome_fn :: "pylib \<Rightarrow> world \<Rightarrow> nat \<Rightarrow> bool \<times> json" where
  "fetch_outcome_fn L W n =
     (case w_query W n of
        Inr results \<Rightarrow> (True, JList results)
      | Inl e \<Rightarrow> (False, JStr (str_exc L e)))"

definition fetch_rows_fn :: "pylib \<Rightarrow> world \<Rightarrow> call list \<Rightarrow> string \<Rightarrow> qparam list \<Rightarrow> (bool \<times> json) \<times> call list" where
  "fetch_rows_fn L W tr query parameters =
     (fetch_outcome_fn L W (length tr), tr @ [Query query parameters])"

text \<open>\<open>s.split(sep)\<close> for a non-empty separator.\<close>

function split_from :: "string \<Rightarrow> string \<Rightarrow> string \<Rightarrow> string list" where
  "split_from sep cur [] = [rev cur]"
| "split_from sep cur (c # cs) =
     (if sep \<noteq> [] \<and> starts_with sep (c # cs)
      then rev cur # split_from sep [] (drop (length sep) (c # cs))
      else split_from sep (c # cur) cs)"
  by pat_completeness auto
termination
  by (relation "measure (\<lambda>(sep, cur, s). length s)") (auto simp: neq_Nil_conv)

definition py_split :: "string \<Rightarrow> string \<Rightarrow> string list" where
  "py_split sep s = split_from sep [] s"

text \<open>\<open>s.strip()\<close>: the characters of the type \<open>char\<close> (code points below 256)
  that \<open>str.isspace\<close> accepts.\<close>

definition is_space :: "char \<Rightarrow> bool" where
  "is_space c = (c \<in> set [CHR '' '', CHR 0x09, CHR 0x0A, CHR 0x0B, CHR 0x0C, CHR 0x0D,
                            CHR 0x1C, CHR 0x1D, CHR 0x1E, CHR 0x1F, CHR 0x85, CHR 0xA0])"

definition py_strip :: "string \<Rightarrow> string" where
  "py_strip s = rev (dropWhile is_space (rev (dropWhile is_space s)))"

text \<open>The coordinates written into the synthetic data, \<open>Lat: x, Lon: y\<close> (lines 108 to 117
  and 152 to 161); every exception of the block is caught and leads to geocoding.\<close>

definition parse_dummy_coords :: "pylib \<Rightarrow> json \<Rightarrow> json option" where
  "parse_dummy_coords L location_string =
     (case location_string of
        JStr s \<Rightarrow>
          (if contains ''Lat:'' s \<and> contains ''Lon:'' s
           then (case py_split '', Lon:'' (py_replace ''Lon:'' [] (py_replace ''Lat:'' [] s)) of
                   p0 # rest \<Rightarrow>
                     (case float_of_str L (py_strip p0) of
                        None \<Rightarrow> None
                      | Some lat \<Rightarrow>
                          (case rest of
                             [] \<Rightarrow> None
                           | p1 # others \<Rightarrow>
                               (case float_of_str L (py_strip p1) of
                                  None \<Rightarrow> None
                                | Some lon \<Rightarrow>
                                    Some (JObj [(''latitude'', JFloat lat), (''longitude'', JFloat lon)]))))
                 | [] \<Rightarrow> None)
           else None)
      | _ \<Rightarrow> None)"

text \<open>The body of the \<open>try\<close> of \<open>geocode_address\<close> after the request.\<close>

definition geocode_location :: "json \<Rightarrow> pyexc + json" where
  "geocode_location geocode_result =
     (case get_default geocode_result ''status'' JNull of Inl e \<Rightarrow> Inl e | Inr status \<Rightarrow>
     (case (if status = JStr ''OK''
            then (case get_default geocode_result ''results'' JNull of
                    Inl e \<Rightarrow> Inl e | Inr rs \<Rightarrow> Inr (truthy rs))
            else Inr False) of
        Inl e \<Rightarrow> Inl e
      | Inr found \<Rightarrow>
     if found
     then (case subscript geocode_result ''results'' of Inl e \<Rightarrow> Inl e | Inr results \<Rightarrow>
          (case first_item results of Inl e \<Rightarrow> Inl e | Inr r0 \<Rightarrow>
          (case subscript r0 ''geometry'' of Inl e \<Rightarrow> Inl e | Inr geometry \<Rightarrow>
          (case subscript geometry ''location'' of Inl e \<Rightarrow> Inl e | Inr location \<Rightarrow>
          (case subscript location ''lat'' of Inl e \<Rightarrow> Inl e | Inr lat \<Rightarrow>
          (case subscript location ''lng'' of Inl e \<Rightarrow> Inl e | Inr lng \<Rightarrow>
             Inr (JObj [(''latitude'', lat), (''longitude'', lng)])))))))
     else Inr JNull))"

definition geocode_address :: "world \<Rightarrow> call list \<Rightarrow> json \<Rightarrow> json \<Rightarrow> json \<times> call list" where
  "geocode_address W tr address_string api_key =
     (if \<not> truthy api_key then (JNull, tr)
      else if \<not> truthy address_string then (JNull, tr)
      else (case w_http W (length tr) of
              Inl e \<Rightarrow> JNull
            | Inr geocode_result \<Rightarrow>
                (case geocode_location geocode_result of Inl e \<Rightarrow> JNull | Inr coords \<Rightarrow> coords),
            tr @ [HttpGet GEOCODING_API_URL (JObj [(''address'', address_string), (''key'', api_key)])]))"

definition WAREHOUSES_TABLE :: string where
  "WAREHOUSES_TABLE = ''{PROJECT_ID}.{DATASET_ID}.warehouses''"

definition location_query :: string where
  "location_query =
     ''SELECT farm_location FROM `'' @ FARM_PROFILES_TABLE @ ''` WHERE farm_id = @loc_id UNION ALL '' @
     ''SELECT location_address FROM `'' @ WAREHOUSES_TABLE @ ''` WHERE warehouse_id = @loc_id LIMIT 1''"

text \<open>\<open>get_location_coordinates\<close>: the query is not guarded, its exception reaches the
  caller.\<close>

definition get_location_coordinates ::
  "pylib \<Rightarrow> world \<Rightarrow> call list \<Rightarrow> json \<Rightarrow> json \<Rightarrow> (pyexc + json) \<times> call list" where
  "get_location_coordinates L W tr location_id api_key =
     (let tr1 = tr @ [Query location_query [ScalarQueryParameter ''loc_id'' ''STRING'' location_id]] in
      case w_query W (length tr) of
        Inl e \<Rightarrow> (Inl e, tr1)
      | Inr [] \<Rightarrow> (Inr JNull, tr1)
      | Inr (row # rows) \<Rightarrow>
          (case subscript row ''farm_location'' of
             Inl e \<Rightarrow> (Inl e, tr1)
           | Inr location_string \<Rightarrow>
               (case parse_dummy_coords L location_string of
                  Some coords \<Rightarrow> (Inr coords, tr1)
                | None \<Rightarrow>
                    (case geocode_address W tr1 location_string api_key of
                       (coords, tr2) \<Rightarrow> (Inr coords, tr2)))))"

definition destination_query :: string where
  "destination_query =
     ''SELECT o.order_id, o.delivery_address, -- Get the delivery address from the order '' @
     ''CAST(RAND() * 4000 + 1000 AS INT64) AS total_kg -- Total quantity per order '' @
     ''FROM `'' @ ORDERS_TABLE @ ''` o --JOIN `'' @ ORDER_ITEMS_TABLE @ ''` oi ON o.order_id = oi.order_id '' @
     ''JOIN `'' @ CUSTOMERS_TABLE @ ''` c ON o.customer_id = c.customer_id '' @
     ''-- Join to customers to ensure address is from customer '' @
     ''WHERE o.order_id IN UNNEST(@order_ids) '' @
     ''GROUP BY o.order_id, o.delivery_address -- Group by order and address''"

text \<open>The loop of \<open>get_destination_details_for_orders\<close> over the rows (lines 148 to
  179): a row without coordinates is skipped, the order of the rows is kept.\<close>

fun destination_rows ::
  "pylib \<Rightarrow> world \<Rightarrow> call list \<Rightarrow> json \<Rightarrow> json list \<Rightarrow> (pyexc + json list) \<times> call list" where
  "destination_rows L W tr api_key [] = (Inr [], tr)"
| "destination_rows L W tr api_key (row # rows) =
     (case subscript row ''delivery_address'' of Inl e \<Rightarrow> (Inl e, tr) | Inr address_string \<Rightarrow>
     (case (case parse_dummy_coords L address_string of
              Some coords \<Rightarrow> (coords, tr)
            | None \<Rightarrow> geocode_address W tr address_string api_key) of
        (coords, tr1) \<Rightarrow>
     (case (if truthy coords
            then (case subscript row ''order_id'' of Inl e \<Rightarrow> Inl e | Inr order_id \<Rightarrow>
                 (case subscript coords ''latitude'' of Inl e \<Rightarrow> Inl e | Inr latitude \<Rightarrow>
                 (case subscript coords ''longitude'' of Inl e \<Rightarrow> Inl e | Inr longitude \<Rightarrow>
                 (case subscript row ''total_kg'' of Inl e \<Rightarrow> Inl e | Inr total_kg \<Rightarrow>
                    Inr [JObj [(''order_id'', order_id),
                               (''address'', address_string),
                               (''latitude'', latitude),
                               (''longitude'', longitude),
                               (''total_kg'', total_kg)]]))))
            else Inr []) of
        Inl e \<Rightarrow> (Inl e, tr1)
      | Inr this \<Rightarrow>
     (case destination_rows L W tr1 api_key rows of
        (Inl e, tr2) \<Rightarrow> (Inl e, tr2)
      | (Inr later, tr2) \<Rightarrow> (Inr (this @ later), tr2)))))"

definition get_destination_details_for_orders ::
  "pylib \<Rightarrow> world \<Rightarrow> call list \<Rightarrow> json \<Rightarrow> json \<Rightarrow> (pyexc + json list) \<times> call list" where
  "get_destination_details_for_orders L W tr order_ids api_key =
     (case fetch_rows_fn L W tr destination_query [ArrayQueryParameter ''order_ids'' ''STRING'' order_ids] of
        ((success, results), tr1) \<Rightarrow>
          if success
          then (case results of
                  JList rows \<Rightarrow> destination_rows L W tr1 api_key rows
                | _ \<Rightarrow> (Inl TypeError, tr1))
          else (Inr [], tr1))"

text \<open>\<open>get_vehicle_details\<close>: the row, \<open>None\<close>, or the exception raised for a failed
  query.\<close>

definition get_vehicle_details :: "pylib \<Rightarrow> world \<Rightarrow> call list \<Rightarrow> json \<Rightarrow> (pyexc + json) \<times> call list" where
  "get_vehicle_details L W tr vehicle_id =
     (case fetch_rows_fn L W tr vehicle_query [ScalarQueryParameter ''vehicle_id'' ''STRING'' vehicle_id] of
        ((success, results), tr1) \<Rightarrow>
          if success \<and> truthy results then (first_item results, tr1)
          else if success then (Inr JNull, tr1)
          else (Inl (OtherException ''Failed to retrieve vehicle details from BQ.''), tr1))"

definition waypoint :: "json \<Rightarrow> json" where
  "waypoint lat_lng = JObj [(''location'', JObj [(''latLng'', lat_lng)])]"

text \<open>The waypoint of a destination; the entries of \<open>destination_details\<close> are the dicts
  built by \<open>destination_rows\<close>.\<close>

definition destination_waypoint :: "json \<Rightarrow> pyexc + json" where
  "destination_waypoint dest =
     (case subscript dest ''latitude'' of Inl e \<Rightarrow> Inl e | Inr latitude \<Rightarrow>
     (case subscript dest ''longitude'' of Inl e \<Rightarrow> Inl e | Inr longitude \<Rightarrow>
        Inr (waypoint (JObj [(''latitude'', latitude), (''longitude'', longitude)]))))"

fun map_result :: "('a \<Rightarrow> pyexc + 'b) \<Rightarrow> 'a list \<Rightarrow> pyexc + 'b list" where
  "map_result f [] = Inr []"
| "map_result f (x # xs) =
     (case f x of Inl e \<Rightarrow> Inl e | Inr y \<Rightarrow>
     (case map_result f xs of Inl e \<Rightarrow> Inl e | Inr ys \<Rightarrow> Inr (y # ys)))"

definition routes_api_headers :: "json \<Rightarrow> json" where
  "routes_api_headers api_key =
     JObj [(''Content-Type'', JStr ''application/json''),
           (''X-Goog-Api-Key'', api_key),
           (''X-Goog-FieldMask'', JStr ''routes.duration,routes.distanceMeters,routes.polyline.encodedPolyline'')]"

definition routes_api_payload :: "json \<Rightarrow> json list \<Rightarrow> json" where
  "routes_api_payload origin_coords destination_waypoints =
     JObj [(''origin'', waypoint origin_coords),
           (''destination'', last destination_waypoints),
           (''intermediates'', JList (butlast destination_waypoints)),
           (''travelMode'', JStr ''DRIVE''),
           (''routingPreference'', JStr ''TRAFFIC_AWARE_OPTIMAL''),
           (''computeAlternativeRoutes'', JBool False),
           (''routeModifiers'', JObj [(''avoidTolls'', JBool False), (''avoidHighways'', JBool False)])]"

text \<open>\<open>call_routes_api_compute_routes\<close>: one request to the routing service, the waypoints
  in the order of \<open>destination_details\<close>. The waypoints are built before the \<open>try\<close>.\<close>

definition call_routes_api_compute_routes ::
  "pylib \<Rightarrow> world \<Rightarrow> call list \<Rightarrow> json \<Rightarrow> json list \<Rightarrow> json \<Rightarrow> (pyexc + bool \<times> json) \<times> call list" where
  "call_routes_api_compute_routes L W tr origin_coords destination_details api_key =
     (if \<not> truthy api_key then (Inr (False, JStr ''API Key not configured.''), tr)
      else if destination_details = []
      then (Inr (False, JStr ''No valid destinations with coordinates provided.''), tr)
      else (case map_result destination_waypoint destination_details of
              Inl e \<Rightarrow> (Inl e, tr)
            | Inr destination_waypoints \<Rightarrow>
                if destination_waypoints = [] then (Inl IndexError, tr)
                else
                (case w_http W (length tr) of
                   Inr routes_api_result \<Rightarrow> Inr (True, routes_api_result)
                 | Inl e \<Rightarrow> Inr (False, JStr (str_exc L e)),
                 tr @ [HttpPost ROUTES_API_URL
                         (routes_api_payload origin_coords destination_waypoints)
                         (routes_api_headers api_key)])))"

text \<open>\<open>timedelta(seconds=n)\<close> and the sum of two \<open>timedelta\<close>s, in microseconds.\<close>

definition timedelta_seconds :: "int \<Rightarrow> pyexc + int" where
  "timedelta_seconds n =
     (let us = n * 1000000
      in if - 999999999 \<le> us div us_per_day \<and> us div us_per_day \<le> 999999999
         then Inr us else Inl OverflowError)"

definition timedelta_plus :: "int \<Rightarrow> int \<Rightarrow> pyexc + int" where
  "timedelta_plus a b =
     (if - 999999999 \<le> (a + b) div us_per_day \<and> (a + b) div us_per_day \<le> 999999999
      then Inr (a + b) else Inl OverflowError)"

text \<open>\<open>int(s.strip())\<close> for a string.\<close>

definition int_of_stripped :: "pylib \<Rightarrow> string \<Rightarrow> pyexc + int" where
  "int_of_stripped L s = (case int_of_str L (py_strip s) of None \<Rightarrow> Inl ValueError | Some i \<Rightarrow> Inr i)"

text \<open>\<open>minutes, seconds = s.split('m')\<close> followed by
  \<open>int(minutes.strip()) * 60 + int(seconds.strip())\<close>; the unpacking raises \<open>ValueError\<close>
  unless there are exactly two parts.\<close>

definition minutes_and_seconds :: "pylib \<Rightarrow> string \<Rightarrow> pyexc + int" where
  "minutes_and_seconds L s =
     (case py_split ''m'' s of
        [minutes, seconds] \<Rightarrow>
          (case int_of_stripped L minutes of Inl e \<Rightarrow> Inl e | Inr m \<Rightarrow>
          (case int_of_stripped L seconds of Inl e \<Rightarrow> Inl e | Inr sec \<Rightarrow> Inr (m * 60 + sec)))
      | _ \<Rightarrow> Inl ValueError)"

text \<open>The seconds that \<open>parse_duration_string\<close> adds up for a string that contains
  \<open>s\<close> (lines 273 to 287).\<close>

definition duration_seconds :: "pylib \<Rightarrow> string \<Rightarrow> pyexc + int" where
  "duration_seconds L duration_str =
     (case py_split ''h'' (py_replace ''s'' [] duration_str) of
        p0 # p1 # others \<Rightarrow>
          (case int_of_stripped L p0 of Inl e \<Rightarrow> Inl e | Inr hours \<Rightarrow>
          (let minute_seconds_part = py_strip p1 in
           if contains ''m'' minute_seconds_part
           then (case minutes_and_seconds L minute_seconds_part of
                   Inl e \<Rightarrow> Inl e | Inr ms \<Rightarrow> Inr (hours * 3600 + ms))
           else if minute_seconds_part \<noteq> []
           then (case int_of_stripped L minute_seconds_part of
                   Inl e \<Rightarrow> Inl e | Inr sec \<Rightarrow> Inr (hours * 3600 + sec))
           else Inr (hours * 3600)))
      | _ \<Rightarrow>
          (if contains ''m'' duration_str then minutes_and_seconds L duration_str
           else int_of_stripped L duration_str))"

definition parse_duration_string :: "pylib \<Rightarrow> json \<Rightarrow> pyexc + int" where
  "parse_duration_string L duration_str =
     (case (if truthy duration_str then py_in ''s'' duration_str else Inr False) of
        Inl e \<Rightarrow> Inl e
      | Inr has_s \<Rightarrow>
          if has_s
          then (case duration_str of
                  JStr s \<Rightarrow>
                    (case duration_seconds L s of Inl e \<Rightarrow> Inl e | Inr total_seconds \<Rightarrow>
                       timedelta_seconds total_seconds)
                | _ \<Rightarrow> Inl AttributeError)
          else timedelta_seconds 0)"

text \<open>What \<open>for i, leg in enumerate(v)\<close> runs over, and \<open>len(v)\<close>.\<close>

fun py_iter :: "json \<Rightarrow> pyexc + json list" where
  "py_iter (JList xs) = Inr xs"
| "py_iter (JObj kvs) = Inr (map JStr (remdups (map fst kvs)))"
| "py_iter (JStr s) = Inr (map (\<lambda>c. JStr [c]) s)"
| "py_iter JNull = Inl TypeError"
| "py_iter (JBool b) = Inl TypeError"
| "py_iter (JInt i) = Inl TypeError"
| "py_iter (JFloat x) = Inl TypeError"

text \<open>The loop over the legs of the route (lines 392 to 416): leg \<open>i\<close> ends at entry
  \<open>i\<close> of \<open>destination_details\<close>.\<close>

fun route_stops_with_times ::
  "pylib \<Rightarrow> json list \<Rightarrow> int \<Rightarrow> nat \<Rightarrow> int \<Rightarrow> json list \<Rightarrow> pyexc + json list" where
  "route_stops_with_times L destination_details estimated_departure_time i cumulative [] = Inr []"
| "route_stops_with_times L destination_details estimated_departure_time i cumulative (leg # legs) =
     (case get_default leg ''duration'' (JStr ''0s'') of Inl e \<Rightarrow> Inl e | Inr leg_duration_str \<Rightarrow>
     (case get_default leg ''distanceMeters'' (JInt 0) of Inl e \<Rightarrow> Inl e | Inr leg_distance_meters \<Rightarrow>
     (case parse_duration_string L leg_duration_str of Inl e \<Rightarrow> Inl e | Inr leg_duration \<Rightarrow>
     (case timedelta_plus cumulative leg_duration of Inl e \<Rightarrow> Inl e | Inr current_cumulative_duration \<Rightarrow>
     (case (if i < length destination_details
            then (let destination_info = destination_details ! i in
                  case datetime_plus estimated_departure_time current_cumulative_duration of
                    Inl e \<Rightarrow> Inl e | Inr estimated_arrival \<Rightarrow>
                 (case subscript destination_info ''order_id'' of Inl e \<Rightarrow> Inl e | Inr order_id \<Rightarrow>
                 (case subscript destination_info ''address'' of Inl e \<Rightarrow> Inl e | Inr address \<Rightarrow>
                 (case get_default destination_info ''total_kg'' JNull of Inl e \<Rightarrow> Inl e | Inr total_kg \<Rightarrow>
                    Inr [JObj [(''stop_number'', JInt (int i + 1)),
                               (''destination_id'', order_id),
                               (''destination_address'', address),
                               (''estimated_arrival_time'', JStr (datetime_isoformat L estimated_arrival)),
                               (''estimated_duration_from_previous_stop'', leg_duration_str),
                               (''estimated_distance_from_previous_stop_meters'', leg_distance_meters),
                               (''total_kg_for_stop'', total_kg)]]))))
            else Inr []) of
        Inl e \<Rightarrow> Inl e
      | Inr this \<Rightarrow>
     (case route_stops_with_times L destination_details estimated_departure_time (Suc i)
             current_cumulative_duration legs of
        Inl e \<Rightarrow> Inl e
      | Inr later \<Rightarrow> Inr (this @ later)))))))"

text \<open>Steps 3 to 5 of the function (lines 356 to 435), after the \<open>try\<close> block: nothing
  here is guarded, an exception leaves the function.\<close>

definition compute_and_package ::
  "pylib \<Rightarrow> world \<Rightarrow> call list \<Rightarrow> json \<Rightarrow> json \<Rightarrow> json \<Rightarrow> json \<Rightarrow> json \<Rightarrow> json list \<Rightarrow>
     (pyexc + json \<times> int) \<times> call list" where
  "compute_and_package L W tr api_key origin_id vehicle_id route_date_str origin_coords destination_details =
     (case call_routes_api_compute_routes L W tr origin_coords destination_details api_key of
        (Inl e, tr1) \<Rightarrow> (Inl e, tr1)
      | (Inr (success, routes_api_result), tr1) \<Rightarrow>
     if \<not> success
     then (Inr (JObj [(''status'', JStr ''error''),
                      (''message'', JStr ''Failed to compute route via routing service''),
                      (''details'', routes_api_result)], 500), tr1)
     else
     (case get_default routes_api_result ''routes'' JNull of Inl e \<Rightarrow> (Inl e, tr1) | Inr routes \<Rightarrow>
     if \<not> truthy routes
     then (Inr (JObj [(''status'', JStr ''unavailable''),
                      (''message'', JStr ''Could not compute a route with the provided locations.'')], 200), tr1)
     else
     (case subscript routes_api_result ''routes'' of Inl e \<Rightarrow> (Inl e, tr1) | Inr routes1 \<Rightarrow>
     (case first_item routes1 of Inl e \<Rightarrow> (Inl e, tr1) | Inr main_route \<Rightarrow>
     (case get_default main_route ''duration'' (JStr ''0s'') of
        Inl e \<Rightarrow> (Inl e, tr1) | Inr total_estimated_duration_str \<Rightarrow>
     (case get_default main_route ''distanceMeters'' (JInt 0) of
        Inl e \<Rightarrow> (Inl e, tr1) | Inr total_estimated_distance_meters \<Rightarrow>
     (case get_default main_route ''legs'' (JList []) of
        Inl e \<Rightarrow> (Inl e, tr1) | Inr route_legs \<Rightarrow>
     (case datetime_now W tr1 of (now, tr2) \<Rightarrow>
     (case randint W tr2 5 15 of (preparation, tr3) \<Rightarrow>
     (case timedelta 0 0 preparation of Inl e \<Rightarrow> (Inl e, tr3) | Inr delta \<Rightarrow>
     (case datetime_plus now delta of Inl e \<Rightarrow> (Inl e, tr3) | Inr estimated_departure_time \<Rightarrow>
     (let origin_stop =
            JObj [(''stop_number'', JInt 0),
                  (''location_id'', origin_id),
                  (''location_type'', JStr ''Origin''),
                  (''estimated_arrival_time'', JStr (datetime_isoformat L estimated_departure_time)),
                  (''estimated_duration_from_previous_stop'', JStr ''0s''),
                  (''estimated_distance_from_previous_stop_meters'', JInt 0)]
      in
     (case py_iter route_legs of Inl e \<Rightarrow> (Inl e, tr3) | Inr legs \<Rightarrow>
     (case route_stops_with_times L destination_details estimated_departure_time 0 0 legs of
        Inl e \<Rightarrow> (Inl e, tr3)
      | Inr stops \<Rightarrow>
          (Inr (JObj [(''status'', JStr ''success''),
                      (''vehicle_id'', vehicle_id),
                      (''num_stops_on_route'', JInt (int (length legs) + 1)),
                      (''estimated_total_duration'', total_estimated_duration_str),
                      (''estimated_total_distance_meters'', total_estimated_distance_meters),
                      (''route_stops'', JList (origin_stop # stops)),
                      (''route_date'', route_date_str)], 200), tr3)))))))))))))))"

text \<open>Step 2 (lines 318 to 349), the \<open>try\<close> block: it ends with a response or with the
  coordinates of the origin and the destinations.\<close>

definition retrieve_locations ::
  "pylib \<Rightarrow> world \<Rightarrow> call list \<Rightarrow> json \<Rightarrow> json \<Rightarrow> json \<Rightarrow> json \<Rightarrow>
     (pyexc + (json \<times> int) + json \<times> json list) \<times> call list" where
  "retrieve_locations L W tr api_key origin_id destination_order_ids vehicle_id =
     (case get_location_coordinates L W tr origin_id api_key of
        (Inl e, tr1) \<Rightarrow> (Inl e, tr1)
      | (Inr origin_coords, tr1) \<Rightarrow>
     if \<not> truthy origin_coords
     then (Inr (Inl (JObj [(''status'', JStr ''not_found''),
                            (''message'', JStr (''Origin location ID '' @ py_str L origin_id @
                               '' not found or coordinates unavailable.''))], 404)), tr1)
     else
     (case get_destination_details_for_orders L W tr1 destination_order_ids api_key of
        (Inl e, tr2) \<Rightarrow> (Inl e, tr2)
      | (Inr destination_details, tr2) \<Rightarrow>
     if destination_details = []
     then (Inr (Inl (JObj [(''status'', JStr ''unavailable''),
                            (''message'', JStr (''Could not find valid destinations or coordinates '' @
                               ''for provided order IDs.''))], 200)), tr2)
     else
       (Inr (Inr (origin_coords, destination_details)),
        if truthy vehicle_id then snd (get_vehicle_details L W tr2 vehicle_id) else tr2)))"

definition handle_optimize_delivery_route_fn ::
  "pylib \<Rightarrow> world \<Rightarrow> json \<Rightarrow> request \<Rightarrow> (pyexc + json \<times> int) \<times> call list" where
  "handle_optimize_delivery_route_fn L W api_key req =
     (if req_method req \<noteq> ''POST''
      then (Inr (JObj [(''error'', JStr ''Method not allowed'')], 405), [])
      else
     (let request_json = req_json req in
     (case get_default request_json ''origin_location_id'' JNull of Inl e \<Rightarrow> (Inl e, []) | Inr origin_id \<Rightarrow>
     (case get_default request_json ''destination_order_ids'' JNull of
        Inl e \<Rightarrow> (Inl e, []) | Inr destination_order_ids \<Rightarrow>
     (case get_default request_json ''vehicle_id'' JNull of Inl e \<Rightarrow> (Inl e, []) | Inr vehicle_id \<Rightarrow>
     (case get_default request_json ''route_date'' JNull of Inl e \<Rightarrow> (Inl e, []) | Inr route_date_str \<Rightarrow>
     if \<not> truthy origin_id \<or> \<not> truthy destination_order_ids
     then (Inr (JObj [(''status'', JStr ''error''),
                      (''message'', JStr ''Missing required input parameters'')], 400), [])
     else if \<not> is_list destination_order_ids \<or> \<not> truthy destination_order_ids
     then (Inr (JObj [(''status'', JStr ''error''),
                      (''message'', JStr (''Field '' @ [CHR 0x22] @ ''destination_order_ids'' @ [CHR 0x22] @
                                           '' must be a non-empty list.''))], 400), [])
     else
     (case retrieve_locations L W [] api_key origin_id destination_order_ids vehicle_id of
        (Inl e, tr1) \<Rightarrow>
          (Inr (JObj [(''status'', JStr ''error''),
                      (''message'', JStr ''Error retrieving necessary data'')], 500), tr1)
      | (Inr (Inl response), tr1) \<Rightarrow> (Inr response, tr1)
      | (Inr (Inr (origin_coords, destination_details)), tr1) \<Rightarrow>
          compute_and_package L W tr1 api_key origin_id vehicle_id route_date_str
            origin_coords destination_details)))))))"

section \<open>What a trace says about the warehouse\<close>

text \<open>
  The error values that \<open>fetch_rows\<close> and \<open>insert_rows\<close> returned during a run, read
  off its trace: the warehouse client reported a failure during the run exactly when
  this list is not empty. \<open>errors_from L W n tr\<close> reads the calls \<open>tr\<close> that
  start at position \<open>n\<close> of the run.
\<close>

fun errors_from :: "pylib \<Rightarrow> world \<Rightarrow> nat \<Rightarrow> call list \<Rightarrow> json list" where
  "errors_from L W n [] = []"
| "errors_from L W n (c # cs) =
     (case c of
        Query q ps \<Rightarrow> (case fetch_outcome L W n of (success, v) \<Rightarrow> if success then [] else [v])
      | InsertRowsJson t rows \<Rightarrow>
          (case insert_outcome L W n t of (success, v) \<Rightarrow> if success then [] else [v])
      | _ \<Rightarrow> []) @ errors_from L W (Suc n) cs"


text \<open>The rows written during a run, by table, and the statements sent.\<close>

fun inserts_of :: "call list \<Rightarrow> (string \<times> json list) list" where
  "inserts_of [] = []"
| "inserts_of (InsertRowsJson t rows # cs) = (t, rows) # inserts_of cs"
| "inserts_of (c # cs) = inserts_of cs"

fun statements_of :: "call list \<Rightarrow> string list" where
  "statements_of [] = []"
| "statements_of (Query q ps # cs) = q # statements_of cs"
| "statements_of (c # cs) = statements_of cs"

fun is_http :: "call \<Rightarrow> bool" where
  "is_http (HttpGet url params) = True"
| "is_http (HttpPost url payload headers) = True"
| "is_http c = False"

section \<open>A library and a world to run examples\<close>

text \<open>
  An instance of the library parameters that knows the texts occurring in the examples
  below, and a world in which every call succeeds: queries find no row, inserts report
  no error, the random draws are 0, the day is 2024-05-10 (ordinal 739016).
\<close>

definition example_lib :: pylib where
  "example_lib =
     \<lparr> int_of_str = (\<lambda>s. if s = ''50'' then Some 50 else None),
       float_of_str = (\<lambda>s. if s = ''9.5'' then Some (Finite (19 / 2)) else None),
       float_of_int = (\<lambda>i. Some (Finite (of_int i))),
       strptime_ymd = (\<lambda>s. if s = ''2024-05-10'' then Some 739016 else None),
       date_isoformat = (\<lambda>d. if d = 739016 then ''2024-05-10'' else ''0001-01-01''),
       datetime_isoformat =
         (\<lambda>t. if t = 739016 * 86400000000 + 8 * 3600000000 then ''2024-05-10T08:00:00''
              else if t = 739016 * 86400000000 + 30 * 60000000 then ''2024-05-10T00:30:00''
              else if t = 739016 * 86400000000 + 5 * 60000000 then ''2024-05-10T00:05:00''
              else ''0001-01-01T00:00:00''),
       fromisoformat_iso =
         (\<lambda>s. if s = ''2024-05-10T10:00:00+00:00'' then Some ''2024-05-10T10:00:00+00:00'' else None),
       py_str = (\<lambda>v. case v of JStr s \<Rightarrow> s | JList [] \<Rightarrow> ''[]'' | JInt i \<Rightarrow> (if i = 50 then ''50'' else ''0'')
                      | _ \<Rightarrow> ''None''),
       exc_str = (\<lambda>e. ''error''),
       float_mul_int = (\<lambda>i x. case x of Finite r \<Rightarrow> Some (Finite (of_int i * r)) | _ \<Rightarrow> Some x),
       float_add = (\<lambda>x y. case (x, y) of (Finite a, Finite b) \<Rightarrow> Finite (a + b) | _ \<Rightarrow> NaN),
       round2 = (\<lambda>x. x) \<rparr>"

definition example_world :: world where
  "example_world =
     \<lparr> w_query = (\<lambda>n. Inr []),
       w_insert = (\<lambda>n. Inr []),
       w_uuid = (\<lambda>n. ''123e4567-e89b-42d3-a456-426614174000''),
       w_nat = (\<lambda>n. 0),
       w_float = (\<lambda>n. Finite (1 / 2)),
       w_today = (\<lambda>n. 739016),
       w_now = (\<lambda>n. 739016 * 86400000000),
       w_http = (\<lambda>n. Inl (RequestException ''connection refused'')) \<rparr>"

section \<open>The availability query over the harvest records\<close>

text \<open>
  \<open>availability_query\<close> is evaluated by the warehouse. Its meaning over a table of
  harvest records is written out here, for the columns the statement reads: a column
  that is \<open>NULL\<close> is \<open>None\<close>, a date is its day ordinal, the quantity is an integer
  as \<open>handle_log_harvest\<close> inserts it. A comparison with \<open>NULL\<close> does not hold,
  \<open>SUM\<close> skips \<open>NULL\<close> and is \<open>NULL\<close> when nothing is left, and a query that
  aggregates without grouping returns one row.
\<close>

record harvest_record =
  hr_farm_id :: "string option"
  hr_product_id :: "string option"
  hr_harvest_date :: "int option"
  hr_harvested_quantity_kg :: "int option"

text \<open>The \<open>WHERE\<close> clause:
  \<open>farm_id = @farm_id AND product_id = @product_id AND harvest_date >= DATE_SUB(@requested_date, INTERVAL 7 DAY)\<close>.\<close>

definition availability_where :: "string \<Rightarrow> string \<Rightarrow> int \<Rightarrow> harvest_record \<Rightarrow> bool" where
  "availability_where farm_id product_id requested_date r =
     (hr_farm_id r = Some farm_id \<and> hr_product_id r = Some product_id \<and>
      (case hr_harvest_date r of None \<Rightarrow> False | Some d \<Rightarrow> requested_date - 7 \<le> d))"

text \<open>The quantities summed by \<open>SUM(harvested_quantity_kg)\<close>.\<close>

definition summed_quantities :: "harvest_record list \<Rightarrow> string \<Rightarrow> string \<Rightarrow> int \<Rightarrow> int list" where
  "summed_quantities harvest_records farm_id product_id requested_date =
     [q. r \<leftarrow> filter (availability_where farm_id product_id requested_date) harvest_records,
         Some q \<leftarrow> [hr_harvested_quantity_kg r]]"

definition availability_result_rows :: "harvest_record list \<Rightarrow> string \<Rightarrow> string \<Rightarrow> int \<Rightarrow> json list" where
  "availability_result_rows harvest_records farm_id product_id requested_date =
     [JObj [(''total_harvested'',
             case summed_quantities harvest_records farm_id product_id requested_date of
               [] \<Rightarrow> JNull
             | q # qs \<Rightarrow> JInt (sum_list (q # qs)))]]"

text \<open>
  The sum as claim C5 words it, "over the 7 days up to \<open>requested_date\<close>": the records of
  the farm and product dated from seven days before the requested date to the requested
  date. This definition follows the claim, not the statement sent to the warehouse: the
  statement has no upper bound on the date.
\<close>

definition sum_over_7_days_up_to :: "harvest_record list \<Rightarrow> string \<Rightarrow> string \<Rightarrow> int \<Rightarrow> int" where
  "sum_over_7_days_up_to harvest_records farm_id product_id requested_date =
     sum_list [q. r \<leftarrow> harvest_records,
                  hr_farm_id r = Some farm_id \<and> hr_product_id r = Some product_id,
                  d \<leftarrow> (case hr_harvest_date r of None \<Rightarrow> [] | Some d \<Rightarrow> [d]),
                  requested_date - 7 \<le> d \<and> d \<le> requested_date,
                  Some q \<leftarrow> [hr_harvested_quantity_kg r]]"

text \<open>Worlds and a table for the examples of the pickup scheduler: a warehouse that is
  down, and a table whose only record of the farm and product is dated four days after
  the requested date 2024-05-10.\<close>

definition unavailable_warehouse :: world where
  "unavailable_warehouse =
     example_world\<lparr>w_query := (\<lambda>n. Inl (GoogleAPIError ''backend unavailable''))\<rparr>"

definition late_harvest :: "harvest_record list" where
  "late_harvest =
     [\<lparr>hr_farm_id = Some ''F1'', hr_product_id = Some ''P1'', hr_harvest_date = Some 739020,
       hr_harvested_quantity_kg = Some 100\<rparr>]"

definition late_harvest_world :: world where
  "late_harvest_world =
     example_world\<lparr>w_query := (\<lambda>n. Inr (availability_result_rows late_harvest ''F1'' ''P1'' 739016))\<rparr>"

definition pickup_request :: json where
  "pickup_request =
     JObj [(''farm_id'', JStr ''F1''), (''product_id'', JStr ''P1''),
           (''quantity_kg'', JInt 50), (''requested_date'', JStr ''2024-05-10'')]"

text \<open>The required fields that are not keys of a JSON object.\<close>

definition absent_fields :: "string list \<Rightarrow> (string \<times> json) list \<Rightarrow> string list" where
  "absent_fields required_fields kvs = filter (\<lambda>field. field \<notin> fst ` set kvs) required_fields"

text \<open>A statement that reads: its text starts with \<open>SELECT\<close>. A call that does not
  write to the warehouse: a query with such a statement, or a call to something else.\<close>

definition is_select :: "string \<Rightarrow> bool" where
  "is_select q = starts_with ''SELECT'' q"

fun read_only :: "call \<Rightarrow> bool" where
  "read_only (Query q ps) = is_select q"
| "read_only (InsertRowsJson t rows) = False"
| "read_only c = True"

text \<open>The calls of a run that writes at most one row, into table \<open>t\<close>, as its last
  call.\<close>

definition writes_one :: "string \<Rightarrow> call list \<Rightarrow> bool" where
  "writes_one t cs \<longleftrightarrow>
     list_all read_only cs \<or> (\<exists>pre row. cs = pre @ [InsertRowsJson t [row]] \<and> list_all read_only pre)"

text \<open>The number of rows of each insert of a run.\<close>

fun rows_per_insert :: "call list \<Rightarrow> (string \<times> nat) list" where
  "rows_per_insert [] = []"
| "rows_per_insert (InsertRowsJson t rows # cs) = (t, length rows) # rows_per_insert cs"
| "rows_per_insert (c # cs) = rows_per_insert cs"

text \<open>A purchase order of two items, posted to MarketFlow.\<close>

definition order_request :: request where
  "order_request =
     \<lparr>req_method = ''POST'', req_path = ''/order'', req_content_type = Some ''application/json'',
      req_json = JObj [(''customer_id'', JStr ''C1''),
                       (''items'', JList [JObj [(''product_id'', JStr ''P1''), (''quantity_kg'', JInt 2)],
                                          JObj [(''product_id'', JStr ''P2''), (''quantity_kg'', JInt 4)]])]\<rparr>"


text \<open>The requests that a run posts to a web API: URL, payload and headers.\<close>

fun posts_of :: "call list \<Rightarrow> (string \<times> json \<times> json) list" where
  "posts_of [] = []"
| "posts_of (HttpPost url payload headers # cs) = (url, payload, headers) # posts_of cs"
| "posts_of (c # cs) = posts_of cs"

text \<open>Worlds and requests for the examples of route optimization. In the first the
  warehouse knows the vehicle and one customer. In the second it knows the origin, by an
  address, and one order; the geocoding service finds every address, and the routing
  service, which receives call 4 of the run, returns one route of 600 seconds and 5000
  metres.\<close>

definition route_world :: world where
  "route_world =
     example_world\<lparr>w_query :=
       (\<lambda>n. if n = 0 then Inr [JObj [(''vehicle_id'', JStr ''V1'')]]
            else Inr [JObj [(''customer_id'', JStr ''C1''), (''shipping_address'', JStr ''1 Main St'')]])\<rparr>"

definition route_request :: request where
  "route_request =
     \<lparr>req_method = ''POST'', req_path = ''/route/optimize'', req_content_type = Some ''application/json'',
      req_json = JObj [(''vehicle_id'', JStr ''V1''), (''destination_locations'', JList [JStr ''C1''])]\<rparr>"

definition routes_api_world :: world where
  "routes_api_world =
     example_world\<lparr>
       w_query :=
         (\<lambda>n. if n = 0 then Inr [JObj [(''farm_location'', JStr ''Farm Road 1'')]]
              else Inr [JObj [(''order_id'', JStr ''O1''), (''delivery_address'', JStr ''1 Main St''),
                              (''total_kg'', JInt 1200)]]),
       w_http :=
         (\<lambda>n. if n = 4
              then Inr (JObj [(''routes'', JList [JObj [(''duration'', JStr ''600s''),
                                                         (''distanceMeters'', JInt 5000)]])])
              else Inr (JObj [(''status'', JStr ''OK''),
                              (''results'', JList [JObj [(''geometry'',
                                 JObj [(''location'', JObj [(''lat'', JFloat (Finite (3 / 2))),
                                                            (''lng'', JFloat (Finite (5 / 2)))])])]])]))\<rparr>"

definition routes_api_request :: request where
  "routes_api_request =
     \<lparr>req_method = ''POST'', req_path = ''/'', req_content_type = Some ''application/json'',
      req_json = JObj [(''origin_location_id'', JStr ''F1''), (''destination_order_ids'', JList [JStr ''O1''])]\<rparr>"

section \<open>Properties\<close>

subsection \<open>Validation of a JSON object\<close>

lemma all_in_obj: "all_in fs (JObj kvs) = Inr (set fs \<subseteq> fst ` set kvs)"
  by (induction fs) auto

lemma missing_fields_obj:
  "missing_fields fs (JObj kvs) =
     (if kvs \<noteq> [] \<and> set fs \<subseteq> fst ` set kvs then Inr None
      else Inr (Some (filter (\<lambda>f. f \<notin> fst ` set kvs) fs)))"
  by (auto simp: missing_fields_def all_in_obj intro!: filter_cong filter_True[symmetric])

lemma map_of_Some_key: "map_of kvs k = Some v \<Longrightarrow> k \<in> fst ` set kvs"
  by (metis domI dom_map_of_conv_image_fst)

text \<open>
  Claim C10. A valid report of a cold chain reading (the three required fields present,
  the temperature a number, the timestamp in ISO 8601 format) whose insert succeeds is
  answered with 200 and status "success" whatever the temperature is; the row is inserted
  with the temperature as converted; the message is the critical one above 15.0, the
  success message with the warning appended above 8.0 and up to 15.0, and the plain
  success message otherwise.
\<close>

theorem cold_chain_success:
  assumes "map_of kvs ''shipment_id'' = Some shipment_id"
    and "map_of kvs ''temperature_celsius'' = Some temperature_celsius"
    and "map_of kvs ''timestamp'' = Some timestamp_str"
    and "py_float L temperature_celsius = Inr t"
    and "timestamp_iso_of L timestamp_str = Inr timestamp_iso"
    and "w_insert W (Suc (length tr)) = Inr []"
  shows "handle_report_cold_chain_issue L W tr (JObj kvs) =
           (Inr (200, JObj [(''status'', JStr ''success''),
                            (''reading_id'', JStr (w_uuid W (length tr))),
                            (''message'', JStr
                               (if float_gt t 15 then ''Critical: High temperature excursion reported.''
                                else if float_gt t 8
                                then ''Cold chain reading reported successfully. Warning: Temperature is elevated.''
                                else ''Cold chain reading reported successfully.''))]),
            tr @ [Uuid4,
                  InsertRowsJson COLD_CHAIN_READINGS_TABLE
                    [JObj [(''reading_id'', JStr (w_uuid W (length tr))),
                           (''shipment_id'', shipment_id),
                           (''vehicle_id'', case map_of kvs ''vehicle_id'' of None \<Rightarrow> JNull | Some v \<Rightarrow> v),
                           (''timestamp'', JStr timestamp_iso),
                           (''temperature_celsius'', JFloat t),
                           (''location'', case map_of kvs ''location'' of None \<Rightarrow> JNull | Some v \<Rightarrow> v),
                           (''sensor_id'', case map_of kvs ''sensor_id'' of None \<Rightarrow> JStr ''Unknown'' | Some v \<Rightarrow> v)]]])"
proof -
  have keys: "kvs \<noteq> []" "set [''shipment_id'', ''temperature_celsius'', ''timestamp''] \<subseteq> fst ` set kvs"
    using assms(1-3) by (auto dest: map_of_Some_key)
  have mf: "missing_fields [''shipment_id'', ''temperature_celsius'', ''timestamp''] (JObj kvs) = Inr None"
    using keys by (simp only: missing_fields_obj if_True simp_thms)
  show ?thesis
    unfolding handle_report_cold_chain_issue_def mf
    using assms
    by (simp add: report_cold_chain_issue_try_def except_exception_def uuid4_def insert_rows_def
        insert_outcome_def cold_chain_row_def cold_chain_message_def Let_def split: option.splits)
qed

theorem cold_chain_success_witness:
  "handle_report_cold_chain_issue example_lib example_world []
     (JObj [(''shipment_id'', JStr ''SHP-1''),
            (''temperature_celsius'', JFloat (Finite (19 / 2))),
            (''timestamp'', JStr ''2024-05-10T10:00:00Z'')]) =
   (Inr (200, JObj [(''status'', JStr ''success''),
                    (''reading_id'', JStr ''123e4567-e89b-42d3-a456-426614174000''),
                    (''message'', JStr ''Cold chain reading reported successfully. Warning: Temperature is elevated.'')]),
    [Uuid4,
     InsertRowsJson COLD_CHAIN_READINGS_TABLE
       [JObj [(''reading_id'', JStr ''123e4567-e89b-42d3-a456-426614174000''),
              (''shipment_id'', JStr ''SHP-1''),
              (''vehicle_id'', JNull),
              (''timestamp'', JStr ''2024-05-10T10:00:00+00:00''),
              (''temperature_celsius'', JFloat (Finite (19 / 2))),
              (''location'', JNull),
              (''sensor_id'', JStr ''Unknown'')]]])"
proof -
  let ?kvs = "[(''shipment_id'', JStr ''SHP-1''),
               (''temperature_celsius'', JFloat (Finite (19 / 2))),
               (''timestamp'', JStr ''2024-05-10T10:00:00Z'')]"
  have h1: "map_of ?kvs ''shipment_id'' = Some (JStr ''SHP-1'')" by simp
  have h2: "map_of ?kvs ''temperature_celsius'' = Some (JFloat (Finite (19 / 2)))" by simp
  have h3: "map_of ?kvs ''timestamp'' = Some (JStr ''2024-05-10T10:00:00Z'')" by simp
  have h4: "py_float example_lib (JFloat (Finite (19 / 2))) = Inr (Finite (19 / 2))" by simp
  have h5: "timestamp_iso_of example_lib (JStr ''2024-05-10T10:00:00Z'') = Inr ''2024-05-10T10:00:00+00:00''"
    by (simp add: example_lib_def)
  have h6: "w_insert example_world (Suc (length ([] :: call list))) = Inr []"
    by (simp add: example_world_def)
  show ?thesis
    using cold_chain_success [OF h1 h2 h3 h4 h5 h6]
    by (simp add: example_world_def)
qed

text \<open>
  Claim C9. A POST request to one of the three entry points whose body is not JSON
  (\<open>get_json\<close> returns \<open>None\<close>) is answered with 415 when the lowercased
  \<open>Content-Type\<close> differs from \<open>application/json\<close> and with 400 otherwise; the
  answer does not depend on the path and no call to the outside is made.
\<close>

theorem no_json_body:
  assumes "req_method req = ''POST''" and "req_json req = JNull"
  shows "agrioptimize_backend_function L W req =
           (Inr (if py_lower (case req_content_type req of None \<Rightarrow> [] | Some v \<Rightarrow> v) \<noteq> ''application/json''
                 then (JObj [(''status'', JStr ''error''),
                             (''message'', JStr ''Unsupported Media Type. Expected 'application/json'.'')], 415)
                 else (JObj [(''status'', JStr ''error''),
                             (''message'', JStr ''Invalid JSON body received.'')], 400)), [])
       \<and> logifresh_backend_function L W req = agrioptimize_backend_function L W req
       \<and> marketflow_backend_function L W req = agrioptimize_backend_function L W req"
  using assms
  by (simp add: agrioptimize_backend_function_def logifresh_backend_function_def
      marketflow_backend_function_def no_json_response_def error_message_def)

theorem no_json_body_witness:
  "agrioptimize_backend_function example_lib example_world
     \<lparr>req_method = ''POST'', req_path = ''/harvest'', req_content_type = Some ''text/plain'',
      req_json = JNull\<rparr> =
     (Inr (JObj [(''status'', JStr ''error''),
                 (''message'', JStr ''Unsupported Media Type. Expected 'application/json'.'')], 415), [])
   \<and> marketflow_backend_function example_lib example_world
     \<lparr>req_method = ''POST'', req_path = ''/order'', req_content_type = Some ''Application/JSON'',
      req_json = JNull\<rparr> =
     (Inr (JObj [(''status'', JStr ''error''), (''message'', JStr ''Invalid JSON body received.'')], 400), [])"
  using no_json_body [of "\<lparr>req_method = ''POST'', req_path = ''/harvest'', req_content_type = Some ''text/plain'',
      req_json = JNull\<rparr>" example_lib example_world]
    no_json_body [of "\<lparr>req_method = ''POST'', req_path = ''/order'', req_content_type = Some ''Application/JSON'',
      req_json = JNull\<rparr>" example_lib example_world]
  by (simp add: py_lower_def)

subsection \<open>Results of the warehouse helpers\<close>

lemma fetch_outcome_True: "fetch_outcome L W n = (True, v) \<Longrightarrow> \<exists>rows. v = JList rows"
  by (auto simp: fetch_outcome_def split: sum.splits pyexc.splits)

lemma get_obj: "get_default (JObj kvs) k d = Inr (case map_of kvs k of None \<Rightarrow> d | Some v \<Rightarrow> v)"
  by (simp split: option.splits)

text \<open>
  Claim C7, as amended. A result that is not found maps to 200 in one handler and to 404
  in another: when the warehouse returns no row for the shipment, the shipment tracker
  answers 200 with status "not_found"; when the license number is not empty (a value that
  Python takes as true) and the warehouse returns no row for it, the vehicle lookup
  answers 404 with an empty list of matches; an empty license number (\<open>""\<close>, \<open>0\<close>,
  \<open>false\<close>, \<open>null\<close>) is answered 400 with no list of matches and without a
  query.
\<close>

theorem not_found_responses:
  "(map_of kvs ''shipment_id'' = Some shipment_id \<and> w_query W (length tr) = Inr [] \<longrightarrow>
      handle_track_shipment_location L W tr (JObj kvs) =
        (Inr (200, JObj [(''status'', JStr ''not_found''),
                         (''message'', JStr (''Shipment ID '' @ py_str L shipment_id @ '' not found.''))]),
         tr @ [Query shipment_query [ScalarQueryParameter ''shipment_id'' ''STRING'' shipment_id]]))
   \<and> (req_json req = JObj kvs \<and> map_of kvs ''vehicle_license_no'' = Some vehicle_license_no \<and>
        truthy vehicle_license_no \<and> w_query W 0 = Inr [] \<longrightarrow>
      lookup_vehicle_by_license L W req =
        (Inr (JObj [(''error'', JStr (''Vehicle with license '' @ [CHR 0x27] @ py_str L vehicle_license_no @
                                      [CHR 0x27] @ '' not found'')),
                    (''matches'', JList [])], 404),
         [Query vehicle_license_query [ScalarQueryParameter ''license_no'' ''STRING'' vehicle_license_no]]))
   \<and> (req_json req = JObj kvs \<and> map_of kvs ''vehicle_license_no'' = Some vehicle_license_no \<and>
        \<not> truthy vehicle_license_no \<longrightarrow>
      lookup_vehicle_by_license L W req =
        (Inr (JObj [(''error'', JStr ''Missing or empty vehicle_license_no in request body'')], 400), []))"
proof (intro conjI impI)
  assume a: "map_of kvs ''shipment_id'' = Some shipment_id \<and> w_query W (length tr) = Inr []"
  then have k: "kvs \<noteq> []" "set [''shipment_id''] \<subseteq> fst ` set kvs"
    by (auto dest: map_of_Some_key)
  have mf: "missing_fields [''shipment_id''] (JObj kvs) = Inr None"
    using k by (simp only: missing_fields_obj if_True simp_thms)
  show "handle_track_shipment_location L W tr (JObj kvs) =
        (Inr (200, JObj [(''status'', JStr ''not_found''),
                         (''message'', JStr (''Shipment ID '' @ py_str L shipment_id @ '' not found.''))]),
         tr @ [Query shipment_query [ScalarQueryParameter ''shipment_id'' ''STRING'' shipment_id]])"
    unfolding handle_track_shipment_location_def mf
    using a
    by (simp add: track_shipment_location_try_def except_exception_def fetch_rows_def fetch_outcome_def)
next
  assume a: "req_json req = JObj kvs \<and> map_of kvs ''vehicle_license_no'' = Some vehicle_license_no \<and>
        truthy vehicle_license_no \<and> w_query W 0 = Inr []"
  then have k: "kvs \<noteq> []" "''vehicle_license_no'' \<in> fst ` set kvs"
    by (auto dest: map_of_Some_key)
  show "lookup_vehicle_by_license L W req =
        (Inr (JObj [(''error'', JStr (''Vehicle with license '' @ [CHR 0x27] @ py_str L vehicle_license_no @
                                      [CHR 0x27] @ '' not found'')),
                    (''matches'', JList [])], 404),
         [Query vehicle_license_query [ScalarQueryParameter ''license_no'' ''STRING'' vehicle_license_no]])"
    using a k
    by (simp add: lookup_vehicle_by_license_def has_nonempty_def Let_def)
next
  assume a: "req_json req = JObj kvs \<and> map_of kvs ''vehicle_license_no'' = Some vehicle_license_no \<and>
        \<not> truthy vehicle_license_no"
  then have k: "kvs \<noteq> []" "''vehicle_license_no'' \<in> fst ` set kvs"
    by (auto dest: map_of_Some_key)
  show "lookup_vehicle_by_license L W req =
        (Inr (JObj [(''error'', JStr ''Missing or empty vehicle_license_no in request body'')], 400), [])"
    using a k
    by (simp add: lookup_vehicle_by_license_def has_nonempty_def Let_def)
qed


theorem not_found_responses_witness:
  "handle_track_shipment_location example_lib example_world [] (JObj [(''shipment_id'', JStr ''SHP-404'')]) =
     (Inr (200, JObj [(''status'', JStr ''not_found''),
                      (''message'', JStr ''Shipment ID SHP-404 not found.'')]),
      [Query shipment_query [ScalarQueryParameter ''shipment_id'' ''STRING'' (JStr ''SHP-404'')]])
   \<and> lookup_vehicle_by_license example_lib example_world
       \<lparr>req_method = ''POST'', req_path = ''/'', req_content_type = Some ''application/json'',
        req_json = JObj [(''vehicle_license_no'', JStr ''ABC-123'')]\<rparr> =
     (Inr (JObj [(''error'', JStr (''Vehicle with license '' @ [CHR 0x27] @ ''ABC-123'' @ [CHR 0x27] @ '' not found'')),
                 (''matches'', JList [])], 404),
      [Query vehicle_license_query [ScalarQueryParameter ''license_no'' ''STRING'' (JStr ''ABC-123'')]])
   \<and> lookup_vehicle_by_license example_lib example_world
       \<lparr>req_method = ''POST'', req_path = ''/'', req_content_type = Some ''application/json'',
        req_json = JObj [(''vehicle_license_no'', JInt 0)]\<rparr> =
     (Inr (JObj [(''error'', JStr ''Missing or empty vehicle_license_no in request body'')], 400), [])"
  using not_found_responses [where kvs = "[(''shipment_id'', JStr ''SHP-404'')]"
      and shipment_id = "JStr ''SHP-404''" and W = example_world and tr = "[]" and L = example_lib]
    not_found_responses [where kvs = "[(''vehicle_license_no'', JStr ''ABC-123'')]"
      and vehicle_license_no = "JStr ''ABC-123''" and W = example_world and L = example_lib
      and req = "\<lparr>req_method = ''POST'', req_path = ''/'', req_content_type = Some ''application/json'',
        req_json = JObj [(''vehicle_license_no'', JStr ''ABC-123'')]\<rparr>"]
    not_found_responses [where kvs = "[(''vehicle_license_no'', JInt 0)]"
      and vehicle_license_no = "JInt 0" and W = example_world and L = example_lib
      and req = "\<lparr>req_method = ''POST'', req_path = ''/'', req_content_type = Some ''application/json'',
        req_json = JObj [(''vehicle_license_no'', JInt 0)]\<rparr>"]
  by (simp add: example_world_def example_lib_def)

text \<open>
  Claim C7 as stated fails for an empty license number: the warehouse of the example
  holds no vehicle, so no row matches, and the lookup answers 400 with a body that has
  no list of matches; it does not send a query.
\<close>

theorem not_found_responses_counterexample:
  "w_query example_world 0 = Inr []
   \<and> lookup_vehicle_by_license example_lib example_world
       \<lparr>req_method = ''POST'', req_path = ''/'', req_content_type = Some ''application/json'',
        req_json = JObj [(''vehicle_license_no'', JStr [])]\<rparr> =
     (Inr (JObj [(''error'', JStr ''Missing or empty vehicle_license_no in request body'')], 400), [])"
  by (simp add: lookup_vehicle_by_license_def has_nonempty_def example_world_def)

text \<open>
  Claim C6. When retrievals of the harvest advice fail, the handler returns what it has:
  with \<open>harvests\<close>, \<open>qc_issues\<close>, \<open>schedules\<close> the values returned by the three queries
  (the rows, or the error text of a failed query) and \<open>farm_details\<close> the farm row, the
  answer is 200 with status "warning" and these four values in the body when at least one
  of them is non-empty, and 500 with status "error" when all four are empty.
\<close>

theorem harvest_advice_partial_failure:
  assumes "fetch_outcome L W 0 = (success_h, harvests)"
    and "fetch_outcome L W 1 = (success_q, qc_issues)"
    and "fetch_outcome L W 2 = (success_s, schedules)"
    and "farm_id = (case map_of kvs ''farm_id'' of None \<Rightarrow> JNull | Some v \<Rightarrow> v)"
    and "(success_f, farm_info) = (if truthy farm_id then fetch_outcome L W 3 else (True, JNull))"
    and "farm_details = (if success_f \<and> truthy farm_info
                         then (case farm_info of JList (row # rows) \<Rightarrow> row | _ \<Rightarrow> JObj [])
                         else JObj [])"
    and "\<not> (success_h \<and> success_q \<and> success_s \<and> success_f)"
  shows "fst (handle_get_harvest_advice L W [] (JObj kvs)) =
           Inr (if truthy harvests \<or> truthy qc_issues \<or> truthy schedules \<or> truthy farm_details
                then 200 else 500,
                JObj [(''status'', JStr (if truthy harvests \<or> truthy qc_issues \<or> truthy schedules \<or>
                                            truthy farm_details then ''warning'' else ''error'')),
                      (''message'', JStr (if truthy harvests \<or> truthy qc_issues \<or> truthy schedules \<or>
                                             truthy farm_details
                                          then ''Data retrieval issues encountered.''
                                          else ''Failed to retrieve data for advice.'')),
                      (''details'', JStr (join '' | ''
                         ((if \<not> success_h then [''Harvest query failed: '' @ py_str L harvests] else []) @
                          (if \<not> success_q then [''QC query failed: '' @ py_str L qc_issues] else []) @
                          (if \<not> success_s then [''Schedule query failed: '' @ py_str L schedules] else []) @
                          (if \<not> success_f \<and> truthy farm_id
                           then [''Farm query failed: '' @ py_str L farm_info] else [])))),
                      (''farm_details'', farm_details),
                      (''recent_harvests'', harvests),
                      (''recent_qc_issues'', qc_issues),
                      (''upcoming_schedules'', schedules)])"
proof -
  let ?any = "truthy harvests \<or> truthy qc_issues \<or> truthy schedules \<or> truthy farm_details"
  have o2: "fetch_outcome L W (Suc (Suc 0)) = (success_s, schedules)"
    using assms(3) by (simp add: numeral_2_eq_2)
  have farm: "truthy farm_id \<Longrightarrow> fetch_outcome L W (Suc (Suc (Suc 0))) = (success_f, farm_info)"
    "\<not> truthy farm_id \<Longrightarrow> success_f \<and> farm_info = JNull"
    using assms(5) by (auto simp: numeral_3_eq_3 split: if_splits)
  have fd: "truthy farm_id \<Longrightarrow> success_f \<and> truthy farm_info \<Longrightarrow>
              first_item farm_info = Inr farm_details"
    using fetch_outcome_True[of L W "Suc (Suc (Suc 0))" farm_info] farm(1) assms(6)
    by (auto split: list.splits)
  have fd': "\<not> (success_f \<and> truthy farm_info) \<Longrightarrow> farm_details = JObj []"
    using assms(6) by auto
  have core: "fst (get_harvest_advice_try L W [] farm_id p s e) =
               Inr (if ?any then 200 else 500,
                JObj [(''status'', JStr (if ?any then ''warning'' else ''error'')),
                      (''message'', JStr (if ?any
                                          then ''Data retrieval issues encountered.''
                                          else ''Failed to retrieve data for advice.'')),
                      (''details'', JStr (join '' | ''
                         ((if \<not> success_h then [''Harvest query failed: '' @ py_str L harvests] else []) @
                          (if \<not> success_q then [''QC query failed: '' @ py_str L qc_issues] else []) @
                          (if \<not> success_s then [''Schedule query failed: '' @ py_str L schedules] else []) @
                          (if \<not> success_f \<and> truthy farm_id
                           then [''Farm query failed: '' @ py_str L farm_info] else [])))),
                      (''farm_details'', farm_details),
                      (''recent_harvests'', harvests),
                      (''recent_qc_issues'', qc_issues),
                      (''upcoming_schedules'', schedules)])" for p s e
  proof (cases "truthy farm_id")
    case True
    note f3 = farm(1)[OF True]
    show ?thesis
    proof (cases "success_f \<and> truthy farm_info")
      case c2: True
      show ?thesis
        using True c2 f3 fd[OF True c2] assms(1,2,7) o2
        by (cases success_h; cases success_q; cases success_s; cases ?any)
          (simp_all add: get_harvest_advice_try_def fetch_rows_def Let_def)
    next
      case c2: False
      show ?thesis
        using True f3 fd'[OF c2] assms(1,2,7) o2 c2
        by (cases success_f; cases "truthy farm_info"; cases success_h; cases success_q;
            cases success_s; cases ?any)
          (simp_all add: get_harvest_advice_try_def fetch_rows_def Let_def)
    qed
  next
    case False
    have fdz: "farm_details = JObj []" using farm(2)[OF False] assms(6) by simp
    show ?thesis
      using False farm(2)[OF False] fdz assms(1,2,7) o2
      by (cases success_h; cases success_q; cases success_s; cases ?any)
        (simp_all add: get_harvest_advice_try_def fetch_rows_def Let_def)
  qed
  show ?thesis
    unfolding handle_get_harvest_advice_def get_obj assms(4)[symmetric]
    by (simp add: except_exception_def core split: sum.splits)
qed


theorem harvest_advice_partial_failure_witness:
  "fst (handle_get_harvest_advice example_lib
          (example_world\<lparr>w_query :=
             (\<lambda>n. if n = 0 then Inl (GoogleAPIError ''quota exceeded'')
                  else if n = 1 then Inr [JObj [(''issue_type'', JStr ''Pest'')]]
                  else Inr [])\<rparr>) [] (JObj [])) =
   Inr (200, JObj [(''status'', JStr ''warning''),
                   (''message'', JStr ''Data retrieval issues encountered.''),
                   (''details'', JStr ''Harvest query failed: quota exceeded''),
                   (''farm_details'', JObj []),
                   (''recent_harvests'', JStr ''quota exceeded''),
                   (''recent_qc_issues'', JList [JObj [(''issue_type'', JStr ''Pest'')]]),
                   (''upcoming_schedules'', JList [])])"
proof -
  let ?W = "example_world\<lparr>w_query :=
             (\<lambda>n. if n = 0 then Inl (GoogleAPIError ''quota exceeded'')
                  else if n = 1 then Inr [JObj [(''issue_type'', JStr ''Pest'')]]
                  else Inr [])\<rparr>"
  have h0: "fetch_outcome example_lib ?W 0 = (False, JStr ''quota exceeded'')"
    by (simp add: fetch_outcome_def)
  have h1: "fetch_outcome example_lib ?W 1 = (True, JList [JObj [(''issue_type'', JStr ''Pest'')]])"
    by (simp add: fetch_outcome_def)
  have h2: "fetch_outcome example_lib ?W 2 = (True, JList [])"
    by (simp add: fetch_outcome_def)
  have h3: "JNull = (case map_of ([] :: (string \<times> json) list) ''farm_id'' of None \<Rightarrow> JNull | Some v \<Rightarrow> v)"
    by simp
  have h4: "(True, JNull) = (if truthy JNull then fetch_outcome example_lib ?W 3 else (True, JNull))"
    by simp
  have h5: "JObj [] = (if True \<and> truthy JNull
                       then (case JNull of JList (row # rows) \<Rightarrow> row | _ \<Rightarrow> JObj [])
                       else JObj [])"
    by simp
  have h6: "\<not> (False \<and> True \<and> True \<and> True)" by simp
  show ?thesis
    using harvest_advice_partial_failure [OF h0 h1 h2 h3 h4 h5 h6]
    by (simp add: example_lib_def)
qed

subsection \<open>Pickup scheduling\<close>

lemma randint_range:
  assumes "a \<le> b"
  obtains v where "randint W tr a b = (v, tr @ [RandInt a b])" "a \<le> v" "v \<le> b"
proof -
  let ?v = "a + int (w_nat W (length tr)) mod (b - a + 1)"
  have "0 \<le> int (w_nat W (length tr)) mod (b - a + 1)"
    "int (w_nat W (length tr)) mod (b - a + 1) < b - a + 1"
    using assms pos_mod_sign[of "b - a + 1" "int (w_nat W (length tr))"]
      pos_mod_bound[of "b - a + 1" "int (w_nat W (length tr))"] by linarith+
  then have "a \<le> ?v" "?v \<le> b" by linarith+
  moreover have "randint W tr a b = (?v, tr @ [RandInt a b])" by (simp add: randint_def)
  ultimately show thesis using that by blast
qed

lemma timedelta_pickup:
  assumes "0 \<le> days" "days \<le> 2" "8 \<le> hours" "hours \<le> 16" "0 \<le> minutes" "minutes \<le> 59"
  shows "timedelta days hours minutes = Inr (days * us_per_day + hours * 3600000000 + minutes * 60000000)"
proof -
  let ?us = "days * 86400000000 + hours * 3600000000 + minutes * 60000000"
  have "0 \<le> ?us" "?us < 3 * 86400000000" using assms by linarith+
  then have "0 \<le> ?us div 86400000000" "?us div 86400000000 \<le> (3 * 86400000000 - 1) div 86400000000"
    by (simp_all add: pos_imp_zdiv_nonneg_iff zdiv_mono1)
  then show ?thesis by (simp add: timedelta_def us_per_day_def Let_def)
qed

lemma datetime_plus_pickup:
  assumes "1 \<le> d" "d + 2 \<le> MAXORDINAL" "0 \<le> delta" "delta < 3 * us_per_day"
  shows "datetime_plus (d * us_per_day) delta = Inr (d * us_per_day + delta)"
proof -
  have "us_per_day \<le> d * us_per_day + delta"
    using assms(1,3) by (simp add: us_per_day_def)
  moreover have "d * us_per_day + delta < (MAXORDINAL + 1) * us_per_day"
  proof -
    have "d * us_per_day + delta < (d + 3) * us_per_day"
      using assms(4) by (simp add: algebra_simps)
    also have "\<dots> \<le> (MAXORDINAL + 1) * us_per_day"
      using assms(2) by (simp add: us_per_day_def)
    finally show ?thesis .
  qed
  ultimately show ?thesis by (simp add: datetime_plus_def)
qed

lemma first_value_total:
  "first_value_or_0 True (JList (availability_result_rows T f p d)) ''total_harvested'' =
     Inr (JInt (sum_list (summed_quantities T f p d)))"
  by (simp add: first_value_or_0_def availability_result_rows_def split: list.splits)


lemma mod_range: "0 < m \<Longrightarrow> 0 \<le> int n mod m \<and> int n mod m \<le> m - 1"
  using pos_mod_sign[of m "int n"] pos_mod_bound[of m "int n"] by linarith

text \<open>
  Claim C5, as amended. For a valid pickup request (the four fields present, farm and
  product strings, the quantity an integer, the requested date accepted by \<open>strptime\<close>
  and not later than 9999-12-29) whose availability query succeeds, the handler answers
  200 with status "success" and the requested quantity confirmed when the sum of
  \<open>harvested_quantity_kg\<close> over the records of that farm and product dated on or after
  seven days before the requested date (a missing sum counting as 0) is at least the
  requested quantity, and 200 with status "unavailable" otherwise; on success the estimated
  pickup time lies between 08:00 of the requested date and 16:59 two days later.
\<close>

theorem schedule_pickup_availability:
  assumes farm: "map_of kvs ''farm_id'' = Some (JStr farm_id)"
    and product: "map_of kvs ''product_id'' = Some (JStr product_id)"
    and quantity: "map_of kvs ''quantity_kg'' = Some (JInt quantity_kg)"
    and date: "map_of kvs ''requested_date'' = Some (JStr requested_date)"
    and parsed: "strptime_ymd L requested_date = Some d"
    and calendar: "1 \<le> d" "d + 2 \<le> MAXORDINAL"
    and answer: "w_query W (length tr) = Inr (availability_result_rows harvest_records farm_id product_id d)"
    and sum: "available = sum_list (summed_quantities harvest_records farm_id product_id d)"
  shows "(quantity_kg \<le> available \<longrightarrow>
            (\<exists>t cold.
               d * us_per_day + 8 * 3600000000 \<le> t \<and>
               t \<le> (d + 2) * us_per_day + 16 * 3600000000 + 59 * 60000000 \<and>
               fst (handle_schedule_farm_pickup L W tr (JObj kvs)) =
                 Inr (200, JObj [(''status'', JStr ''success''),
                                 (''details'',
                                  JObj [(''request_status'', JStr ''Acknowledged''),
                                        (''estimated_pickup_datetime'', JStr (datetime_isoformat L t)),
                                        (''confirmed_quantity_kg'', JInt quantity_kg),
                                        (''message'', JStr (''Pickup request received and appears feasible. '' @
                                           ''Logistics is being notified and will confirm exact details.'')),
                                        (''requires_cold_chain'', JBool cold)])])))
       \<and> (\<not> quantity_kg \<le> available \<longrightarrow>
            fst (handle_schedule_farm_pickup L W tr (JObj kvs)) =
              Inr (200, JObj [(''status'', JStr ''unavailable''),
                              (''message'', JStr (''Unable to schedule pickup for '' @ py_str L (JInt quantity_kg) @
                                 '' kg. Only found approximately '' @ py_str L (JInt available) @
                                 '' kg recently harvested or on hand for this product at this farm. '' @
                                 ''Please adjust quantity or date.''))]))"
proof -
  have k: "kvs \<noteq> []" "set [''farm_id'', ''product_id'', ''quantity_kg'', ''requested_date''] \<subseteq> fst ` set kvs"
    using farm product quantity date by (auto dest: map_of_Some_key)
  have mf: "missing_fields [''farm_id'', ''product_id'', ''quantity_kg'', ''requested_date''] (JObj kvs) = Inr None"
    using k by (simp only: missing_fields_obj if_True simp_thms)
  have fo: "fetch_outcome L W (length tr) =
              (True, JList (availability_result_rows harvest_records farm_id product_id d))"
    using answer by (simp add: fetch_outcome_def)
  have fv: "first_value_or_0 True (JList (availability_result_rows harvest_records farm_id product_id d))
              ''total_harvested'' = Inr (JInt available)"
    using sum by (simp add: first_value_total)
  define dy where "dy = int (w_nat W (Suc (length tr))) mod 3"
  define hr where "hr = 8 + int (w_nat W (Suc (Suc (length tr)))) mod 9"
  define mn where "mn = int (w_nat W (Suc (Suc (Suc (length tr))))) mod 60"
  define delta where "delta = dy * us_per_day + hr * 3600000000 + mn * 60000000"
  have b: "0 \<le> dy" "dy \<le> 2" "8 \<le> hr" "hr \<le> 16" "0 \<le> mn" "mn \<le> 59"
    using mod_range[of 3 "w_nat W (Suc (length tr))"] mod_range[of 9 "w_nat W (Suc (Suc (length tr)))"]
      mod_range[of 60 "w_nat W (Suc (Suc (Suc (length tr))))"]
    by (simp_all add: dy_def hr_def mn_def)
  have td: "timedelta dy hr mn = Inr delta"
    using timedelta_pickup[OF b] by (simp add: delta_def)
  have db: "8 * 3600000000 \<le> delta" "delta \<le> 2 * us_per_day + 16 * 3600000000 + 59 * 60000000"
    using b by (simp_all add: delta_def us_per_day_def)
  have dp: "datetime_plus (d * us_per_day) delta = Inr (d * us_per_day + delta)"
    using db by (intro datetime_plus_pickup calendar) (simp_all add: us_per_day_def)
  have r: "randint W (tr @ [Query q ps]) 0 2 = (dy, tr @ [Query q ps, RandInt 0 2])"
    "randint W (tr @ [Query q ps, RandInt 0 2]) 8 16 = (hr, tr @ [Query q ps, RandInt 0 2, RandInt 8 16])"
    "randint W (tr @ [Query q ps, RandInt 0 2, RandInt 8 16]) 0 59 =
       (mn, tr @ [Query q ps, RandInt 0 2, RandInt 8 16, RandInt 0 59])" for q ps
    by (simp_all add: randint_def dy_def hr_def mn_def)
  show ?thesis
  proof (intro conjI impI)
    assume le: "quantity_kg \<le> available"
    have "fst (handle_schedule_farm_pickup L W tr (JObj kvs)) =
            Inr (200, JObj [(''status'', JStr ''success''),
                            (''details'',
                             JObj [(''request_status'', JStr ''Acknowledged''),
                                   (''estimated_pickup_datetime'', JStr (datetime_isoformat L (d * us_per_day + delta))),
                                   (''confirmed_quantity_kg'', JInt quantity_kg),
                                   (''message'', JStr (''Pickup request received and appears feasible. '' @
                                      ''Logistics is being notified and will confirm exact details.'')),
                                   (''requires_cold_chain'',
                                    JBool (float_lt (w_float W (Suc (Suc (Suc (Suc (length tr)))))) (9 / 10)))])])"
      unfolding handle_schedule_farm_pickup_def mf
      using farm product quantity date parsed le
      by (simp add: schedule_farm_pickup_try_def except_exception_def fetch_rows_def fo fv r td dp)
    moreover have "d * us_per_day + 8 * 3600000000 \<le> d * us_per_day + delta"
      "d * us_per_day + delta \<le> (d + 2) * us_per_day + 16 * 3600000000 + 59 * 60000000"
      using db by (simp_all add: algebra_simps)
    ultimately show "\<exists>t cold.
               d * us_per_day + 8 * 3600000000 \<le> t \<and>
               t \<le> (d + 2) * us_per_day + 16 * 3600000000 + 59 * 60000000 \<and>
               fst (handle_schedule_farm_pickup L W tr (JObj kvs)) =
                 Inr (200, JObj [(''status'', JStr ''success''),
                                 (''details'',
                                  JObj [(''request_status'', JStr ''Acknowledged''),
                                        (''estimated_pickup_datetime'', JStr (datetime_isoformat L t)),
                                        (''confirmed_quantity_kg'', JInt quantity_kg),
                                        (''message'', JStr (''Pickup request received and appears feasible. '' @
                                           ''Logistics is being notified and will confirm exact details.'')),
                                        (''requires_cold_chain'', JBool cold)])])"
      by blast
  next
    assume nle: "\<not> quantity_kg \<le> available"
    show "fst (handle_schedule_farm_pickup L W tr (JObj kvs)) =
              Inr (200, JObj [(''status'', JStr ''unavailable''),
                              (''message'', JStr (''Unable to schedule pickup for '' @ py_str L (JInt quantity_kg) @
                                 '' kg. Only found approximately '' @ py_str L (JInt available) @
                                 '' kg recently harvested or on hand for this product at this farm. '' @
                                 ''Please adjust quantity or date.''))])"
      unfolding handle_schedule_farm_pickup_def mf
      using farm product quantity date parsed nle
      by (simp add: schedule_farm_pickup_try_def except_exception_def fetch_rows_def fo fv)
  qed
qed


theorem schedule_pickup_availability_witness:
  "\<exists>t cold.
     739016 * us_per_day + 8 * 3600000000 \<le> t \<and>
     t \<le> (739016 + 2) * us_per_day + 16 * 3600000000 + 59 * 60000000 \<and>
     fst (handle_schedule_farm_pickup example_lib late_harvest_world [] pickup_request) =
       Inr (200, JObj [(''status'', JStr ''success''),
                       (''details'',
                        JObj [(''request_status'', JStr ''Acknowledged''),
                              (''estimated_pickup_datetime'', JStr (datetime_isoformat example_lib t)),
                              (''confirmed_quantity_kg'', JInt 50),
                              (''message'', JStr (''Pickup request received and appears feasible. '' @
                                 ''Logistics is being notified and will confirm exact details.'')),
                              (''requires_cold_chain'', JBool cold)])])"
proof -
  let ?kvs = "[(''farm_id'', JStr ''F1''), (''product_id'', JStr ''P1''),
               (''quantity_kg'', JInt 50), (''requested_date'', JStr ''2024-05-10'')]"
  have h1: "map_of ?kvs ''farm_id'' = Some (JStr ''F1'')" by simp
  have h2: "map_of ?kvs ''product_id'' = Some (JStr ''P1'')" by simp
  have h3: "map_of ?kvs ''quantity_kg'' = Some (JInt 50)" by simp
  have h4: "map_of ?kvs ''requested_date'' = Some (JStr ''2024-05-10'')" by simp
  have h5: "strptime_ymd example_lib ''2024-05-10'' = Some 739016" by (simp add: example_lib_def)
  have h6: "(1::int) \<le> 739016" by simp
  have h7: "(739016::int) + 2 \<le> MAXORDINAL" by (simp add: MAXORDINAL_def)
  have h8: "w_query late_harvest_world (length ([] :: call list)) =
              Inr (availability_result_rows late_harvest ''F1'' ''P1'' 739016)"
    by (simp add: late_harvest_world_def example_world_def)
  have h9: "(100::int) = sum_list (summed_quantities late_harvest ''F1'' ''P1'' 739016)"
    by (simp add: summed_quantities_def late_harvest_def availability_where_def)
  show ?thesis
    using schedule_pickup_availability [OF h1 h2 h3 h4 h5 h6 h7 h8 h9]
    by (simp add: pickup_request_def)
qed

text \<open>
  Claim C5 as stated fails in two places. When the availability query fails, a valid
  request is answered 500, neither "success" nor "unavailable". And the statement sent to
  the warehouse has no upper bound on the harvest date: with one record of 100 kg dated
  four days after the requested date, nothing was harvested in the seven days up to
  the requested date, yet 50 kg are confirmed.
\<close>

theorem schedule_pickup_counterexample:
  "fst (handle_schedule_farm_pickup example_lib unavailable_warehouse [] pickup_request) =
     Inr (500, JObj [(''status'', JStr ''error''),
                     (''message'', JStr ''Failed to check farm availability.''),
                     (''details'', JStr ''backend unavailable'')])
   \<and> sum_over_7_days_up_to late_harvest ''F1'' ''P1'' 739016 = 0
   \<and> fst (handle_schedule_farm_pickup example_lib late_harvest_world [] pickup_request) =
     Inr (200, JObj [(''status'', JStr ''success''),
                     (''details'',
                      JObj [(''request_status'', JStr ''Acknowledged''),
                            (''estimated_pickup_datetime'', JStr ''2024-05-10T08:00:00''),
                            (''confirmed_quantity_kg'', JInt 50),
                            (''message'', JStr (''Pickup request received and appears feasible. '' @
                               ''Logistics is being notified and will confirm exact details.'')),
                            (''requires_cold_chain'', JBool True)])])"
proof (intro conjI)
  have mf: "missing_fields [''farm_id'', ''product_id'', ''quantity_kg'', ''requested_date''] pickup_request
              = Inr None"
    by (simp add: missing_fields_def pickup_request_def)
  show "fst (handle_schedule_farm_pickup example_lib unavailable_warehouse [] pickup_request) =
     Inr (500, JObj [(''status'', JStr ''error''),
                     (''message'', JStr ''Failed to check farm availability.''),
                     (''details'', JStr ''backend unavailable'')])"
    unfolding handle_schedule_farm_pickup_def mf
    by (simp add: pickup_request_def schedule_farm_pickup_try_def except_exception_def fetch_rows_def
        fetch_outcome_def first_value_or_0_def unavailable_warehouse_def example_world_def example_lib_def)
  show "sum_over_7_days_up_to late_harvest ''F1'' ''P1'' 739016 = 0"
    by (simp add: sum_over_7_days_up_to_def late_harvest_def)
  show "fst (handle_schedule_farm_pickup example_lib late_harvest_world [] pickup_request) =
     Inr (200, JObj [(''status'', JStr ''success''),
                     (''details'',
                      JObj [(''request_status'', JStr ''Acknowledged''),
                            (''estimated_pickup_datetime'', JStr ''2024-05-10T08:00:00''),
                            (''confirmed_quantity_kg'', JInt 50),
                            (''message'', JStr (''Pickup request received and appears feasible. '' @
                               ''Logistics is being notified and will confirm exact details.'')),
                            (''requires_cold_chain'', JBool True)])])"
    unfolding handle_schedule_farm_pickup_def mf
    by (simp add: pickup_request_def schedule_farm_pickup_try_def except_exception_def fetch_rows_def
        fetch_outcome_def first_value_or_0_def late_harvest_world_def example_world_def example_lib_def
        availability_result_rows_def summed_quantities_def late_harvest_def availability_where_def
        randint_def timedelta_def datetime_plus_def us_per_day_def MAXORDINAL_def Let_def)
qed

subsection \<open>Missing required fields\<close>

lemma missing_absent:
  "absent_fields fs kvs \<noteq> [] \<Longrightarrow> missing_fields fs (JObj kvs) = Inr (Some (absent_fields fs kvs))"
  by (auto simp: missing_fields_obj absent_fields_def filter_empty_conv)

lemma absent_cons:
  "absent_fields (f # fs) kvs = (if map_of kvs f = None then [f] else []) @ absent_fields fs kvs"
  by (auto simp: absent_fields_def map_of_eq_None_iff)

text \<open>
  Claim C1, as amended. A request whose JSON object lacks required fields of the handler
  is answered 400 with the message "Missing required fields in body: " and the missing
  fields, by every handler of the three backends that has required fields, except the
  receiver of logistics pickup requests, which answers 200 with status "error" and a
  message naming the missing fields. The vehicle lookup answers 400 with a fixed message
  that names its field, the route function answers 400 with a message that names no
  field. In particular POST /harvest without \<open>harvested_quantity_kg\<close> is answered
  400 and the field is among those named.
\<close>

theorem missing_required_fields:
  "(absent_fields [''farm_id'', ''product_id'', ''harvested_quantity_kg'', ''harvest_date''] kvs \<noteq> [] \<longrightarrow>
      handle_log_harvest L W tr (JObj kvs) =
        (Inr (400, missing_body
           (absent_fields [''farm_id'', ''product_id'', ''harvested_quantity_kg'', ''harvest_date''] kvs)), tr))
   \<and> (absent_fields [''farm_id'', ''issue_type''] kvs \<noteq> [] \<longrightarrow>
      handle_report_farm_qc_issue L W tr (JObj kvs) =
        (Inr (400, missing_body (absent_fields [''farm_id'', ''issue_type''] kvs)), tr))
   \<and> (absent_fields [''farm_id'', ''product_id'', ''quantity_kg'', ''requested_date''] kvs \<noteq> [] \<longrightarrow>
      handle_schedule_farm_pickup L W tr (JObj kvs) =
        (Inr (400, missing_body
           (absent_fields [''farm_id'', ''product_id'', ''quantity_kg'', ''requested_date''] kvs)), tr))
   \<and> (absent_fields [''shipment_id''] kvs \<noteq> [] \<longrightarrow>
      handle_track_shipment_location L W tr (JObj kvs) =
        (Inr (400, missing_body (absent_fields [''shipment_id''] kvs)), tr))
   \<and> (absent_fields [''shipment_id'', ''temperature_celsius'', ''timestamp''] kvs \<noteq> [] \<longrightarrow>
      handle_report_cold_chain_issue L W tr (JObj kvs) =
        (Inr (400, missing_body
           (absent_fields [''shipment_id'', ''temperature_celsius'', ''timestamp''] kvs)), tr))
   \<and> (absent_fields [''location_id''] kvs \<noteq> [] \<longrightarrow>
      handle_check_warehouse_stock L W tr (JObj kvs) =
        (Inr (400, missing_body (absent_fields [''location_id''] kvs)), tr))
   \<and> (absent_fields [''destination_locations'', ''vehicle_id''] kvs \<noteq> [] \<longrightarrow>
      handle_optimize_delivery_route L W tr (JObj kvs) =
        (Inr (400, missing_body (absent_fields [''destination_locations'', ''vehicle_id''] kvs)), tr))
   \<and> (absent_fields [''product_id'', ''target_date_start'', ''target_date_end''] kvs \<noteq> [] \<longrightarrow>
      handle_get_demand_forecast L W tr (JObj kvs) =
        (Inr (400, missing_body
           (absent_fields [''product_id'', ''target_date_start'', ''target_date_end''] kvs)), tr))
   \<and> (absent_fields [''product_id''] kvs \<noteq> [] \<longrightarrow>
      handle_get_market_prices L W tr (JObj kvs) =
        (Inr (400, missing_body (absent_fields [''product_id''] kvs)), tr) \<and>
      handle_check_product_availability L W tr (JObj kvs) =
        (Inr (400, missing_body (absent_fields [''product_id''] kvs)), tr))
   \<and> (absent_fields [''customer_id'', ''items''] kvs \<noteq> [] \<longrightarrow>
      handle_place_purchase_order L W tr (JObj kvs) =
        (Inr (400, missing_body (absent_fields [''customer_id'', ''items''] kvs)), tr))
   \<and> (absent_fields [''farm_id'', ''product_id'', ''quantity_kg'', ''requested_date''] kvs \<noteq> [] \<longrightarrow>
      handle_schedule_farm_pickup_logistics L W tr (JObj kvs) =
        (Inr (200, JObj [(''status'', JStr ''error''),
                         (''message'', JStr (''Logistics Pickup Request Error: Missing required fields: '' @
                            join '', '' (absent_fields
                              [''farm_id'', ''product_id'', ''quantity_kg'', ''requested_date''] kvs)))]), tr))
   \<and> (req_json req = JObj kvs \<and> absent_fields [''vehicle_license_no''] kvs \<noteq> [] \<longrightarrow>
      lookup_vehicle_by_license L W req =
        (Inr (JObj [(''error'', JStr ''Missing or empty vehicle_license_no in request body'')], 400), []))
   \<and> (req_method req = ''POST'' \<and> req_json req = JObj kvs \<and>
        absent_fields [''origin_location_id'', ''destination_order_ids''] kvs \<noteq> [] \<longrightarrow>
      handle_optimize_delivery_route_fn L W api_key req =
        (Inr (JObj [(''status'', JStr ''error''),
                    (''message'', JStr ''Missing required input parameters'')], 400), []))
   \<and> (req_method req = ''POST'' \<and> req_path req = ''/harvest'' \<and> req_json req = JObj kvs \<and>
        map_of kvs ''harvested_quantity_kg'' = None \<longrightarrow>
      ''harvested_quantity_kg'' \<in> set
         (absent_fields [''farm_id'', ''product_id'', ''harvested_quantity_kg'', ''harvest_date''] kvs) \<and>
      agrioptimize_backend_function L W req =
        (Inr (missing_body
           (absent_fields [''farm_id'', ''product_id'', ''harvested_quantity_kg'', ''harvest_date''] kvs), 400), []))"
proof (intro conjI impI)
  assume a: "req_json req = JObj kvs \<and> absent_fields [''vehicle_license_no''] kvs \<noteq> []"
  then have "map_of kvs ''vehicle_license_no'' = None"
    by (simp add: absent_fields_def map_of_eq_None_iff split: if_splits)
  then show "lookup_vehicle_by_license L W req =
        (Inr (JObj [(''error'', JStr ''Missing or empty vehicle_license_no in request body'')], 400), [])"
    using a by (simp add: lookup_vehicle_by_license_def has_nonempty_def map_of_eq_None_iff Let_def)
next
  assume a: "req_method req = ''POST'' \<and> req_json req = JObj kvs \<and>
        absent_fields [''origin_location_id'', ''destination_order_ids''] kvs \<noteq> []"
  then have "map_of kvs ''origin_location_id'' = None \<or> map_of kvs ''destination_order_ids'' = None"
    by (auto simp: absent_fields_def map_of_eq_None_iff split: if_splits)
  then show "handle_optimize_delivery_route_fn L W api_key req =
        (Inr (JObj [(''status'', JStr ''error''),
                    (''message'', JStr ''Missing required input parameters'')], 400), [])"
    using a by (auto simp: handle_optimize_delivery_route_fn_def get_obj Let_def
        simp del: get_default.simps)
next
  assume a: "req_method req = ''POST'' \<and> req_path req = ''/harvest'' \<and> req_json req = JObj kvs \<and>
        map_of kvs ''harvested_quantity_kg'' = None"
  then show m: "''harvested_quantity_kg'' \<in> set
         (absent_fields [''farm_id'', ''product_id'', ''harvested_quantity_kg'', ''harvest_date''] kvs)"
    by (simp add: absent_cons)
  then have "absent_fields [''farm_id'', ''product_id'', ''harvested_quantity_kg'', ''harvest_date''] kvs \<noteq> []"
    by auto
  then show "agrioptimize_backend_function L W req =
        (Inr (missing_body
           (absent_fields [''farm_id'', ''product_id'', ''harvested_quantity_kg'', ''harvest_date''] kvs), 400), [])"
    using a by (simp add: agrioptimize_backend_function_def respond_def handle_log_harvest_def missing_absent)
qed (simp_all add: missing_absent handle_log_harvest_def handle_report_farm_qc_issue_def
      handle_schedule_farm_pickup_def handle_track_shipment_location_def
      handle_report_cold_chain_issue_def handle_check_warehouse_stock_def
      handle_optimize_delivery_route_def handle_get_demand_forecast_def handle_get_market_prices_def
      handle_check_product_availability_def handle_place_purchase_order_def
      handle_schedule_farm_pickup_logistics_def error_message_def)

theorem missing_required_fields_witness:
  "agrioptimize_backend_function example_lib example_world
     \<lparr>req_method = ''POST'', req_path = ''/harvest'', req_content_type = Some ''application/json'',
      req_json = JObj [(''farm_id'', JStr ''F1''), (''product_id'', JStr ''P1''),
                       (''harvest_date'', JStr ''2024-05-10'')]\<rparr> =
     (Inr (JObj [(''status'', JStr ''error''),
                 (''message'', JStr ''Missing required fields in body: harvested_quantity_kg'')], 400), [])"
  using missing_required_fields [where kvs = "[(''farm_id'', JStr ''F1''), (''product_id'', JStr ''P1''),
                       (''harvest_date'', JStr ''2024-05-10'')]" and L = example_lib and W = example_world
      and req = "\<lparr>req_method = ''POST'', req_path = ''/harvest'', req_content_type = Some ''application/json'',
      req_json = JObj [(''farm_id'', JStr ''F1''), (''product_id'', JStr ''P1''),
                       (''harvest_date'', JStr ''2024-05-10'')]\<rparr>"]
  by (simp add: absent_cons absent_fields_def missing_body_def error_message_def)

text \<open>
  Claim C1 as stated fails for the receiver of logistics pickup requests: a POST whose
  body lacks three of its four required fields is answered 200.
\<close>

theorem missing_required_fields_counterexample:
  "logifresh_backend_function example_lib example_world
     \<lparr>req_method = ''POST'', req_path = ''/logistics/schedule-pickup-request'',
      req_content_type = Some ''application/json'',
      req_json = JObj [(''farm_id'', JStr ''F1'')]\<rparr> =
     (Inr (JObj [(''status'', JStr ''error''),
                 (''message'', JStr (''Logistics Pickup Request Error: Missing required fields: '' @
                                     ''product_id, quantity_kg, requested_date''))], 200), [])"
  by (simp add: logifresh_backend_function_def respond_def handle_schedule_farm_pickup_logistics_def
      missing_fields_def error_message_def)

subsection \<open>Methods and health checks\<close>

text \<open>
  Claim C4, as amended. The three backend entry points serve GET / as a health check:
  one probe query, 200 with a text when it succeeds and 500 with a text when it fails;
  every request that is neither that nor a POST is answered 405. The route function
  answers every request whose method is not POST with 405, GET / included. The four
  lookup functions do not read the method or the path: a GET / is handled as the data
  request with the same body.
\<close>

theorem methods_and_health_checks:
  "(req_method req = ''GET'' \<and> req_path req = ''/'' \<longrightarrow>
      agrioptimize_backend_function L W req =
        (Inr (case w_query W 0 of
                Inr rows \<Rightarrow> (JStr ''AgriOptimize AI Backend is running and connected to BigQuery!'', 200)
              | Inl e \<Rightarrow> (JStr (''AgriOptimize AI Backend health check failed: '' @ str_exc L e), 500)),
         [Query ''SELECT 1'' []]) \<and>
      logifresh_backend_function L W req =
        (Inr (case w_query W 0 of
                Inr rows \<Rightarrow> (JStr ''LogiFresh AI Backend is running and connected to BigQuery!'', 200)
              | Inl e \<Rightarrow> (JStr (''LogiFresh AI Backend health check failed: '' @ str_exc L e), 500)),
         [Query ''SELECT 1'' []]) \<and>
      marketflow_backend_function L W req =
        (Inr (case w_query W 0 of
                Inr rows \<Rightarrow> (JStr ''MarketFlow AI Backend is running and connected to BigQuery!'', 200)
              | Inl e \<Rightarrow> (JStr (''MarketFlow AI Backend health check failed: '' @ str_exc L e), 500)),
         [Query ''SELECT 1'' []]))
   \<and> (req_method req \<noteq> ''POST'' \<and> \<not> (req_method req = ''GET'' \<and> req_path req = ''/'') \<longrightarrow>
      agrioptimize_backend_function L W req =
        (Inr (JObj [(''status'', JStr ''error''),
                    (''message'', JStr (''Method '' @ req_method req @ '' not allowed for path '' @
                                        req_path req @ ''.''))], 405), []) \<and>
      logifresh_backend_function L W req = agrioptimize_backend_function L W req \<and>
      marketflow_backend_function L W req = agrioptimize_backend_function L W req)
   \<and> (req_method req \<noteq> ''POST'' \<longrightarrow>
      handle_optimize_delivery_route_fn L W api_key req =
        (Inr (JObj [(''error'', JStr ''Method not allowed'')], 405), []))
   \<and> lookup_product_by_name L W (req\<lparr>req_method := m, req_path := p\<rparr>) = lookup_product_by_name L W req
   \<and> lookup_farm_by_name L W (req\<lparr>req_method := m, req_path := p\<rparr>) = lookup_farm_by_name L W req
   \<and> lookup_customer_by_name L W (req\<lparr>req_method := m, req_path := p\<rparr>) = lookup_customer_by_name L W req
   \<and> lookup_vehicle_by_license L W (req\<lparr>req_method := m, req_path := p\<rparr>) = lookup_vehicle_by_license L W req"
  by (auto simp: agrioptimize_backend_function_def logifresh_backend_function_def
      marketflow_backend_function_def health_check_def method_not_allowed_response_def error_message_def
      handle_optimize_delivery_route_fn_def lookup_product_by_name_def lookup_farm_by_name_def
      lookup_customer_by_name_def lookup_by_name_def lookup_vehicle_by_license_def
      split: sum.splits)

theorem methods_and_health_checks_witness:
  "agrioptimize_backend_function example_lib example_world
     \<lparr>req_method = ''GET'', req_path = ''/'', req_content_type = None, req_json = JNull\<rparr> =
     (Inr (JStr ''AgriOptimize AI Backend is running and connected to BigQuery!'', 200),
      [Query ''SELECT 1'' []])
   \<and> marketflow_backend_function example_lib example_world
     \<lparr>req_method = ''DELETE'', req_path = ''/order'', req_content_type = None, req_json = JNull\<rparr> =
     (Inr (JObj [(''status'', JStr ''error''),
                 (''message'', JStr ''Method DELETE not allowed for path /order.'')], 405), [])"
  using methods_and_health_checks [where req = "\<lparr>req_method = ''GET'', req_path = ''/'',
        req_content_type = None, req_json = JNull\<rparr>" and L = example_lib and W = example_world]
    methods_and_health_checks [where req = "\<lparr>req_method = ''DELETE'', req_path = ''/order'',
        req_content_type = None, req_json = JNull\<rparr>" and L = example_lib and W = example_world]
  by (simp add: example_world_def)

text \<open>
  Claim C4 as stated fails outside the three backends: the route function rejects GET /
  with 405, and the product lookup treats GET / as a data request: it queries the first
  100 products and answers 200 with the matches.
\<close>

theorem methods_and_health_checks_counterexample:
  "handle_optimize_delivery_route_fn example_lib example_world (JStr ''key'')
     \<lparr>req_method = ''GET'', req_path = ''/'', req_content_type = None, req_json = JNull\<rparr> =
     (Inr (JObj [(''error'', JStr ''Method not allowed'')], 405), [])
   \<and> fst (lookup_product_by_name example_lib example_world
     \<lparr>req_method = ''GET'', req_path = ''/'', req_content_type = None, req_json = JNull\<rparr>) =
     Inr (JObj [(''matches'', JList [])], 200)
   \<and> statements_of (snd (lookup_product_by_name example_lib example_world
     \<lparr>req_method = ''GET'', req_path = ''/'', req_content_type = None, req_json = JNull\<rparr>)) =
     [''SELECT product_id, product_name, category, storage_requirements '' @
      ''FROM `laeswdm-agbgagenticaihackat.agriculture.product_catalog` '' @
      ''LIMIT 100 -- Limit results when fetching all to avoid large responses'']"
  by (simp add: handle_optimize_delivery_route_fn_def lookup_product_by_name_def lookup_by_name_def
      has_nonempty_def example_world_def)

subsection \<open>The calls a request makes\<close>

lemma selects:
  "is_select shipment_query" "is_select cold_chain_query" "is_select (stock_query c)"
  "is_select vehicle_query" "is_select customer_query" "is_select (harvest_query w)"
  "is_select (qc_query w)" "is_select (schedule_query w)" "is_select farm_query"
  "is_select availability_query" "is_select (forecast_query c)" "is_select (prices_query c)"
  "is_select (stock_sum_query c)" "is_select shipment_sum_query" "is_select schedule_sum_query"
  "is_select customer_address_query" "is_select ''SELECT 1''"
  by (simp_all add: is_select_def shipment_query_def cold_chain_query_def stock_query_def
      vehicle_query_def customer_query_def harvest_query_def qc_query_def schedule_query_def
      farm_query_def availability_query_def forecast_query_def prices_query_def stock_sum_query_def
      shipment_sum_query_def schedule_sum_query_def customer_address_query_def)

lemma except_exception_trace: "snd (except_exception h x) = snd x"
  by (simp add: except_exception_def split: sum.splits)

lemma fetch_rows_trace: "snd (fetch_rows L W tr q ps) = tr @ [Query q ps]"
  by (simp add: fetch_rows_def)

lemma log_harvest_try_trace:
  assumes "log_harvest_try L W tr data = (r, tr')"
  shows "\<exists>cs. tr' = tr @ cs \<and> writes_one HARVEST_RECORDS_TABLE cs"
  using assms
  by (auto simp: log_harvest_try_def or_400_def uuid4_def insert_rows_def Let_def writes_one_def
      split: sum.splits if_splits prod.splits)

lemma report_farm_qc_issue_try_trace:
  assumes "report_farm_qc_issue_try L W tr data = (r, tr')"
  shows "\<exists>cs. tr' = tr @ cs \<and> writes_one FARM_QC_ISSUES_TABLE cs"
  using assms
  by (auto simp: report_farm_qc_issue_try_def get_or_today_def date_today_def or_400_def uuid4_def
      insert_rows_def Let_def writes_one_def
      split: sum.splits if_splits prod.splits json.splits)

lemma report_cold_chain_issue_try_trace:
  assumes "report_cold_chain_issue_try L W tr data = (r, tr')"
  shows "\<exists>cs. tr' = tr @ cs \<and> writes_one COLD_CHAIN_READINGS_TABLE cs"
  using assms
  by (auto simp: report_cold_chain_issue_try_def uuid4_def insert_rows_def Let_def writes_one_def
      split: sum.splits if_splits prod.splits)

lemma track_shipment_location_try_trace:
  assumes "track_shipment_location_try L W tr data = (r, tr')"
  shows "\<exists>cs. tr' = tr @ cs \<and> list_all read_only cs"
  using assms
  by (auto simp: track_shipment_location_try_def fetch_rows_def Let_def selects
      split: sum.splits if_splits prod.splits)

lemma check_warehouse_stock_try_trace:
  assumes "check_warehouse_stock_try L W tr data = (r, tr')"
  shows "\<exists>cs. tr' = tr @ cs \<and> list_all read_only cs"
  using assms
  by (auto simp: check_warehouse_stock_try_def fetch_rows_def selects
      split: sum.splits if_splits prod.splits)

lemma schedule_farm_pickup_logistics_try_trace:
  assumes "schedule_farm_pickup_logistics_try L W tr data = (r, tr')"
  shows "tr' = tr"
  using assms
  by (auto simp: schedule_farm_pickup_logistics_try_def split: sum.splits)

lemma get_harvest_advice_try_trace:
  assumes "get_harvest_advice_try L W tr f p s e = (r, tr')"
  shows "\<exists>cs. tr' = tr @ cs \<and> list_all read_only cs"
  using assms
  by (auto simp: get_harvest_advice_try_def fetch_rows_def Let_def selects
      split: sum.splits if_splits prod.splits)

lemma schedule_farm_pickup_try_trace:
  assumes "schedule_farm_pickup_try L W tr data = (r, tr')"
  shows "\<exists>cs. tr' = tr @ cs \<and> list_all read_only cs"
  using assms
  by (auto simp: schedule_farm_pickup_try_def fetch_rows_def or_400_def randint_def Let_def selects
      split: sum.splits if_splits prod.splits)

lemma get_demand_forecast_try_trace:
  assumes "get_demand_forecast_try L W tr data = (r, tr')"
  shows "\<exists>cs. tr' = tr @ cs \<and> list_all read_only cs"
  using assms
  by (auto simp: get_demand_forecast_try_def fetch_rows_def selects
      split: sum.splits if_splits prod.splits)

lemma get_market_prices_try_trace:
  assumes "get_market_prices_try L W tr data = (r, tr')"
  shows "\<exists>cs. tr' = tr @ cs \<and> list_all read_only cs"
  using assms
  by (auto simp: get_market_prices_try_def get_or_today_def date_today_def fetch_rows_def selects
      split: sum.splits if_splits prod.splits json.splits)

lemma check_product_availability_try_trace:
  assumes "check_product_availability_try L W tr data = (r, tr')"
  shows "\<exists>cs. tr' = tr @ cs \<and> list_all read_only cs"
  using assms
  by (auto simp: check_product_availability_try_def fetch_rows_def Let_def selects
      split: sum.splits if_splits prod.splits)


lemma simulated_route_trace:
  "simulated_route L W tr per i ct customers = (r, tr') \<Longrightarrow>
     \<exists>cs. tr' = tr @ cs \<and> list_all read_only cs"
proof (induction customers arbitrary: tr i ct r tr')
  case Nil
  then show ?case by simp
next
  case (Cons c customers)
  show ?case
  proof (cases "\<exists>e. r = Inl e \<and> tr' = tr")
    case True
    then show ?thesis by auto
  next
    case False
    then obtain ea r2 where
      rec: "simulated_route L W (tr @ [RandInt 15 45]) per (Suc i) ea customers = (r2, tr')"
      using Cons.prems
      by (auto simp: randint_def split: sum.splits prod.splits)
    from Cons.IH[OF rec] obtain cs where "tr' = (tr @ [RandInt 15 45]) @ cs" "list_all read_only cs"
      by blast
    then show ?thesis by (intro exI[of _ "RandInt 15 45 # cs"]) simp
  qed
qed

lemma optimize_delivery_route_try_trace:
  assumes "optimize_delivery_route_try L W tr data = (r, tr')"
  shows "\<exists>cs. tr' = tr @ cs \<and> list_all read_only cs"
proof -
  have loop: "simulated_route L W (tr @ pre) per i ct customers = (r2, tr2) \<Longrightarrow> list_all read_only pre \<Longrightarrow>
             \<exists>cs. tr2 = tr @ cs \<and> list_all read_only cs" for pre per i ct customers r2 tr2
    using simulated_route_trace[of L W "tr @ pre" per i ct customers r2 tr2]
    by (metis append.assoc list_all_append)
  show ?thesis
    using assms
    by (auto simp: optimize_delivery_route_try_def fetch_rows_def Let_def selects datetime_now_def
        randint_def shuffle_def
        split: sum.splits if_splits prod.splits json.splits
        dest!: loop[where pre = "[Query _ _, Query _ _, DatetimeNow, RandInt 30 90, RandomShuffle]", simplified])
qed


lemma order_items_loop_trace:
  "order_items_loop L W tr oid items amount acc = (r, tr') \<Longrightarrow>
     \<exists>cs. tr' = tr @ cs \<and> list_all read_only cs \<and>
          (\<forall>t rows. r = Inr (Inr (t, rows)) \<longrightarrow> length rows = length acc + length items)"
proof (induction items arbitrary: tr amount acc r tr')
  case Nil
  then show ?case by auto
next
  case (Cons item items)
  show ?case
  proof (cases "(\<exists>x. r = Inr (Inr x)) \<or> \<not> (tr' = tr \<or> tr' = tr @ [RandomUniform])")
    case False
    then show ?thesis by auto
  next
    case True
    then obtain amount2 row where
      rec: "order_items_loop L W (tr @ [RandomUniform, Uuid4]) oid items amount2 (acc @ [row]) = (r, tr')"
      using Cons.prems
      by (auto simp: uuid4_def Let_def split: sum.splits prod.splits if_splits option.splits)
    from Cons.IH[OF rec] obtain cs where cs: "tr' = (tr @ [RandomUniform, Uuid4]) @ cs" "list_all read_only cs"
      "\<forall>t rows. r = Inr (Inr (t, rows)) \<longrightarrow> length rows = length (acc @ [row]) + length items"
      by blast
    show ?thesis
      using cs by (intro exI[of _ "RandomUniform # Uuid4 # cs"]) simp
  qed
qed

lemma place_purchase_order_try_trace:
  assumes "place_purchase_order_try L W tr data oid cid od = (r, tr')"
  shows "\<exists>cs. tr' = tr @ cs \<and>
           (list_all read_only cs \<or>
            (\<exists>pre order rows items. cs = pre @ [InsertRowsJson ORDERS_TABLE [order],
                                                InsertRowsJson ORDER_ITEMS_TABLE rows] \<and>
               list_all read_only pre \<and> subscript data ''items'' = Inr (JList items) \<and>
               length rows = length items))"
proof (cases "subscript data ''items''")
  case (Inl e)
  then show ?thesis using assms by (auto simp: place_purchase_order_try_def)
next
  case items: (Inr items)
  show ?thesis
  proof (cases "is_list items")
    case False
    then show ?thesis using assms items
      by (cases items) (auto simp: place_purchase_order_try_def)
  next
    case True
    then obtain item_list where il: "items = JList item_list" by (cases items) auto
    obtain r1 tr1 where loop: "order_items_loop L W tr oid item_list (Finite 0) [] = (r1, tr1)"
      by (cases "order_items_loop L W tr oid item_list (Finite 0) []") auto
    from order_items_loop_trace[OF loop] obtain cs where cs: "tr1 = tr @ cs" "list_all read_only cs"
      "\<forall>t rows. r1 = Inr (Inr (t, rows)) \<longrightarrow> length rows = length item_list"
      by auto
    let ?q = "Query customer_address_query [ScalarQueryParameter ''customer_id'' ''STRING'' cid]"
    have shape: "tr' = tr1 \<or> tr' = tr1 @ [?q] \<or>
          (\<exists>order amount rows. r1 = Inr (Inr (amount, rows)) \<and>
             tr' = tr1 @ [?q, InsertRowsJson ORDERS_TABLE [order], InsertRowsJson ORDER_ITEMS_TABLE rows])"
      using assms items il loop
      by (auto simp: place_purchase_order_try_def fetch_rows_def insert_rows_def Let_def
          split: sum.splits if_splits prod.splits)
    then consider "tr' = tr1" | "tr' = tr1 @ [?q]" |
      order amount rows where "r1 = Inr (Inr (amount, rows))"
        "tr' = tr1 @ [?q, InsertRowsJson ORDERS_TABLE [order], InsertRowsJson ORDER_ITEMS_TABLE rows]"
      by blast
    then show ?thesis
    proof cases
      case 1
      then show ?thesis using cs by auto
    next
      case 2
      then show ?thesis using cs by (auto simp: selects)
    next
      case 3
      have len: "length rows = length item_list" using cs(3) 3(1) by simp
      have "tr' = tr @ ((cs @ [?q]) @ [InsertRowsJson ORDERS_TABLE [order], InsertRowsJson ORDER_ITEMS_TABLE rows])"
        using 3(2) cs(1) by simp
      moreover have "list_all read_only (cs @ [?q])" using cs(2) by (simp add: selects)
      ultimately show ?thesis using len items il by blast
    qed
  qed
qed


lemma read_only_calls:
  "list_all read_only cs \<Longrightarrow> inserts_of cs = [] \<and> list_all is_select (statements_of cs)"
proof (induction cs)
  case Nil
  then show ?case by simp
next
  case (Cons c cs)
  then show ?case by (cases c) simp_all
qed

lemma inserts_of_append: "inserts_of (xs @ ys) = inserts_of xs @ inserts_of ys"
proof (induction xs)
  case Nil
  then show ?case by simp
next
  case (Cons c xs)
  then show ?case by (cases c) simp_all
qed

lemma statements_of_append: "statements_of (xs @ ys) = statements_of xs @ statements_of ys"
proof (induction xs)
  case Nil
  then show ?case by simp
next
  case (Cons c xs)
  then show ?case by (cases c) simp_all
qed

lemma writes_one_calls:
  "writes_one t cs \<Longrightarrow>
     list_all is_select (statements_of cs) \<and> (inserts_of cs = [] \<or> (\<exists>row. inserts_of cs = [(t, [row])]))"
  by (auto simp: writes_one_def inserts_of_append statements_of_append dest: read_only_calls)

lemma validated_trace:
  assumes "(case mf of Inl e \<Rightarrow> (Inl e, tr) | Inr None \<Rightarrow> except_exception h body
             | Inr (Some missing) \<Rightarrow> (Inr (resp missing), tr)) = (r, tr')"
    and "Q tr" and "Q (snd body)"
  shows "Q tr'"
  using assms except_exception_trace[of h body] by (auto split: sum.splits option.splits)

lemma handle_log_harvest_trace:
  "handle_log_harvest L W [] data = (r, tr) \<Longrightarrow> writes_one HARVEST_RECORDS_TABLE tr"
  unfolding handle_log_harvest_def
  by (erule validated_trace)
    (use log_harvest_try_trace[of L W "[]" data] in \<open>auto simp: writes_one_def prod_eq_iff\<close>)


lemma handle_report_farm_qc_issue_trace:
  "handle_report_farm_qc_issue L W [] data = (r, tr) \<Longrightarrow> writes_one FARM_QC_ISSUES_TABLE tr"
  unfolding handle_report_farm_qc_issue_def
  by (erule validated_trace)
    (use report_farm_qc_issue_try_trace[of L W "[]" data] in \<open>auto simp: writes_one_def prod_eq_iff\<close>)

lemma handle_report_cold_chain_issue_trace:
  "handle_report_cold_chain_issue L W [] data = (r, tr) \<Longrightarrow> writes_one COLD_CHAIN_READINGS_TABLE tr"
  unfolding handle_report_cold_chain_issue_def
  by (erule validated_trace)
    (use report_cold_chain_issue_try_trace[of L W "[]" data] in \<open>auto simp: writes_one_def prod_eq_iff\<close>)

lemma handle_track_shipment_location_trace:
  "handle_track_shipment_location L W [] data = (r, tr) \<Longrightarrow> list_all read_only tr"
  unfolding handle_track_shipment_location_def
  by (erule validated_trace)
    (use track_shipment_location_try_trace[of L W "[]" data] in \<open>auto simp: prod_eq_iff\<close>)

lemma handle_check_warehouse_stock_trace:
  "handle_check_warehouse_stock L W [] data = (r, tr) \<Longrightarrow> list_all read_only tr"
  unfolding handle_check_warehouse_stock_def
  by (erule validated_trace)
    (use check_warehouse_stock_try_trace[of L W "[]" data] in \<open>auto simp: prod_eq_iff\<close>)

lemma handle_schedule_farm_pickup_logistics_trace:
  "handle_schedule_farm_pickup_logistics L W [] data = (r, tr) \<Longrightarrow> list_all read_only tr"
  unfolding handle_schedule_farm_pickup_logistics_def
  by (erule validated_trace)
    (use schedule_farm_pickup_logistics_try_trace[of L W "[]" data] in \<open>auto simp: prod_eq_iff\<close>)

lemma handle_schedule_farm_pickup_trace:
  "handle_schedule_farm_pickup L W [] data = (r, tr) \<Longrightarrow> list_all read_only tr"
  unfolding handle_schedule_farm_pickup_def
  by (erule validated_trace)
    (use schedule_farm_pickup_try_trace[of L W "[]" data] in \<open>auto simp: prod_eq_iff\<close>)

lemma handle_get_demand_forecast_trace:
  "handle_get_demand_forecast L W [] data = (r, tr) \<Longrightarrow> list_all read_only tr"
  unfolding handle_get_demand_forecast_def
  by (erule validated_trace)
    (use get_demand_forecast_try_trace[of L W "[]" data] in \<open>auto simp: prod_eq_iff\<close>)

lemma handle_get_market_prices_trace:
  "handle_get_market_prices L W [] data = (r, tr) \<Longrightarrow> list_all read_only tr"
  unfolding handle_get_market_prices_def
  by (erule validated_trace)
    (use get_market_prices_try_trace[of L W "[]" data] in \<open>auto simp: prod_eq_iff\<close>)

lemma handle_check_product_availability_trace:
  "handle_check_product_availability L W [] data = (r, tr) \<Longrightarrow> list_all read_only tr"
  unfolding handle_check_product_availability_def
  by (erule validated_trace)
    (use check_product_availability_try_trace[of L W "[]" data] in \<open>auto simp: prod_eq_iff\<close>)

lemma handle_get_harvest_advice_trace:
  assumes "handle_get_harvest_advice L W [] data = (r, tr)"
  shows "list_all read_only tr"
proof (cases "\<exists>f p s e. tr = snd (get_harvest_advice_try L W [] f p s e)")
  case True
  then obtain f p s e where "tr = snd (get_harvest_advice_try L W [] f p s e)" by blast
  then show ?thesis
    using get_harvest_advice_try_trace[of L W "[]" f p s e] by (auto simp: prod_eq_iff)
next
  case False
  then show ?thesis
    using assms
    by (auto simp: handle_get_harvest_advice_def except_exception_trace
        split: sum.splits dest!: arg_cong[where f = snd]) blast+
qed

lemma handle_optimize_delivery_route_trace:
  assumes "handle_optimize_delivery_route L W [] data = (r, tr)"
  shows "list_all read_only tr"
proof (cases "tr = snd (optimize_delivery_route_try L W [] data)")
  case True
  then show ?thesis
    using optimize_delivery_route_try_trace[of L W "[]" data] by (auto simp: prod_eq_iff)
next
  case False
  then show ?thesis
    using assms
    by (auto simp: handle_optimize_delivery_route_def except_exception_trace
        split: sum.splits option.splits if_splits dest!: arg_cong[where f = snd])
qed

lemma handle_place_purchase_order_trace:
  assumes "handle_place_purchase_order L W [] data = (r, tr)"
  shows "list_all read_only tr \<or>
         (\<exists>pre order rows items. tr = pre @ [InsertRowsJson ORDERS_TABLE [order],
                                             InsertRowsJson ORDER_ITEMS_TABLE rows] \<and>
            list_all read_only pre \<and> subscript data ''items'' = Inr (JList items) \<and>
            length rows = length items)"
proof (cases "\<exists>oid cid od. tr = snd (place_purchase_order_try L W [Uuid4, DateToday] data oid cid od)")
  case True
  then obtain oid cid od where t: "tr = snd (place_purchase_order_try L W [Uuid4, DateToday] data oid cid od)"
    by blast
  obtain r1 where "place_purchase_order_try L W [Uuid4, DateToday] data oid cid od = (r1, tr)"
    using t by (cases "place_purchase_order_try L W [Uuid4, DateToday] data oid cid od") auto
  from place_purchase_order_try_trace[OF this] obtain cs where cs: "tr = [Uuid4, DateToday] @ cs"
    "list_all read_only cs \<or>
       (\<exists>pre order rows items. cs = pre @ [InsertRowsJson ORDERS_TABLE [order],
                                           InsertRowsJson ORDER_ITEMS_TABLE rows] \<and>
          list_all read_only pre \<and> subscript data ''items'' = Inr (JList items) \<and>
          length rows = length items)"
    by blast
  from cs(2) show ?thesis
  proof
    assume "list_all read_only cs"
    then show ?thesis using cs(1) by simp
  next
    assume "\<exists>pre order rows items. cs = pre @ [InsertRowsJson ORDERS_TABLE [order],
                                           InsertRowsJson ORDER_ITEMS_TABLE rows] \<and>
          list_all read_only pre \<and> subscript data ''items'' = Inr (JList items) \<and>
          length rows = length items"
    then obtain pre order rows items where p: "cs = pre @ [InsertRowsJson ORDERS_TABLE [order],
                                           InsertRowsJson ORDER_ITEMS_TABLE rows]"
      "list_all read_only pre" "subscript data ''items'' = Inr (JList items)" "length rows = length items"
      by blast
    have "tr = ([Uuid4, DateToday] @ pre) @ [InsertRowsJson ORDERS_TABLE [order],
                                           InsertRowsJson ORDER_ITEMS_TABLE rows]"
      using cs(1) p(1) by simp
    moreover have "list_all read_only ([Uuid4, DateToday] @ pre)" using p(2) by simp
    ultimately show ?thesis using p(3,4) by blast
  qed
next
  case False
  then show ?thesis
    using assms
    by (auto simp: handle_place_purchase_order_def uuid4_def date_today_def
        except_exception_trace
        split: sum.splits option.splits if_splits dest!: arg_cong[where f = snd]) blast+
qed

lemma respond_trace: "respond x = (r, tr) \<Longrightarrow> \<exists>r0. x = (r0, tr)"
  by (cases x) (auto simp: respond_def split: sum.splits prod.splits)


lemma agrioptimize_cases:
  assumes "agrioptimize_backend_function L W req = (r, tr)"
  shows "tr = [Query ''SELECT 1'' []] \<or> tr = [] \<or> (\<exists>r0.
           (req_path req = ''/harvest'' \<and> handle_log_harvest L W [] (req_json req) = (r0, tr)) \<or>
           handle_get_harvest_advice L W [] (req_json req) = (r0, tr) \<or>
           (req_path req = ''/issue/farm'' \<and> handle_report_farm_qc_issue L W [] (req_json req) = (r0, tr)) \<or>
           handle_schedule_farm_pickup L W [] (req_json req) = (r0, tr))"
  using assms
  by (auto simp: agrioptimize_backend_function_def health_check_def Let_def
      split: if_splits dest!: respond_trace)

lemma logifresh_cases:
  assumes "logifresh_backend_function L W req = (r, tr)"
  shows "tr = [Query ''SELECT 1'' []] \<or> tr = [] \<or> (\<exists>r0.
           handle_track_shipment_location L W [] (req_json req) = (r0, tr) \<or>
           (req_path req = ''/issue/coldchain'' \<and>
            handle_report_cold_chain_issue L W [] (req_json req) = (r0, tr)) \<or>
           handle_check_warehouse_stock L W [] (req_json req) = (r0, tr) \<or>
           handle_optimize_delivery_route L W [] (req_json req) = (r0, tr) \<or>
           handle_schedule_farm_pickup_logistics L W [] (req_json req) = (r0, tr))"
  using assms
  by (auto simp: logifresh_backend_function_def health_check_def Let_def
      split: if_splits dest!: respond_trace)

lemma marketflow_cases:
  assumes "marketflow_backend_function L W req = (r, tr)"
  shows "tr = [Query ''SELECT 1'' []] \<or> tr = [] \<or> (\<exists>r0.
           handle_get_demand_forecast L W [] (req_json req) = (r0, tr) \<or>
           handle_get_market_prices L W [] (req_json req) = (r0, tr) \<or>
           handle_check_product_availability L W [] (req_json req) = (r0, tr) \<or>
           (req_path req = ''/order'' \<and> handle_place_purchase_order L W [] (req_json req) = (r0, tr)))"
  using assms
  by (auto simp: marketflow_backend_function_def health_check_def Let_def
      split: if_splits dest!: respond_trace)

lemma order_run:
  "marketflow_backend_function example_lib example_world order_request =
     (Inr (JObj [(''status'', JStr ''success''),
                 (''order_id'', JStr ''123e4567-e89b-42d3-a456-426614174000''),
                 (''message'', JStr ''Purchase order placed successfully.''),
                 (''total_amount'', JFloat (Finite 3))], 200),
      [Uuid4, DateToday, RandomUniform, Uuid4, RandomUniform, Uuid4,
       Query customer_address_query [ScalarQueryParameter ''customer_id'' ''STRING'' (JStr ''C1'')],
       InsertRowsJson ORDERS_TABLE
         [JObj [(''order_id'', JStr ''123e4567-e89b-42d3-a456-426614174000''),
                (''customer_id'', JStr ''C1''),
                (''order_date'', JStr ''2024-05-10''),
                (''delivery_date_requested'', JStr ''2024-05-10''),
                (''delivery_address'', JStr ''Unknown Address''),
                (''status'', JStr ''Pending''),
                (''total_amount'', JFloat (Finite 3))]],
       InsertRowsJson ORDER_ITEMS_TABLE
         [JObj [(''order_item_id'', JStr ''123e4567-e89b-42d3-a456-426614174000''),
                (''order_id'', JStr ''123e4567-e89b-42d3-a456-426614174000''),
                (''product_id'', JStr ''P1''), (''ordered_quantity_kg'', JInt 2),
                (''price_per_kg_at_order'', JFloat (Finite (1 / 2))),
                (''line_item_total'', JFloat (Finite 1))],
          JObj [(''order_item_id'', JStr ''123e4567-e89b-42d3-a456-426614174000''),
                (''order_id'', JStr ''123e4567-e89b-42d3-a456-426614174000''),
                (''product_id'', JStr ''P2''), (''ordered_quantity_kg'', JInt 4),
                (''price_per_kg_at_order'', JFloat (Finite (1 / 2))),
                (''line_item_total'', JFloat (Finite 2))]]])"
  by (simp add: marketflow_backend_function_def order_request_def handle_place_purchase_order_def
      place_purchase_order_try_def example_lib_def example_world_def respond_def
      uuid4_def date_today_def fetch_rows_def fetch_outcome_def insert_rows_def insert_outcome_def
      except_exception_def Let_def missing_fields_def first_insert_error_def)

text \<open>
  Claim C8, as amended. Every request to one of the three backends sends the warehouse
  only \<open>SELECT\<close> statements, so it updates and deletes nothing, and its inserts are
  one of: none; one row into the harvest records (POST /harvest); one row into the farm
  QC issues (POST /issue/farm); one row into the cold chain readings (POST
  /issue/coldchain); or, for POST /order, one row into the orders followed by one row
  per item of the request into the order items.
\<close>

theorem warehouse_writes:
  assumes "agrioptimize_backend_function L W req = (r, tr) \<or>
           logifresh_backend_function L W req = (r, tr) \<or>
           marketflow_backend_function L W req = (r, tr)"
  shows "list_all is_select (statements_of tr) \<and>
         (inserts_of tr = [] \<or>
          (\<exists>row. req_path req = ''/harvest'' \<and> inserts_of tr = [(HARVEST_RECORDS_TABLE, [row])]) \<or>
          (\<exists>row. req_path req = ''/issue/farm'' \<and> inserts_of tr = [(FARM_QC_ISSUES_TABLE, [row])]) \<or>
          (\<exists>row. req_path req = ''/issue/coldchain'' \<and>
                 inserts_of tr = [(COLD_CHAIN_READINGS_TABLE, [row])]) \<or>
          (\<exists>order rows items.
             req_path req = ''/order'' \<and> subscript (req_json req) ''items'' = Inr (JList items) \<and>
             length rows = length items \<and>
             inserts_of tr = [(ORDERS_TABLE, [order]), (ORDER_ITEMS_TABLE, rows)]))"
proof -
  have ro: "list_all read_only tr \<Longrightarrow> ?thesis"
    by (auto dest: read_only_calls)
  from assms show ?thesis
  proof (elim disjE)
    assume "agrioptimize_backend_function L W req = (r, tr)"
    from agrioptimize_cases[OF this] show ?thesis
      by (elim disjE exE conjE)
        (auto simp: selects
          dest!: handle_log_harvest_trace handle_get_harvest_advice_trace
            handle_report_farm_qc_issue_trace handle_schedule_farm_pickup_trace
            writes_one_calls read_only_calls)
  next
    assume "logifresh_backend_function L W req = (r, tr)"
    from logifresh_cases[OF this] show ?thesis
      by (elim disjE exE conjE)
        (auto simp: selects
          dest!: handle_track_shipment_location_trace handle_report_cold_chain_issue_trace
            handle_check_warehouse_stock_trace handle_optimize_delivery_route_trace
            handle_schedule_farm_pickup_logistics_trace writes_one_calls read_only_calls)
  next
    assume "marketflow_backend_function L W req = (r, tr)"
    from marketflow_cases[OF this] show ?thesis
    proof (elim disjE exE conjE)
      fix r0
      assume p: "req_path req = ''/order''"
        and h: "handle_place_purchase_order L W [] (req_json req) = (r0, tr)"
      from handle_place_purchase_order_trace[OF h] show ?thesis
      proof (elim disjE exE conjE)
        fix pre order rows items
        assume t: "tr = pre @ [InsertRowsJson ORDERS_TABLE [order], InsertRowsJson ORDER_ITEMS_TABLE rows]"
          and "list_all read_only pre" "subscript (req_json req) ''items'' = Inr (JList items)"
          "length rows = length items"
        then show ?thesis
          using p read_only_calls[of pre]
          by (simp add: inserts_of_append statements_of_append)
      qed (rule ro)
    qed (auto simp: selects
          dest!: handle_get_demand_forecast_trace handle_get_market_prices_trace
            handle_check_product_availability_trace read_only_calls)
  qed
qed

theorem warehouse_writes_witness:
  "list_all is_select
     (statements_of (snd (marketflow_backend_function example_lib example_world order_request)))
   \<and> (\<exists>order rows.
        length rows = 2 \<and>
        inserts_of (snd (marketflow_backend_function example_lib example_world order_request)) =
          [(ORDERS_TABLE, [order]), (ORDER_ITEMS_TABLE, rows)])"
  using warehouse_writes [of example_lib example_world order_request
      "fst (marketflow_backend_function example_lib example_world order_request)"
      "snd (marketflow_backend_function example_lib example_world order_request)"]
  by (auto simp: order_run)

text \<open>
  Claim C8 as stated fails for POST /order: the order of two items above is accepted
  and writes to two tables, one row into the orders and two rows into the order items.
\<close>

theorem warehouse_writes_counterexample:
  "fst (marketflow_backend_function example_lib example_world order_request) =
     Inr (JObj [(''status'', JStr ''success''),
                (''order_id'', JStr ''123e4567-e89b-42d3-a456-426614174000''),
                (''message'', JStr ''Purchase order placed successfully.''),
                (''total_amount'', JFloat (Finite 3))], 200)
   \<and> rows_per_insert (snd (marketflow_backend_function example_lib example_world order_request)) =
     [(ORDERS_TABLE, 1), (ORDER_ITEMS_TABLE, 2)]"
  by (simp add: order_run)

subsection \<open>Failures of the warehouse client\<close>






















lemma errors_from_append:
  "errors_from L W n (xs @ ys) = errors_from L W n xs @ errors_from L W (n + length xs) ys"
  by (induction xs arbitrary: n) simp_all














subsection \<open>Where a route comes from\<close>

lemma posts_of_append: "posts_of (xs @ ys) = posts_of xs @ posts_of ys"
proof (induction xs)
  case Nil
  then show ?case by simp
next
  case (Cons c xs)
  then show ?case by (cases c) simp_all
qed

lemma no_http_no_posts: "list_all (\<lambda>c. \<not> is_http c) cs \<Longrightarrow> posts_of cs = []"
proof (induction cs)
  case Nil
  then show ?case by simp
next
  case (Cons c cs)
  then show ?case by (cases c) simp_all
qed

lemma simulated_route_calls:
  "simulated_route L W tr per i ct customers = (Inr route, tr') \<Longrightarrow>
     tr' = tr @ replicate (length customers) (RandInt 15 45) \<and> length route = length customers \<and>
     map (\<lambda>stop. subscript stop ''destination_id'') route =
       map (\<lambda>customer. subscript customer ''customer_id'') customers"
proof (induction customers arbitrary: tr i ct route tr')
  case Nil
  then show ?case by simp
next
  case (Cons c customers)
  from Cons.prems obtain ea route2 stop where
    rec: "simulated_route L W (tr @ [RandInt 15 45]) per (Suc i) ea customers = (Inr route2, tr')"
    and route: "route = stop # route2"
    and stop: "subscript stop ''destination_id'' = subscript c ''customer_id''"
    by (auto simp: randint_def split: sum.splits prod.splits)
  from Cons.IH[OF rec] route stop show ?case by (simp add: replicate_app_Cons_same)
qed

lemma simulated_route_no_http:
  "simulated_route L W tr per i ct customers = (r, tr') \<Longrightarrow>
     \<exists>cs. tr' = tr @ cs \<and> list_all (\<lambda>c. \<not> is_http c) cs"
proof (induction customers arbitrary: tr i ct r tr')
  case Nil
  then show ?case by simp
next
  case (Cons c customers)
  show ?case
  proof (cases "\<exists>e. r = Inl e \<and> tr' = tr")
    case True
    then show ?thesis by auto
  next
    case False
    then obtain ea r2 where
      rec: "simulated_route L W (tr @ [RandInt 15 45]) per (Suc i) ea customers = (r2, tr')"
      using Cons.prems
      by (auto simp: randint_def split: sum.splits prod.splits)
    from Cons.IH[OF rec] obtain cs where "tr' = (tr @ [RandInt 15 45]) @ cs" "list_all (\<lambda>c. \<not> is_http c) cs"
      by blast
    then show ?thesis by (intro exI[of _ "RandInt 15 45 # cs"]) simp
  qed
qed

lemma optimize_delivery_route_try_no_http:
  assumes "optimize_delivery_route_try L W [] data = (r, tr)"
  shows "list_all (\<lambda>c. \<not> is_http c) tr"
proof -
  have loop: "simulated_route L W pre per i ct customers = (r2, tr2) \<Longrightarrow>
             \<exists>cs. tr2 = pre @ cs \<and> list_all (\<lambda>c. \<not> is_http c) cs" for pre per i ct customers r2 tr2
    by (rule simulated_route_no_http)
  show ?thesis
    using assms
    by (auto simp: optimize_delivery_route_try_def fetch_rows_def Let_def datetime_now_def
        randint_def shuffle_def
        split: sum.splits if_splits prod.splits json.splits
        dest!: loop)
qed

lemma handle_optimize_delivery_route_no_http:
  assumes "handle_optimize_delivery_route L W [] data = (r, tr)"
  shows "list_all (\<lambda>c. \<not> is_http c) tr"
proof (cases "tr = []")
  case True
  then show ?thesis by simp
next
  case False
  have "\<exists>r0. optimize_delivery_route_try L W [] data = (r0, tr)"
    using assms False
    by (cases "optimize_delivery_route_try L W [] data")
      (auto simp: handle_optimize_delivery_route_def except_exception_def
        split: sum.splits option.splits if_splits)
  then show ?thesis using optimize_delivery_route_try_no_http by blast
qed

lemma optimize_delivery_route_try_success:
  assumes "optimize_delivery_route_try L W [] data = (Inr (200, JObj body), tr)"
    and "map_of body ''status'' = Some (JStr ''success'')"
  shows "\<exists>vehicle_id destinations customers.
           w_query W 1 = Inr customers \<and>
           tr = [Query vehicle_query [ScalarQueryParameter ''vehicle_id'' ''STRING'' vehicle_id],
                 Query customer_query [ArrayQueryParameter ''customer_ids'' ''STRING'' destinations],
                 DatetimeNow, RandInt 30 90, RandomShuffle] @
                replicate (length customers) (RandInt 15 45) \<and>
           map_of body ''num_stops'' = Some (JInt (int (length customers))) \<and>
           map_of body ''message'' = Some (JStr ''Simulated route generated.'') \<and>
           (\<exists>route. map_of body ''route_stops'' = Some (JList route) \<and>
              map (\<lambda>stop. subscript stop ''destination_id'') route =
                map (\<lambda>customer. subscript customer ''customer_id'') (shuffle_with (w_nat W 4) customers))"
proof -
  have loop: "simulated_route L W pre per i ct customers = (Inr route, tr2) \<Longrightarrow>
             tr2 = pre @ replicate (length customers) (RandInt 15 45) \<and> length route = length customers \<and>
             map (\<lambda>stop. subscript stop ''destination_id'') route =
               map (\<lambda>customer. subscript customer ''customer_id'') customers"
    for pre per i ct customers route tr2
    by (rule simulated_route_calls)
  have len: "length (shuffle_with seed xs) = length xs" for seed and xs :: "json list"
  proof (induction seed xs rule: shuffle_with.induct)
    case (1 seed)
    then show ?case by simp
  next
    case (2 seed x xs)
    let ?k = "seed mod length (x # xs)"
    let ?rest = "take ?k (x # xs) @ drop (Suc ?k) (x # xs)"
    have k: "?k < length (x # xs)" by (rule mod_less_divisor) simp
    have rest: "length ?rest = length xs" using k by (simp only: length_append length_take length_drop) simp
    have "length (shuffle_with (seed div length (x # xs)) ?rest) = length ?rest"
      by (rule 2[OF refl refl])
    then have "length (shuffle_with seed (x # xs)) = Suc (length ?rest)"
      by (simp only: shuffle_with.simps(2) Let_def list.size length_Cons) 
    then show ?case using rest by simp
  qed
  have four: "(4 :: nat) = Suc (Suc (Suc (Suc 0)))" by simp
  show ?thesis
    using assms
    unfolding four
    by (auto simp: optimize_delivery_route_try_def fetch_rows_def fetch_outcome_def Let_def datetime_now_def
        randint_def shuffle_def len
        split: sum.splits if_splits prod.splits json.splits pyexc.splits
        dest!: loop)
qed


lemma handle_optimize_delivery_route_success:
  assumes "handle_optimize_delivery_route L W [] data = (Inr (200, JObj body), tr)"
    and "map_of body ''status'' = Some (JStr ''success'')"
  shows "\<exists>vehicle_id destinations customers.
           w_query W 1 = Inr customers \<and>
           tr = [Query vehicle_query [ScalarQueryParameter ''vehicle_id'' ''STRING'' vehicle_id],
                 Query customer_query [ArrayQueryParameter ''customer_ids'' ''STRING'' destinations],
                 DatetimeNow, RandInt 30 90, RandomShuffle] @
                replicate (length customers) (RandInt 15 45) \<and>
           map_of body ''num_stops'' = Some (JInt (int (length customers))) \<and>
           map_of body ''message'' = Some (JStr ''Simulated route generated.'') \<and>
           (\<exists>route. map_of body ''route_stops'' = Some (JList route) \<and>
              map (\<lambda>stop. subscript stop ''destination_id'') route =
                map (\<lambda>customer. subscript customer ''customer_id'') (shuffle_with (w_nat W 4) customers))"
proof -
  have "optimize_delivery_route_try L W [] data = (Inr (200, JObj body), tr)"
    using assms
    by (cases "optimize_delivery_route_try L W [] data")
      (auto simp: handle_optimize_delivery_route_def except_exception_def missing_body_def error_message_def
        split: sum.splits option.splits if_splits)
  from optimize_delivery_route_try_success[OF this assms(2)] show ?thesis .
qed

lemma geocode_address_posts:
  "geocode_address W tr a k = (c, tr') \<Longrightarrow> \<exists>cs. tr' = tr @ cs \<and> posts_of cs = []"
  by (auto simp: geocode_address_def split: if_splits)

lemma get_location_coordinates_posts:
  "get_location_coordinates L W tr loc k = (c, tr') \<Longrightarrow> \<exists>cs. tr' = tr @ cs \<and> posts_of cs = []"
  by (auto simp: get_location_coordinates_def geocode_address_def Let_def
      split: sum.splits list.splits option.splits if_splits prod.splits)

lemma destination_rows_posts:
  "destination_rows L W tr k rows = (r, tr') \<Longrightarrow> \<exists>cs. tr' = tr @ cs \<and> posts_of cs = []"
proof (induction rows arbitrary: tr r tr')
  case Nil
  then show ?case by simp
next
  case (Cons row rows)
  show ?case
  proof (cases "subscript row ''delivery_address''")
    case (Inl e)
    then show ?thesis using Cons.prems by simp
  next
    case (Inr address_string)
    obtain coords tr1 where g: "(case parse_dummy_coords L address_string of
              Some coords \<Rightarrow> (coords, tr)
            | None \<Rightarrow> geocode_address W tr address_string k) = (coords, tr1)"
      by (cases "(case parse_dummy_coords L address_string of
              Some coords \<Rightarrow> (coords, tr)
            | None \<Rightarrow> geocode_address W tr address_string k)")
    then obtain cs1 where cs1: "tr1 = tr @ cs1" "posts_of cs1 = []"
      using geocode_address_posts[of W tr address_string k coords tr1]
      by (auto split: option.splits)
    show ?thesis
    proof (cases "\<exists>e. r = Inl e \<and> tr' = tr1")
      case True
      then show ?thesis using cs1 by auto
    next
      case False
      then obtain r2 where rec: "destination_rows L W tr1 k rows = (r2, tr')"
        using Cons.prems Inr g
        by (auto split: sum.splits prod.splits if_splits)
      from Cons.IH[OF rec] obtain cs where "tr' = tr1 @ cs" "posts_of cs = []" by blast
      then show ?thesis using cs1 by (intro exI[of _ "cs1 @ cs"]) (simp add: posts_of_append)
    qed
  qed
qed

lemma retrieve_locations_posts:
  assumes "retrieve_locations L W [] k origin_id ids vehicle_id = (r, tr)"
  shows "posts_of tr = []"
proof -
  obtain c tr1 where loc: "get_location_coordinates L W [] origin_id k = (c, tr1)"
    by (cases "get_location_coordinates L W [] origin_id k")
  from get_location_coordinates_posts[OF loc] have p1: "posts_of tr1 = []" by auto
  obtain d tr2 where dest: "get_destination_details_for_orders L W tr1 ids k = (d, tr2)"
    by (cases "get_destination_details_for_orders L W tr1 ids k")
  have p2: "posts_of tr2 = []"
  proof -
    have "tr2 = tr1 @ [Query destination_query [ArrayQueryParameter ''order_ids'' ''STRING'' ids]] \<or>
          (\<exists>rows r2. destination_rows L W
             (tr1 @ [Query destination_query [ArrayQueryParameter ''order_ids'' ''STRING'' ids]]) k rows = (r2, tr2))"
      using dest
      by (auto simp: get_destination_details_for_orders_def fetch_rows_fn_def
          split: if_splits json.splits prod.splits)
    then show ?thesis
      using p1 by (auto simp: posts_of_append dest!: destination_rows_posts)
  qed
  have p3: "posts_of (snd (get_vehicle_details L W tr2 vehicle_id)) = []"
    using p2 by (simp add: get_vehicle_details_def fetch_rows_fn_def posts_of_append split: prod.splits)
  show ?thesis
    using assms loc dest p1 p2 p3
    by (auto simp: retrieve_locations_def split: sum.splits if_splits prod.splits)
qed

lemma compute_and_package_success:
  assumes "compute_and_package L W tr k origin_id vehicle_id route_date_str origin_coords dests =
             (Inr (JObj body, 200), tr')"
    and "map_of body ''status'' = Some (JStr ''success'')"
  shows "\<exists>payload headers api_result routes main_route duration distance legs.
           tr' = tr @ [HttpPost ROUTES_API_URL payload headers, DatetimeNow, RandInt 5 15] \<and>
           w_http W (length tr) = Inr api_result \<and>
           subscript api_result ''routes'' = Inr routes \<and>
           first_item routes = Inr main_route \<and>
           get_default main_route ''duration'' (JStr ''0s'') = Inr duration \<and>
           get_default main_route ''distanceMeters'' (JInt 0) = Inr distance \<and>
           get_default main_route ''legs'' (JList []) = Inr legs \<and>
           map_of body ''estimated_total_duration'' = Some duration \<and>
           map_of body ''estimated_total_distance_meters'' = Some distance \<and>
           (\<exists>leg_list. py_iter legs = Inr leg_list \<and>
              map_of body ''num_stops_on_route'' = Some (JInt (int (length leg_list) + 1)))"
  using assms
  by (auto simp: compute_and_package_def call_routes_api_compute_routes_def datetime_now_def randint_def
      Let_def
      split: sum.splits if_splits prod.splits)


lemma retrieve_locations_response:
  assumes "retrieve_locations L W tr k origin_id ids vehicle_id = (Inr (Inl (JObj body, code)), tr')"
  shows "map_of body ''status'' \<noteq> Some (JStr ''success'')"
  using assms
  by (auto simp: retrieve_locations_def split: sum.splits if_splits prod.splits)

lemma handle_optimize_delivery_route_fn_success:
  assumes "handle_optimize_delivery_route_fn L W api_key req = (Inr (JObj body, 200), tr)"
    and "map_of body ''status'' = Some (JStr ''success'')"
  shows "\<exists>pre payload headers api_result routes main_route duration distance legs.
           tr = pre @ [HttpPost ROUTES_API_URL payload headers, DatetimeNow, RandInt 5 15] \<and>
           posts_of pre = [] \<and>
           w_http W (length pre) = Inr api_result \<and>
           subscript api_result ''routes'' = Inr routes \<and>
           first_item routes = Inr main_route \<and>
           get_default main_route ''duration'' (JStr ''0s'') = Inr duration \<and>
           get_default main_route ''distanceMeters'' (JInt 0) = Inr distance \<and>
           get_default main_route ''legs'' (JList []) = Inr legs \<and>
           map_of body ''estimated_total_duration'' = Some duration \<and>
           map_of body ''estimated_total_distance_meters'' = Some distance \<and>
           (\<exists>leg_list. py_iter legs = Inr leg_list \<and>
              map_of body ''num_stops_on_route'' = Some (JInt (int (length leg_list) + 1)))"
proof -
  have "\<exists>origin_id ids vehicle_id route_date_str origin_coords dests pre.
          retrieve_locations L W [] api_key origin_id ids vehicle_id = (Inr (Inr (origin_coords, dests)), pre) \<and>
          compute_and_package L W pre api_key origin_id vehicle_id route_date_str origin_coords dests =
            (Inr (JObj body, 200), tr)"
    using assms
    by (auto simp: handle_optimize_delivery_route_fn_def Let_def
        split: sum.splits if_splits prod.splits dest: retrieve_locations_response) blast
  then obtain origin_id ids vehicle_id route_date_str origin_coords dests pre where
    loc: "retrieve_locations L W [] api_key origin_id ids vehicle_id = (Inr (Inr (origin_coords, dests)), pre)"
    and pack: "compute_and_package L W pre api_key origin_id vehicle_id route_date_str origin_coords dests =
            (Inr (JObj body, 200), tr)"
    by blast
  from retrieve_locations_posts[OF loc] have "posts_of pre = []" .
  with compute_and_package_success[OF pack assms(2)] show ?thesis by blast
qed

lemma logifresh_route_optimize:
  assumes "req_method req = ''POST''" and "req_path req = ''/route/optimize''"
    and "logifresh_backend_function L W req = (answer, tr)"
  shows "tr = [] \<or> (\<exists>r. handle_optimize_delivery_route L W [] (req_json req) = (r, tr))"
  using assms
  by (cases "handle_optimize_delivery_route L W [] (req_json req)")
    (auto simp: logifresh_backend_function_def respond_def Let_def split: if_splits sum.splits prod.splits)

lemma route_run:
  "logifresh_backend_function example_lib route_world route_request =
     (Inr (JObj [(''status'', JStr ''success''), (''vehicle_id'', JStr ''V1''),
                 (''num_stops'', JInt 1),
                 (''estimated_total_duration_minutes'', JInt 30),
                 (''route_stops'',
                    JList [JObj [(''stop_number'', JInt 1),
                                 (''destination_id'', JStr ''C1''),
                                 (''destination_address'', JStr ''1 Main St''),
                                 (''estimated_arrival_time'', JStr ''2024-05-10T00:30:00''),
                                 (''estimated_service_duration_minutes'', JInt 15)]]),
                 (''message'', JStr ''Simulated route generated.'')], 200),
      [Query vehicle_query [ScalarQueryParameter ''vehicle_id'' ''STRING'' (JStr ''V1'')],
       Query customer_query [ArrayQueryParameter ''customer_ids'' ''STRING'' (JList [JStr ''C1''])],
       DatetimeNow, RandInt 30 90, RandomShuffle, RandInt 15 45])"
  by (simp add: logifresh_backend_function_def route_request_def handle_optimize_delivery_route_def
      optimize_delivery_route_try_def missing_fields_def except_exception_def respond_def
      fetch_rows_def fetch_outcome_def route_world_def example_world_def example_lib_def
      datetime_now_def randint_def shuffle_def Let_def timedelta_def datetime_plus_def us_per_day_def
      MAXORDINAL_def)

lemma routes_api_run:
  "handle_optimize_delivery_route_fn example_lib routes_api_world (JStr ''key'') routes_api_request =
     (Inr (JObj [(''status'', JStr ''success''), (''vehicle_id'', JNull),
                  (''num_stops_on_route'', JInt 1),
                  (''estimated_total_duration'', JStr ''600s''),
                  (''estimated_total_distance_meters'', JInt 5000),
                  (''route_stops'',
                     JList [JObj [(''stop_number'', JInt 0), (''location_id'', JStr ''F1''),
                                  (''location_type'', JStr ''Origin''),
                                  (''estimated_arrival_time'', JStr ''2024-05-10T00:05:00''),
                                  (''estimated_duration_from_previous_stop'', JStr ''0s''),
                                  (''estimated_distance_from_previous_stop_meters'', JInt 0)]]),
                  (''route_date'', JNull)], 200),
       [Query location_query [ScalarQueryParameter ''loc_id'' ''STRING'' (JStr ''F1'')],
        HttpGet GEOCODING_API_URL (JObj [(''address'', JStr ''Farm Road 1''), (''key'', JStr ''key'')]),
        Query destination_query [ArrayQueryParameter ''order_ids'' ''STRING'' (JList [JStr ''O1''])],
        HttpGet GEOCODING_API_URL (JObj [(''address'', JStr ''1 Main St''), (''key'', JStr ''key'')]),
        HttpPost ROUTES_API_URL
          (routes_api_payload
             (JObj [(''latitude'', JFloat (Finite (3 / 2))), (''longitude'', JFloat (Finite (5 / 2)))])
             [waypoint (JObj [(''latitude'', JFloat (Finite (3 / 2))),
                              (''longitude'', JFloat (Finite (5 / 2)))])])
          (routes_api_headers (JStr ''key'')),
        DatetimeNow, RandInt 5 15])"
  by (simp add: handle_optimize_delivery_route_fn_def routes_api_request_def retrieve_locations_def
      get_location_coordinates_def parse_dummy_coords_def geocode_address_def geocode_location_def
      get_destination_details_for_orders_def fetch_rows_fn_def fetch_outcome_fn_def
      compute_and_package_def call_routes_api_compute_routes_def destination_waypoint_def
      routes_api_world_def example_world_def example_lib_def
      datetime_now_def randint_def Let_def timedelta_def datetime_plus_def us_per_day_def
      MAXORDINAL_def)

text \<open>
  Claim C3, as amended. POST /route/optimize of the LogiFresh backend calls no web API:
  no run of its handler, and no request to that path, makes an HTTP call, and a run that
  answers "success" has made two warehouse queries (vehicle, customers), read the clock,
  shuffled the customers and drawn one random number for the pace and one for each
  customer; the stops of its answer are the customers in the shuffled order, and the
  answer says "Simulated route generated.". The route function
  (\<open>getoptimizedeliveryroute\<close>) is the one that calls the routing service: a run that
  answers 200 with status "success" has posted exactly one request, to the
  \<open>computeRoutes\<close> URL, as its last call to the outside but for the clock and one random
  draw, and its total duration, total distance and number of stops are read from the
  first route of the answer of that service.
\<close>

theorem route_optimization_sources:
  "(handle_optimize_delivery_route L W [] data = (r, tr) \<longrightarrow> list_all (\<lambda>c. \<not> is_http c) tr)
   \<and> (req_method req = ''POST'' \<and> req_path req = ''/route/optimize'' \<and>
      logifresh_backend_function L W req = (answer, tr) \<longrightarrow> list_all (\<lambda>c. \<not> is_http c) tr)
   \<and> (handle_optimize_delivery_route L W [] data = (Inr (200, JObj body), tr) \<and>
      map_of body ''status'' = Some (JStr ''success'') \<longrightarrow>
      (\<exists>vehicle_id destinations customers.
         w_query W 1 = Inr customers \<and>
         tr = [Query vehicle_query [ScalarQueryParameter ''vehicle_id'' ''STRING'' vehicle_id],
               Query customer_query [ArrayQueryParameter ''customer_ids'' ''STRING'' destinations],
               DatetimeNow, RandInt 30 90, RandomShuffle] @
              replicate (length customers) (RandInt 15 45) \<and>
         map_of body ''num_stops'' = Some (JInt (int (length customers))) \<and>
         map_of body ''message'' = Some (JStr ''Simulated route generated.'') \<and>
         (\<exists>route. map_of body ''route_stops'' = Some (JList route) \<and>
            map (\<lambda>stop. subscript stop ''destination_id'') route =
              map (\<lambda>customer. subscript customer ''customer_id'') (shuffle_with (w_nat W 4) customers))))
   \<and> (handle_optimize_delivery_route_fn L W api_key req = (Inr (JObj body, 200), tr) \<and>
      map_of body ''status'' = Some (JStr ''success'') \<longrightarrow>
      (\<exists>pre payload headers api_result routes main_route duration distance legs.
         tr = pre @ [HttpPost ROUTES_API_URL payload headers, DatetimeNow, RandInt 5 15] \<and>
         posts_of pre = [] \<and>
         w_http W (length pre) = Inr api_result \<and>
         subscript api_result ''routes'' = Inr routes \<and>
         first_item routes = Inr main_route \<and>
         get_default main_route ''duration'' (JStr ''0s'') = Inr duration \<and>
         get_default main_route ''distanceMeters'' (JInt 0) = Inr distance \<and>
         get_default main_route ''legs'' (JList []) = Inr legs \<and>
         map_of body ''estimated_total_duration'' = Some duration \<and>
         map_of body ''estimated_total_distance_meters'' = Some distance \<and>
         (\<exists>leg_list. py_iter legs = Inr leg_list \<and>
            map_of body ''num_stops_on_route'' = Some (JInt (int (length leg_list) + 1)))))"
  apply (intro conjI)
  subgoal using handle_optimize_delivery_route_no_http[of L W data r tr] by blast
  subgoal
    using logifresh_route_optimize[of req L W answer tr]
      handle_optimize_delivery_route_no_http[of L W "req_json req" _ tr]
    by auto
  subgoal using handle_optimize_delivery_route_success[of L W data body tr] by blast
  subgoal using handle_optimize_delivery_route_fn_success[of L W api_key req body tr] by blast
  done

theorem route_optimization_sources_witness:
  "list_all (\<lambda>c. \<not> is_http c) (snd (logifresh_backend_function example_lib route_world route_request))
   \<and> (\<exists>payload headers.
        posts_of (snd (handle_optimize_delivery_route_fn example_lib routes_api_world (JStr ''key'')
                         routes_api_request)) =
          [(ROUTES_API_URL, payload, headers)])"
  using route_optimization_sources [where L = example_lib and W = route_world and req = route_request
      and answer = "fst (logifresh_backend_function example_lib route_world route_request)"
      and tr = "snd (logifresh_backend_function example_lib route_world route_request)"]
    route_optimization_sources [where L = example_lib and W = routes_api_world
      and api_key = "JStr ''key''" and req = routes_api_request
      and body = "[(''status'', JStr ''success''), (''vehicle_id'', JNull),
                  (''num_stops_on_route'', JInt 1),
                  (''estimated_total_duration'', JStr ''600s''),
                  (''estimated_total_distance_meters'', JInt 5000),
                  (''route_stops'',
                     JList [JObj [(''stop_number'', JInt 0), (''location_id'', JStr ''F1''),
                                  (''location_type'', JStr ''Origin''),
                                  (''estimated_arrival_time'', JStr ''2024-05-10T00:05:00''),
                                  (''estimated_duration_from_previous_stop'', JStr ''0s''),
                                  (''estimated_distance_from_previous_stop_meters'', JInt 0)]]),
                  (''route_date'', JNull)]"
      and tr = "snd (handle_optimize_delivery_route_fn example_lib routes_api_world (JStr ''key'')
                       routes_api_request)"]
  by (auto simp: route_request_def routes_api_run posts_of_append)

text \<open>
  Claim C3 as stated fails for POST /route/optimize: the backend answers the request
  below with a route that it has simulated, after two warehouse queries, the clock and
  three random draws, without a call to any routing service.
\<close>

theorem route_optimization_sources_counterexample:
  "logifresh_backend_function example_lib route_world route_request =
     (Inr (JObj [(''status'', JStr ''success''), (''vehicle_id'', JStr ''V1''),
                 (''num_stops'', JInt 1),
                 (''estimated_total_duration_minutes'', JInt 30),
                 (''route_stops'',
                    JList [JObj [(''stop_number'', JInt 1),
                                 (''destination_id'', JStr ''C1''),
                                 (''destination_address'', JStr ''1 Main St''),
                                 (''estimated_arrival_time'', JStr ''2024-05-10T00:30:00''),
                                 (''estimated_service_duration_minutes'', JInt 15)]]),
                 (''message'', JStr ''Simulated route generated.'')], 200),
      [Query vehicle_query [ScalarQueryParameter ''vehicle_id'' ''STRING'' (JStr ''V1'')],
       Query customer_query [ArrayQueryParameter ''customer_ids'' ''STRING'' (JList [JStr ''C1''])],
       DatetimeNow, RandInt 30 90, RandomShuffle, RandInt 15 45])
   \<and> filter is_http (snd (logifresh_backend_function example_lib route_world route_request)) = []"
  by (simp add: route_run)

end
